theory Spec2Isabelle
  imports Complex_Main "HOL-Library.Stream"
begin

text \<open>
  A model of the orbital visualisation core of the presentation: the procedural meteor
  mesh (\<^verbatim>\<open>render/Meteor.js\<close>), the progressive creation of meteors (\<^verbatim>\<open>ThreeDemo.js\<close>,
  \<^verbatim>\<open>components/IntroSlide.js\<close>), the orbit propagator and the camera controller
  (\<^verbatim>\<open>controller/CameraController.js\<close>).

  JavaScript numbers are IEEE doubles. Rounding, overflow to infinity and the sign of zero
  are not modelled: a finite number is a real. Where the code itself tests for \<^verbatim>\<open>NaN\<close> and
  infinities (the camera controller), numbers are the type \<open>num\<close> below, which has them;
  the mesh generator and the propagator are given finite numbers and are modelled on the
  reals, a division by zero written out where the code can reach one.
\<close>


section \<open>Vectors\<close>

datatype 'a vector3 = Vector3 (vx: 'a) (vy: 'a) (vz: 'a)

text \<open>The methods of \<^verbatim>\<open>THREE.Vector3\<close> that the mesh generator calls, on real coordinates.\<close>

definition length_v :: "real vector3 \<Rightarrow> real" where
  "length_v v = sqrt (vx v * vx v + vy v * vy v + vz v * vz v)"

definition multiplyScalar :: "real vector3 \<Rightarrow> real \<Rightarrow> real vector3" where
  "multiplyScalar v s = Vector3 (vx v * s) (vy v * s) (vz v * s)"

text \<open>\<^verbatim>\<open>normalize()\<close> is \<^verbatim>\<open>divideScalar(this.length() || 1)\<close>: the zero vector stays as it is.\<close>

definition normalize_v :: "real vector3 \<Rightarrow> real vector3" where
  "normalize_v v = multiplyScalar v (1 / (if length_v v = 0 then 1 else length_v v))"

text \<open>\<^verbatim>\<open>Math.atan2(y, x)\<close> on finite numbers.\<close>

definition atan2 :: "real \<Rightarrow> real \<Rightarrow> real" where
  "atan2 y x =
     (if 0 < x then arctan (y / x)
      else if x < 0 then (if 0 \<le> y then arctan (y / x) + pi else arctan (y / x) - pi)
      else if 0 < y then pi / 2
      else if y < 0 then - (pi / 2)
      else 0)"

section \<open>Procedural meteor mesh (render/Meteor.js)\<close>

text \<open>
  The vertices of \<^verbatim>\<open>new THREE.SphereGeometry(radius, widthSegments, heightSegments)\<close>, in
  the order of the position attribute: rows \<^verbatim>\<open>iy = 0 .. heightSegments\<close> from the north pole
  down, each with \<^verbatim>\<open>ix = 0 .. widthSegments\<close>. The library takes at least three segments
  around and two from pole to pole.
\<close>

definition sphere_vertex :: "real \<Rightarrow> nat \<Rightarrow> nat \<Rightarrow> nat \<Rightarrow> nat \<Rightarrow> real vector3" where
  "sphere_vertex radius widthSegments heightSegments iy ix =
     (let v = real iy / real heightSegments;
          u = real ix / real widthSegments
      in Vector3 (- radius * cos (u * (pi * 2)) * sin (v * pi))
                 (radius * cos (v * pi))
                 (radius * sin (u * (pi * 2)) * sin (v * pi)))"

definition SphereGeometry :: "real \<Rightarrow> nat \<Rightarrow> nat \<Rightarrow> real vector3 list" where
  "SphereGeometry radius widthSegments heightSegments =
     (let w = max 3 widthSegments; h = max 2 heightSegments
      in concat (map (\<lambda>iy. map (\<lambda>ix. sphere_vertex radius w h iy ix) [0..<Suc w]) [0..<Suc h]))"

definition simpleNoise :: "real \<Rightarrow> real \<Rightarrow> real \<Rightarrow> real" where
  "simpleNoise x y z =
     (sin (x * 2.1 + y * 1.3 + z * 0.7) * 0.5 +
      sin (x * 1.7 + y * 2.9 + z * 1.1) * 0.3 +
      sin (x * 3.3 + y * 0.9 + z * 2.3) * 0.2) / 3"

definition deformation :: "real \<Rightarrow> real vector3 \<Rightarrow> real" where
  "deformation seed direction =
     (let noise1 = simpleNoise (vx direction * 3 + seed) (vy direction * 3 + seed)
                     (vz direction * 3 + seed);
          noise2 = simpleNoise (vx direction * 8 + seed) (vy direction * 8 + seed)
                     (vz direction * 8 + seed);
          noise3 = simpleNoise (vx direction * 15 + seed) (vy direction * 15 + seed)
                     (vz direction * 15 + seed)
      in noise1 * 0.3 + noise2 * 0.15 + noise3 * 0.08)"

definition newRadius :: "real \<Rightarrow> real \<Rightarrow> real vector3 \<Rightarrow> real" where
  "newRadius radius seed vertex = radius * (0.85 + deformation seed (normalize_v vertex) * 0.3)"

text \<open>
  The body of the loop over the vertices. \<^verbatim>\<open>newRadius / vertex.length()\<close> divides by zero for
  a vertex at the centre, and the coordinates written back are then \<^verbatim>\<open>NaN\<close>: the result is
  \<open>None\<close> there.
\<close>

definition displace :: "real \<Rightarrow> real \<Rightarrow> real vector3 \<Rightarrow> real vector3 option" where
  "displace radius seed vertex =
     (if length_v vertex = 0 then None
      else Some (multiplyScalar vertex (newRadius radius seed vertex / length_v vertex)))"

text \<open>
  \<^verbatim>\<open>Math.random()\<close> is an explicit stream of the values it returns, each in \<open>[0, 1)\<close>: a call
  takes the head and leaves the tail.
\<close>

definition Math_random :: "real stream \<Rightarrow> real \<times> real stream" where
  "Math_random rng = (shd rng, stl rng)"

text \<open>
  Every geometry of the library is a \<^verbatim>\<open>BufferGeometry\<close>, whose constructor sets
  \<^verbatim>\<open>this.uuid = generateUUID()\<close>. \<^verbatim>\<open>generateUUID\<close> draws four numbers, each as
  \<^verbatim>\<open>Math.random() * 0xffffffff | 0\<close>, and prints their bytes; the identifier is the four
  32-bit integers here. \<^verbatim>\<open>x | 0\<close> truncates and wraps into the signed 32-bit range.
\<close>

definition toInt32 :: "real \<Rightarrow> int" where
  "toInt32 x =
     (let n = (if 0 \<le> x then \<lfloor>x\<rfloor> else \<lceil>x\<rceil>)
      in (n + 2147483648) mod 4294967296 - 2147483648)"

type_synonym uuid = "int \<times> int \<times> int \<times> int"

definition generateUUID :: "real stream \<Rightarrow> uuid \<times> real stream" where
  "generateUUID rng =
     (let (u0, rng1) = Math_random rng;
          d0 = toInt32 (u0 * 4294967295);
          (u1, rng2) = Math_random rng1;
          d1 = toInt32 (u1 * 4294967295);
          (u2, rng3) = Math_random rng2;
          d2 = toInt32 (u2 * 4294967295);
          (u3, rng4) = Math_random rng3;
          d3 = toInt32 (u3 * 4294967295)
      in ((d0, d1, d2, d3), rng4))"

text \<open>A geometry: its identifier and the vertices of its position attribute.\<close>

record 'v geometry =
  uuid :: uuid
  positions :: "'v list"

definition new_SphereGeometry ::
  "real \<Rightarrow> nat \<Rightarrow> nat \<Rightarrow> real stream \<Rightarrow> real vector3 geometry \<times> real stream" where
  "new_SphereGeometry radius widthSegments heightSegments rng =
     (let (u, rng1) = generateUUID rng
      in (\<lparr>uuid = u, positions = SphereGeometry radius widthSegments heightSegments\<rparr>, rng1))"

text \<open>
  \<^verbatim>\<open>createGeoidGeometry(radius, segments)\<close>. The seed is not an argument: it is
  \<^verbatim>\<open>Math.random() * 1000\<close>, drawn once the sphere has been built, so it is the fifth number
  that the call draws. The value is the geometry with the displaced vertices (the normals
  recomputed at the end do not change them) and the rest of the random numbers.
\<close>

definition createGeoidGeometry ::
  "real \<Rightarrow> nat \<Rightarrow> real stream \<Rightarrow> real vector3 option geometry \<times> real stream" where
  "createGeoidGeometry radius segments rng =
     (let (geometry, rng1) = new_SphereGeometry radius segments segments rng;
          (u, rng2) = Math_random rng1;
          seed = u * 1000
      in (\<lparr>uuid = uuid geometry,
           positions = map (displace radius seed) (positions geometry)\<rparr>, rng2))"


section \<open>Orbital elements and the propagator\<close>

text \<open>
  The record of orbital elements that \<^verbatim>\<open>Meteor.startOrbit\<close> passes on and that the parsed
  orbit files hold: \<^verbatim>\<open>semiMajorAxis\<close>, \<^verbatim>\<open>eccentricity\<close>, \<^verbatim>\<open>period\<close>, \<^verbatim>\<open>inclination\<close>, \<^verbatim>\<open>omega\<close>,
  \<^verbatim>\<open>raan\<close>.
\<close>

record OrbitalElements =
  semiMajorAxis :: real
  eccentricity :: real
  period :: real
  inclination :: real
  omega :: real
  raan :: real

text \<open>The elements the specification calls valid.\<close>

definition valid_elements :: "OrbitalElements \<Rightarrow> bool" where
  "valid_elements el \<longleftrightarrow>
     0 < semiMajorAxis el \<and> 0 \<le> eccentricity el \<and> eccentricity el < 1 \<and> 0 < period el"

text \<open>
  Modelled from the spec: the propagator (\<^verbatim>\<open>render/Orbit.js\<close>, imported by \<^verbatim>\<open>Meteor.js\<close>) is
  not among the files at hand. The definitions below follow the six steps of the
  specification's section 4.1.
\<close>

text \<open>Modelled from the spec: \<open>t mod period\<close>, defined for every real \<open>t\<close>.\<close>

definition rmod :: "real \<Rightarrow> real \<Rightarrow> real" where
  "rmod t p = t - p * of_int \<lfloor>t / p\<rfloor>"

text \<open>Modelled from the spec: step 1, the mean anomaly.\<close>

definition meanAnomaly :: "OrbitalElements \<Rightarrow> real \<Rightarrow> real" where
  "meanAnomaly el t = 2 * pi * rmod t (period el) / period el"

text \<open>
  Modelled from the spec: step 2, Newton--Raphson on Kepler's equation \<open>M = E - e sin E\<close>,
  until the step is below \<open>1e-6\<close> or the cap on the iterations is reached, when the best
  estimate is returned.
\<close>

fun newton :: "nat \<Rightarrow> real \<Rightarrow> real \<Rightarrow> real \<Rightarrow> real" where
  "newton 0 e M E = E"
| "newton (Suc n) e M E =
     (let dE = (E - e * sin E - M) / (1 - e * cos E); E' = E - dE
      in if \<bar>dE\<bar> < 1 / 1000000 then E' else newton n e M E')"

definition eccentricAnomaly :: "real \<Rightarrow> real \<Rightarrow> real" where
  "eccentricAnomaly e M = newton 30 e M M"

text \<open>
  Modelled from the spec: steps 3 to 6. The orbital plane is the plane \<open>y = 0\<close>; the
  rotations by \<open>omega\<close> and by \<open>raan\<close> turn about the \<open>y\<close> axis, the tilt by the inclination
  about the \<open>x\<close> axis, in the order the specification gives.
\<close>

definition rotateY :: "real \<Rightarrow> real vector3 \<Rightarrow> real vector3" where
  "rotateY a v = Vector3 (vx v * cos a - vz v * sin a) (vy v) (vx v * sin a + vz v * cos a)"

definition rotateX :: "real \<Rightarrow> real vector3 \<Rightarrow> real vector3" where
  "rotateX a v = Vector3 (vx v) (vy v * cos a - vz v * sin a) (vy v * sin a + vz v * cos a)"

definition propagate :: "OrbitalElements \<Rightarrow> real \<Rightarrow> real vector3" where
  "propagate el t =
     (let e = eccentricity el;
          M = meanAnomaly el t;
          E = eccentricAnomaly e M;
          nu = 2 * atan2 (sqrt (1 + e) * sin (E / 2)) (sqrt (1 - e) * cos (E / 2));
          r = semiMajorAxis el * (1 - e * cos E);
          inPlane = Vector3 (r * cos nu) 0 (r * sin nu)
      in rotateY (raan el) (rotateX (inclination el) (rotateY (omega el) inPlane)))"

text \<open>
  Modelled from the spec: equality within a relative tolerance, coordinate by coordinate.
\<close>

definition close_rel :: "real \<Rightarrow> real \<Rightarrow> real \<Rightarrow> bool" where
  "close_rel tol a b \<longleftrightarrow> \<bar>a - b\<bar> \<le> tol * max \<bar>a\<bar> \<bar>b\<bar>"

definition close_rel_v :: "real \<Rightarrow> real vector3 \<Rightarrow> real vector3 \<Rightarrow> bool" where
  "close_rel_v tol p q \<longleftrightarrow>
     close_rel tol (vx p) (vx q) \<and> close_rel tol (vy p) (vy q) \<and> close_rel tol (vz p) (vz q)"


section \<open>Progressive meteor creation (ThreeDemo.js, IntroSlide.js)\<close>

text \<open>
  \<^verbatim>\<open>createMeteorsFromOrbitsProgressive\<close> creates one meteor per orbit record, in batches that
  are chained with \<^verbatim>\<open>setTimeout\<close>. The closure state of the source (\<^verbatim>\<open>index\<close>, \<^verbatim>\<open>meteors\<close>)
  is an explicit record here; the calls of \<^verbatim>\<open>onBatchCreated(meteors)\<close> are recorded by the
  length of the array they receive. The body of the \<^verbatim>\<open>try\<close> block builds a meteor with
  code that is not part of the files at hand (the \<^verbatim>\<open>AstralObject\<close> constructor,
  \<^verbatim>\<open>setCamera\<close>, \<^verbatim>\<open>startOrbit\<close>), so it is a parameter \<open>mk\<close> from the initial position to
  the meteor, \<open>None\<close> when it throws. A \<^verbatim>\<open>null\<close> or \<^verbatim>\<open>undefined\<close> array entry is \<open>None\<close> in the
  list of orbits: reading \<^verbatim>\<open>orbits[index].semiMajorAxis\<close> throws there.
\<close>

definition METEOR_BATCH_SIZE :: nat where
  "METEOR_BATCH_SIZE = 10"

definition MAX_METEORS :: nat where
  "MAX_METEORS = 200"

record 'm batch_state =
  index :: nat
  meteors :: "'m list"
  reported :: "nat list"

definition try_create ::
  "(real \<times> real \<times> real \<Rightarrow> 'm option) \<Rightarrow> OrbitalElements option list \<Rightarrow> nat \<Rightarrow> 'm option" where
  "try_create mk orbits i =
     (case orbits ! i of
        None \<Rightarrow> None
      | Some ob \<Rightarrow> mk (semiMajorAxis ob * cos (omega ob), 0, semiMajorAxis ob * sin (omega ob)))"

text \<open>The \<^verbatim>\<open>for (; index < end; index++)\<close> loop: a failed creation is logged and skipped.\<close>

function batch_loop ::
  "(real \<times> real \<times> real \<Rightarrow> 'm option) \<Rightarrow> OrbitalElements option list \<Rightarrow> nat \<Rightarrow>
   'm batch_state \<Rightarrow> 'm batch_state" where
  "batch_loop mk orbits endIdx st =
     (if index st < endIdx
      then batch_loop mk orbits endIdx
             (case try_create mk orbits (index st) of
                Some m \<Rightarrow> st\<lparr>meteors := meteors st @ [m], index := Suc (index st)\<rparr>
              | None \<Rightarrow> st\<lparr>index := Suc (index st)\<rparr>)
      else st)"
  by pat_completeness auto
termination
  by (relation "measure (\<lambda>(mk, orbits, endIdx, st). endIdx - index st)")
     (auto split: option.splits)

definition createBatch ::
  "(real \<times> real \<times> real \<Rightarrow> 'm option) \<Rightarrow> OrbitalElements option list \<Rightarrow> nat \<Rightarrow> nat \<Rightarrow>
   'm batch_state \<Rightarrow> 'm batch_state" where
  "createBatch mk orbits batchSize totalCount st =
     (let endIdx = min (index st + batchSize) totalCount;
          st1 = batch_loop mk orbits endIdx st
      in st1\<lparr>reported := reported st1 @ [length (meteors st1)]\<rparr>)"

text \<open>
  The chain of timeouts: after a batch, \<^verbatim>\<open>if (index < total) setTimeout(createBatch, 16)\<close>.
  Nothing bounds the number of rounds (a batch size of zero reschedules for ever), so the
  result is optional: \<open>None\<close> is a chain that never ends.
\<close>

partial_function (option) run_batches ::
  "(real \<times> real \<times> real \<Rightarrow> 'm option) \<Rightarrow> OrbitalElements option list \<Rightarrow> nat \<Rightarrow> nat \<Rightarrow>
   'm batch_state \<Rightarrow> 'm batch_state option" where
  "run_batches mk orbits batchSize totalCount st =
     (let st' = createBatch mk orbits batchSize totalCount st
      in if index st' < totalCount then run_batches mk orbits batchSize totalCount st' else Some st')"

text \<open>
  The entry point. \<open>scene\<close> and \<open>sun\<close> say whether the two objects are present (truthy);
  without them, or without orbits, the source returns an empty array and calls nothing.
  The value is the state once the last batch has run.
\<close>

definition createMeteorsFromOrbitsProgressive ::
  "OrbitalElements option list \<Rightarrow> bool \<Rightarrow> bool \<Rightarrow> (real \<times> real \<times> real \<Rightarrow> 'm option) \<Rightarrow> nat \<Rightarrow>
   'm batch_state option" where
  "createMeteorsFromOrbitsProgressive orbits scene sun mk batchSize =
     (if orbits = [] \<or> \<not> scene \<or> \<not> sun
      then Some \<lparr>index = 0, meteors = [], reported = []\<rparr>
      else run_batches mk orbits batchSize (min (length orbits) MAX_METEORS)
             \<lparr>index = 0, meteors = [], reported = []\<rparr>)"

declare batch_loop.simps [simp del]

text \<open>The meteors made from the first \<open>n\<close> entries: one for each entry whose creation succeeds.\<close>

definition created_upto ::
  "(real \<times> real \<times> real \<Rightarrow> 'm option) \<Rightarrow> OrbitalElements option list \<Rightarrow> nat \<Rightarrow> 'm list" where
  "created_upto mk orbits n = List.map_filter (try_create mk orbits) [0..<n]"


section \<open>JavaScript numbers with infinities and NaN\<close>

text \<open>
  The camera controller tests its numbers with \<^verbatim>\<open>isNaN\<close> and \<^verbatim>\<open>isFinite\<close>, so its numbers
  are finite reals, the two infinities and \<^verbatim>\<open>NaN\<close>, with the arithmetic of IEEE 754 on
  them. Zero has no sign here: a division of a non-zero number by zero has the sign of the
  numerator.
\<close>

datatype num = Fin real | PInf | NInf | NaN

fun isNaN :: "num \<Rightarrow> bool" where
  "isNaN NaN = True"
| "isNaN _ = False"

fun isFinite :: "num \<Rightarrow> bool" where
  "isFinite (Fin _) = True"
| "isFinite _ = False"

fun num_add :: "num \<Rightarrow> num \<Rightarrow> num" where
  "num_add (Fin a) (Fin b) = Fin (a + b)"
| "num_add NaN _ = NaN"
| "num_add _ NaN = NaN"
| "num_add PInf NInf = NaN"
| "num_add NInf PInf = NaN"
| "num_add PInf _ = PInf"
| "num_add _ PInf = PInf"
| "num_add NInf _ = NInf"
| "num_add _ NInf = NInf"

fun num_neg :: "num \<Rightarrow> num" where
  "num_neg (Fin a) = Fin (- a)"
| "num_neg PInf = NInf"
| "num_neg NInf = PInf"
| "num_neg NaN = NaN"

fun num_mul :: "num \<Rightarrow> num \<Rightarrow> num" where
  "num_mul (Fin a) (Fin b) = Fin (a * b)"
| "num_mul NaN _ = NaN"
| "num_mul _ NaN = NaN"
| "num_mul (Fin a) b = (if a = 0 then NaN else if 0 < a then b else num_neg b)"
| "num_mul a (Fin b) = (if b = 0 then NaN else if 0 < b then a else num_neg a)"
| "num_mul PInf b = b"
| "num_mul NInf b = num_neg b"

fun num_div :: "num \<Rightarrow> num \<Rightarrow> num" where
  "num_div (Fin a) (Fin b) =
     (if b = 0 then (if a = 0 then NaN else if 0 < a then PInf else NInf) else Fin (a / b))"
| "num_div NaN _ = NaN"
| "num_div _ NaN = NaN"
| "num_div (Fin a) _ = Fin 0"
| "num_div PInf (Fin b) = (if 0 \<le> b then PInf else NInf)"
| "num_div NInf (Fin b) = (if 0 \<le> b then NInf else PInf)"
| "num_div _ _ = NaN"

fun num_less :: "num \<Rightarrow> num \<Rightarrow> bool" where
  "num_less (Fin a) (Fin b) = (a < b)"
| "num_less NaN _ = False"
| "num_less _ NaN = False"
| "num_less NInf NInf = False"
| "num_less NInf _ = True"
| "num_less PInf _ = False"
| "num_less (Fin a) PInf = True"
| "num_less (Fin a) NInf = False"

text \<open>The operators \<open>+\<close>, \<open>-\<close>, \<open>*\<close>, \<open>/\<close>, \<open><\<close> and \<open>\<le>\<close> on \<open>num\<close> are these functions.\<close>

instantiation num :: "{plus, minus, uminus, times, inverse, ord}"
begin

definition plus_num :: "num \<Rightarrow> num \<Rightarrow> num" where
  "plus_num a b = num_add a b"

definition uminus_num :: "num \<Rightarrow> num" where
  "uminus_num a = num_neg a"

definition minus_num :: "num \<Rightarrow> num \<Rightarrow> num" where
  "minus_num a b = num_add a (num_neg b)"

definition times_num :: "num \<Rightarrow> num \<Rightarrow> num" where
  "times_num a b = num_mul a b"

definition divide_num :: "num \<Rightarrow> num \<Rightarrow> num" where
  "divide_num a b = num_div a b"

definition inverse_num :: "num \<Rightarrow> num" where
  "inverse_num a = num_div (Fin 1) a"

definition less_num :: "num \<Rightarrow> num \<Rightarrow> bool" where
  "less_num a b = num_less a b"

definition less_eq_num :: "num \<Rightarrow> num \<Rightarrow> bool" where
  "less_eq_num a b \<longleftrightarrow> num_less a b \<or> (a = b \<and> \<not> isNaN a)"

instance ..

end

text \<open>The functions of \<^verbatim>\<open>Math\<close> that the controller and the vector library call.\<close>

definition Math_max :: "num \<Rightarrow> num \<Rightarrow> num" where
  "Math_max a b = (if isNaN a \<or> isNaN b then NaN else if a < b then b else a)"

definition Math_min :: "num \<Rightarrow> num \<Rightarrow> num" where
  "Math_min a b = (if isNaN a \<or> isNaN b then NaN else if b < a then b else a)"

fun Math_abs :: "num \<Rightarrow> num" where
  "Math_abs (Fin a) = Fin \<bar>a\<bar>"
| "Math_abs PInf = PInf"
| "Math_abs NInf = PInf"
| "Math_abs NaN = NaN"

fun Math_sin :: "num \<Rightarrow> num" where
  "Math_sin (Fin a) = Fin (sin a)"
| "Math_sin _ = NaN"

fun Math_cos :: "num \<Rightarrow> num" where
  "Math_cos (Fin a) = Fin (cos a)"
| "Math_cos _ = NaN"

fun Math_sqrt :: "num \<Rightarrow> num" where
  "Math_sqrt (Fin a) = (if a < 0 then NaN else Fin (sqrt a))"
| "Math_sqrt PInf = PInf"
| "Math_sqrt _ = NaN"

fun Math_acos :: "num \<Rightarrow> num" where
  "Math_acos (Fin a) = (if - 1 \<le> a \<and> a \<le> 1 then Fin (arccos a) else NaN)"
| "Math_acos _ = NaN"

fun Math_atan2 :: "num \<Rightarrow> num \<Rightarrow> num" where
  "Math_atan2 (Fin y) (Fin x) = Fin (atan2 y x)"
| "Math_atan2 NaN _ = NaN"
| "Math_atan2 _ NaN = NaN"
| "Math_atan2 (Fin y) PInf = Fin 0"
| "Math_atan2 (Fin y) NInf = Fin (if 0 \<le> y then pi else - pi)"
| "Math_atan2 PInf (Fin x) = Fin (pi / 2)"
| "Math_atan2 NInf (Fin x) = Fin (- (pi / 2))"
| "Math_atan2 PInf PInf = Fin (pi / 4)"
| "Math_atan2 PInf NInf = Fin (3 * pi / 4)"
| "Math_atan2 NInf PInf = Fin (- (pi / 4))"
| "Math_atan2 NInf NInf = Fin (- (3 * pi / 4))"

text \<open>\<^verbatim>\<open>Math.pow(x, 2)\<close>.\<close>

definition Math_pow2 :: "num \<Rightarrow> num" where
  "Math_pow2 x = x * x"

text \<open>A number is falsy when it is zero or \<^verbatim>\<open>NaN\<close>; \<^verbatim>\<open>x || d\<close> for an \<open>x\<close> that may be undefined.\<close>

definition truthy :: "num \<Rightarrow> bool" where
  "truthy x \<longleftrightarrow> \<not> isNaN x \<and> x \<noteq> Fin 0"

definition or_default :: "num option \<Rightarrow> num \<Rightarrow> num" where
  "or_default x d = (case x of None \<Rightarrow> d | Some v \<Rightarrow> if truthy v then v else d)"

section \<open>Vectors and spherical coordinates of the 3D library, on these numbers\<close>

definition vadd :: "num vector3 \<Rightarrow> num vector3 \<Rightarrow> num vector3" where
  "vadd a b = Vector3 (vx a + vx b) (vy a + vy b) (vz a + vz b)"

definition vsub :: "num vector3 \<Rightarrow> num vector3 \<Rightarrow> num vector3" where
  "vsub a b = Vector3 (vx a - vx b) (vy a - vy b) (vz a - vz b)"

definition vlength :: "num vector3 \<Rightarrow> num" where
  "vlength v = Math_sqrt (vx v * vx v + vy v * vy v + vz v * vz v)"

definition lerpVectors :: "num vector3 \<Rightarrow> num vector3 \<Rightarrow> num \<Rightarrow> num vector3" where
  "lerpVectors v1 v2 alpha =
     Vector3 (vx v1 + (vx v2 - vx v1) * alpha) (vy v1 + (vy v2 - vy v1) * alpha)
             (vz v1 + (vz v2 - vz v1) * alpha)"

definition clamp :: "num \<Rightarrow> num \<Rightarrow> num \<Rightarrow> num" where
  "clamp v lo hi = Math_max lo (Math_min hi v)"

record spherical =
  radius :: num
  phi :: num
  theta :: num

definition setFromSpherical :: "spherical \<Rightarrow> num vector3" where
  "setFromSpherical s =
     (let sinPhiRadius = Math_sin (phi s) * radius s
      in Vector3 (sinPhiRadius * Math_sin (theta s)) (Math_cos (phi s) * radius s)
                 (sinPhiRadius * Math_cos (theta s)))"

definition setFromVector3 :: "num vector3 \<Rightarrow> spherical" where
  "setFromVector3 v =
     (let r = Math_sqrt (vx v * vx v + vy v * vy v + vz v * vz v)
      in if r = Fin 0 then \<lparr>radius = r, phi = Fin 0, theta = Fin 0\<rparr>
         else \<lparr>radius = r, phi = Math_acos (clamp (vy v / r) (Fin (- 1)) (Fin 1)),
               theta = Math_atan2 (vx v) (vz v)\<rparr>)"


section \<open>Camera controller (controller/CameraController.js)\<close>

text \<open>
  The bodies the camera can follow (sun, earth, meteors) are objects of the scene. The
  controller holds references to them and reads two things: \<^verbatim>\<open>getPosition()\<close> and the
  property \<^verbatim>\<open>radius\<close>, which may be undefined. A reference is a number; what it refers to, and
  the reading of the clock \<^verbatim>\<open>Date.now()\<close>, are the environment of a call. One handler runs
  at one reading of the clock.
\<close>

type_synonym objref = nat

record body =
  getPosition :: "num vector3"
  bodyRadius :: "num option"

record env =
  now :: num
  bodies :: "objref \<Rightarrow> body"

datatype lock_mode = LockNone | LockSun | LockEarth | LockMeteor

text \<open>The camera: its position and the point it was last turned to by \<^verbatim>\<open>lookAt\<close>.\<close>

record camera_obj =
  position :: "num vector3"
  lookedAt :: "num vector3"

text \<open>
  The closure \<^verbatim>\<open>animate\<close> of \<^verbatim>\<open>transitionToTarget\<close>: the values it captures. The three
  callbacks \<^verbatim>\<open>onComplete\<close> of the source differ in the body and the mode they lock; the
  mode stands for the callback.
\<close>

record transition =
  targetObject :: objref
  targetDistance :: num
  onComplete :: lock_mode
  duration :: num
  startTarget :: "num vector3"
  startTheta :: num
  startPhi :: num
  startRadius :: num
  startTime :: num

text \<open>
  The fields of the controller, with two additions: \<open>frames\<close>, the callbacks handed to
  \<^verbatim>\<open>requestAnimationFrame\<close> and not yet run, and \<open>console\<close>, the messages logged.
\<close>

record controller =
  camera :: camera_obj
  target :: "num vector3"
  minDistance :: num
  maxDistance :: num
  currentDistance :: num
  rotationSpeed :: num
  zoomSpeed :: num
  isMouseDown :: bool
  mouseX :: num
  mouseY :: num
  lastMouseX :: num
  lastMouseY :: num
  spherical :: spherical
  autoRotate :: bool
  autoRotateSpeed :: num
  lockedTarget :: "objref option"
  lockMode :: lock_mode
  isTransitioning :: bool
  meteorsList :: "objref list"
  currentMeteorIndex :: int
  sunInstance :: "objref option"
  earthInstance :: "objref option"
  currentMeteor :: "objref option"
  frames :: "transition list"
  console :: "string list"

definition console_log :: "string \<Rightarrow> controller \<Rightarrow> controller" where
  "console_log msg s = s\<lparr>console := console s @ [msg]\<rparr>"

text \<open>\<^verbatim>\<open>updateMinDistanceForTarget()\<close>\<close>

definition updateMinDistanceForTarget :: "env \<Rightarrow> controller \<Rightarrow> controller" where
  "updateMinDistanceForTarget e s =
     (case lockedTarget s of
        None \<Rightarrow> s
      | Some ob \<Rightarrow>
          let targetRadius =
                (case bodyRadius (bodies e ob) of
                   Some r \<Rightarrow> r
                 | None \<Rightarrow>
                     if lockMode s = LockSun \<and> sunInstance s \<noteq> None then Fin 15
                     else if lockMode s = LockEarth \<and> earthInstance s \<noteq> None then Fin 1
                     else (case currentMeteor s of
                             Some m \<Rightarrow>
                               if lockMode s = LockMeteor
                               then or_default (bodyRadius (bodies e m)) (Fin 0.2)
                               else Fin 1
                           | None \<Rightarrow> Fin 1));
              newMinDistance = targetRadius * Fin 2.5
          in if Fin 0.1 < Math_abs (minDistance s - newMinDistance)
             then let s1 = s\<lparr>minDistance := newMinDistance\<rparr>
                  in if currentDistance s1 < minDistance s1
                     then s1\<lparr>currentDistance := minDistance s1,
                             spherical := (spherical s1)\<lparr>radius := minDistance s1\<rparr>\<rparr>
                     else s1
             else s)"

text \<open>\<^verbatim>\<open>update()\<close>\<close>

definition update :: "env \<Rightarrow> controller \<Rightarrow> controller" where
  "update e s =
     (if isNaN (radius (spherical s)) \<or> isNaN (phi (spherical s)) \<or> isNaN (theta (spherical s)) \<or>
         \<not> isFinite (radius (spherical s)) \<or> \<not> isFinite (phi (spherical s)) \<or>
         \<not> isFinite (theta (spherical s))
      then console_log ''CameraController: Invalid spherical coordinates detected, skipping camera update.'' s
      else
        let s1 = s\<lparr>spherical := (spherical s)
                     \<lparr>phi := Math_max (Fin 0.01) (Math_min (Fin (pi - 0.01)) (phi (spherical s)))\<rparr>\<rparr>;
            s2 = s1\<lparr>spherical := (spherical s1)
                     \<lparr>radius := Math_max (minDistance s1)
                                   (Math_min (maxDistance s1) (radius (spherical s1)))\<rparr>\<rparr>
        in if isNaN (vx (target s2)) \<or> isNaN (vy (target s2)) \<or> isNaN (vz (target s2))
           then console_log ''CameraController: Invalid target detected, skipping camera update.'' s2
           else
             let s3 = (case lockedTarget s2 of
                         Some ob \<Rightarrow>
                           if \<not> isTransitioning s2
                           then updateMinDistanceForTarget e
                                  (s2\<lparr>target := getPosition (bodies e ob)\<rparr>)
                           else s2
                       | None \<Rightarrow> s2);
                 s4 = (if autoRotate s3
                       then s3\<lparr>spherical := (spherical s3)
                                \<lparr>theta := theta (spherical s3) + autoRotateSpeed s3\<rparr>\<rparr>
                       else s3);
                 pos = vadd (setFromSpherical (spherical s4)) (target s4)
             in s4\<lparr>camera := \<lparr>position = pos, lookedAt = target s4\<rparr>\<rparr>)"

text \<open>
  The constructor, with the camera it is given. \<^verbatim>\<open>sunInstance\<close>, \<^verbatim>\<open>earthInstance\<close> and
  \<^verbatim>\<open>currentMeteor\<close> are not set by it: they are undefined.
\<close>

definition new_CameraController ::
  "env \<Rightarrow> camera_obj \<Rightarrow> num vector3 \<Rightarrow> num \<Rightarrow> num \<Rightarrow> controller" where
  "new_CameraController e cam tgt minD maxD =
     update e
       \<lparr>camera = cam, target = tgt, minDistance = minD, maxDistance = maxD,
        currentDistance = Math_max minD (Fin 50),
        rotationSpeed = Fin 0.01, zoomSpeed = Fin 0.5,
        isMouseDown = False, mouseX = Fin 0, mouseY = Fin 0, lastMouseX = Fin 0,
        lastMouseY = Fin 0,
        spherical = setFromVector3 (vsub (position cam) tgt),
        autoRotate = False, autoRotateSpeed = Fin 0.01,
        lockedTarget = None, lockMode = LockNone, isTransitioning = False,
        meteorsList = [], currentMeteorIndex = - 1,
        sunInstance = None, earthInstance = None, currentMeteor = None,
        frames = [], console = []\<rparr>"

text \<open>The mouse handlers; the event is given by \<^verbatim>\<open>clientX\<close>, \<^verbatim>\<open>clientY\<close> or \<^verbatim>\<open>deltaY\<close>.\<close>

definition onMouseDown :: "num \<Rightarrow> num \<Rightarrow> controller \<Rightarrow> controller" where
  "onMouseDown clientX clientY s = s\<lparr>isMouseDown := True, lastMouseX := clientX, lastMouseY := clientY\<rparr>"

definition onMouseMove :: "env \<Rightarrow> num \<Rightarrow> num \<Rightarrow> controller \<Rightarrow> controller" where
  "onMouseMove e clientX clientY s =
     (if \<not> isMouseDown s then s
      else
        let deltaX = clientX - lastMouseX s;
            deltaY = clientY - lastMouseY s;
            s1 = s\<lparr>spherical := (spherical s)
                     \<lparr>theta := theta (spherical s) - deltaX * rotationSpeed s,
                      phi := phi (spherical s) + deltaY * rotationSpeed s\<rparr>\<rparr>;
            s2 = s1\<lparr>spherical := (spherical s1)
                     \<lparr>phi := Math_max (Fin 0.1) (Math_min (Fin (pi - 0.1)) (phi (spherical s1)))\<rparr>\<rparr>;
            s3 = s2\<lparr>lastMouseX := clientX, lastMouseY := clientY\<rparr>
        in update e s3)"

definition onMouseUp :: "controller \<Rightarrow> controller" where
  "onMouseUp s = s\<lparr>isMouseDown := False\<rparr>"

definition onWheel :: "env \<Rightarrow> num \<Rightarrow> controller \<Rightarrow> controller" where
  "onWheel e deltaY s =
     (let zoomDelta = deltaY * zoomSpeed s * Fin 0.01;
          s1 = s\<lparr>currentDistance := currentDistance s + zoomDelta\<rparr>;
          safeMinDistance =
            (if lockedTarget s1 = None
             then let distanceToSun = vlength (target s1);
                      sunRadius = Fin 15;
                      safe = (if distanceToSun < sunRadius * Fin 3
                              then Math_max (minDistance s1) (sunRadius * Fin 2.5)
                              else minDistance s1)
                  in Math_max safe (Fin 20)
             else minDistance s1);
          s2 = s1\<lparr>currentDistance :=
                    Math_max safeMinDistance (Math_min (maxDistance s1) (currentDistance s1))\<rparr>;
          s3 = s2\<lparr>spherical := (spherical s2)\<lparr>radius := currentDistance s2\<rparr>\<rparr>
      in update e s3)"

text \<open>\<^verbatim>\<open>resetCamera()\<close>, \<^verbatim>\<open>setTarget(target)\<close>, \<^verbatim>\<open>setTargetObjects\<close>, \<^verbatim>\<open>setCurrentMeteor\<close>, \<^verbatim>\<open>setMeteorsList\<close>\<close>

definition resetCamera :: "env \<Rightarrow> controller \<Rightarrow> controller" where
  "resetCamera e s =
     update e (s\<lparr>currentDistance := Fin 75,
                 spherical := \<lparr>radius = Fin 75, phi = Fin (pi / 2), theta = Fin 0\<rparr>\<rparr>)"

definition setTarget :: "env \<Rightarrow> num vector3 \<Rightarrow> controller \<Rightarrow> controller" where
  "setTarget e tgt s = update e (s\<lparr>target := tgt\<rparr>)"

definition setTargetObjects :: "objref option \<Rightarrow> objref option \<Rightarrow> controller \<Rightarrow> controller" where
  "setTargetObjects sun earth s = s\<lparr>sunInstance := sun, earthInstance := earth\<rparr>"

text \<open>\<^verbatim>\<open>indexOf\<close>: the first index of the element, \<open>-1\<close> when it is not in the array.\<close>

fun indexOf :: "'a list \<Rightarrow> 'a \<Rightarrow> int" where
  "indexOf [] a = - 1"
| "indexOf (b # bs) a = (if b = a then 0 else (let i = indexOf bs a in if i = - 1 then - 1 else i + 1))"

definition setCurrentMeteor :: "objref option \<Rightarrow> controller \<Rightarrow> controller" where
  "setCurrentMeteor meteorInstance s =
     (let idx = (case meteorInstance of None \<Rightarrow> - 1 | Some m \<Rightarrow> indexOf (meteorsList s) m);
          s1 = (if idx \<noteq> - 1 then s\<lparr>currentMeteorIndex := idx\<rparr> else s)
      in s1\<lparr>currentMeteor := meteorInstance\<rparr>)"

definition setMeteorsList :: "objref list \<Rightarrow> controller \<Rightarrow> controller" where
  "setMeteorsList ms s =
     s\<lparr>meteorsList := ms, currentMeteorIndex := (if 0 < length ms then 0 else - 1)\<rparr>"

text \<open>
  One run of the closure \<^verbatim>\<open>animate\<close>. When the progress is below one it hands itself to
  \<^verbatim>\<open>requestAnimationFrame\<close> again; otherwise the transition is complete and the callback
  locks the target.
\<close>

definition complete :: "env \<Rightarrow> transition \<Rightarrow> controller \<Rightarrow> controller" where
  "complete e tr s =
     (case onComplete tr of
        LockNone \<Rightarrow> s
      | LockSun \<Rightarrow>
          console_log ''Camera locked onto Sun''
            (updateMinDistanceForTarget e (s\<lparr>lockedTarget := sunInstance s, lockMode := LockSun\<rparr>))
      | LockEarth \<Rightarrow>
          console_log ''Camera locked onto Earth''
            (updateMinDistanceForTarget e
               (s\<lparr>lockedTarget := earthInstance s, lockMode := LockEarth\<rparr>))
      | LockMeteor \<Rightarrow>
          console_log ''Camera locked onto Meteor''
            (updateMinDistanceForTarget e
               (s\<lparr>lockedTarget := Some (targetObject tr), lockMode := LockMeteor\<rparr>)))"

definition progress_of :: "env \<Rightarrow> transition \<Rightarrow> num" where
  "progress_of e tr = Math_min ((now e - startTime tr) / duration tr) (Fin 1)"

definition ease :: "num \<Rightarrow> num" where
  "ease progress =
     (if progress < Fin 0.5 then Fin 2 * progress * progress
      else Fin 1 - Math_pow2 (Fin (- 2) * progress + Fin 2) / Fin 2)"

definition animate :: "env \<Rightarrow> transition \<Rightarrow> controller \<Rightarrow> controller" where
  "animate e tr s =
     (let progress = progress_of e tr;
          eased = ease progress;
          currentTargetPosition = getPosition (bodies e (targetObject tr));
          targetVector = vsub (position (camera s)) currentTargetPosition;
          targetSpherical = (setFromVector3 targetVector)\<lparr>radius := targetDistance tr\<rparr>;
          s1 = s\<lparr>target := lerpVectors (startTarget tr) currentTargetPosition eased\<rparr>;
          s2 = s1\<lparr>spherical :=
                    \<lparr>radius = startRadius tr + (radius targetSpherical - startRadius tr) * eased,
                     phi = startPhi tr + (phi targetSpherical - startPhi tr) * eased,
                     theta = startTheta tr + (theta targetSpherical - startTheta tr) * eased\<rparr>\<rparr>;
          s3 = s2\<lparr>currentDistance := radius (spherical s2)\<rparr>;
          s4 = update e s3
      in if progress < Fin 1 then s4\<lparr>frames := frames s4 @ [tr]\<rparr>
         else complete e tr (s4\<lparr>isTransitioning := False\<rparr>))"

text \<open>\<^verbatim>\<open>transitionToTarget(targetObject, targetDistance, onComplete, duration)\<close>\<close>

definition transitionToTarget ::
  "env \<Rightarrow> objref \<Rightarrow> num \<Rightarrow> lock_mode \<Rightarrow> num \<Rightarrow> controller \<Rightarrow> controller" where
  "transitionToTarget e ob tDistance kind dur s =
     (let s1 = s\<lparr>isTransitioning := True\<rparr>;
          tr = \<lparr>targetObject = ob, targetDistance = tDistance, onComplete = kind, duration = dur,
                startTarget = target s1, startTheta = theta (spherical s1),
                startPhi = phi (spherical s1), startRadius = radius (spherical s1),
                startTime = now e\<rparr>
      in animate e tr s1)"

text \<open>
  The browser runs the callbacks handed to \<^verbatim>\<open>requestAnimationFrame\<close> once, in the order
  they were handed in; a callback handed in meanwhile waits for the next frame.
\<close>

definition animationFrame :: "env \<Rightarrow> controller \<Rightarrow> controller" where
  "animationFrame e s = foldl (\<lambda>s' tr. animate e tr s') (s\<lparr>frames := []\<rparr>) (frames s)"

text \<open>The commands that lock and unlock. The default duration is 1500 ms.\<close>

definition lockOntoSunWithTransition :: "env \<Rightarrow> num \<Rightarrow> controller \<Rightarrow> controller" where
  "lockOntoSunWithTransition e dur s =
     (case sunInstance s of
        None \<Rightarrow> s
      | Some sun \<Rightarrow>
          if lockMode s = LockSun then s
          else let s1 = s\<lparr>lockedTarget := None, lockMode := LockNone\<rparr>;
                   sunRadius = Fin 15;
                   tDistance = sunRadius * Fin 3
               in transitionToTarget e sun tDistance LockSun dur s1)"

definition lockOntoEarthWithTransition :: "env \<Rightarrow> num \<Rightarrow> controller \<Rightarrow> controller" where
  "lockOntoEarthWithTransition e dur s =
     (case earthInstance s of
        None \<Rightarrow> s
      | Some earth \<Rightarrow>
          if lockMode s = LockEarth then s
          else let s1 = s\<lparr>lockedTarget := None, lockMode := LockNone\<rparr>;
                   earthRadius = Fin 1;
                   tDistance = earthRadius * Fin 5
               in transitionToTarget e earth tDistance LockEarth dur s1)"

text \<open>
  \<^verbatim>\<open>lockOntoMeteor\<close> also asks the meteor to build its mesh; that changes the meteor and
  the scene, not the controller.
\<close>

definition lockOntoMeteor :: "env \<Rightarrow> objref option \<Rightarrow> num \<Rightarrow> controller \<Rightarrow> controller" where
  "lockOntoMeteor e meteorInstance dur s =
     (case meteorInstance of
        None \<Rightarrow> s
      | Some m \<Rightarrow>
          if lockMode s = LockMeteor \<and> lockedTarget s = Some m then s
          else let s1 = s\<lparr>lockedTarget := None, lockMode := LockNone\<rparr>;
                   meteorRadius = or_default (bodyRadius (bodies e m)) (Fin 0.2);
                   tDistance = meteorRadius * Fin 4
               in transitionToTarget e m tDistance LockMeteor dur s1)"

definition lockOntoMeteorIfExists :: "env \<Rightarrow> controller \<Rightarrow> controller" where
  "lockOntoMeteorIfExists e s =
     (case currentMeteor s of
        Some m \<Rightarrow> lockOntoMeteor e (Some m) (Fin 1500) s
      | None \<Rightarrow> console_log ''No meteor to lock onto. Press M to create one!'' s)"

definition lockOntoMeteorByIndex :: "env \<Rightarrow> int \<Rightarrow> num \<Rightarrow> controller \<Rightarrow> controller" where
  "lockOntoMeteorByIndex e i dur s =
     (if length (meteorsList s) = 0 then s
      else if i < 0 \<or> int (length (meteorsList s)) \<le> i then s
      else let s1 = s\<lparr>currentMeteorIndex := i\<rparr>;
               meteor = meteorsList s1 ! nat i;
               s2 = setCurrentMeteor (Some meteor) s1
           in lockOntoMeteor e (Some meteor) dur s2)"

text \<open>\<^verbatim>\<open>unlockTarget\<close> also removes the mesh of a meteor it was locked onto.\<close>

definition unlockTarget :: "controller \<Rightarrow> controller" where
  "unlockTarget s =
     console_log ''Camera unlocked'' (s\<lparr>lockedTarget := None, lockMode := LockNone, isTransitioning := False\<rparr>)"

definition getLockStatus :: "controller \<Rightarrow> lock_mode \<times> bool \<times> objref option" where
  "getLockStatus s = (lockMode s, lockedTarget s \<noteq> None, lockedTarget s)"

definition setZoomLimits :: "env \<Rightarrow> num \<Rightarrow> num \<Rightarrow> controller \<Rightarrow> controller" where
  "setZoomLimits e mn mx s =
     (let s1 = s\<lparr>minDistance := mn, maxDistance := mx\<rparr>;
          s2 = s1\<lparr>currentDistance := Math_max mn (Math_min mx (currentDistance s1))\<rparr>;
          s3 = s2\<lparr>spherical := (spherical s2)\<lparr>radius := currentDistance s2\<rparr>\<rparr>
      in update e s3)"

definition getDistance :: "controller \<Rightarrow> num" where
  "getDistance s = currentDistance s"

definition setAutoRotate :: "bool \<Rightarrow> controller \<Rightarrow> controller" where
  "setAutoRotate enabled s = s\<lparr>autoRotate := enabled\<rparr>"

text \<open>\<^verbatim>\<open>onKeyDown(event)\<close>, by \<^verbatim>\<open>event.code\<close>.\<close>

datatype key =
  KeyR | KeyG | Digit0 | Digit1 | Digit2 | KeyA | Escape
  | ArrowUp | ArrowDown | ArrowRight | ArrowLeft | OtherKey

definition onKeyDown :: "env \<Rightarrow> key \<Rightarrow> controller \<Rightarrow> controller" where
  "onKeyDown e code s =
     (if isTransitioning s then s
      else case code of
        KeyR \<Rightarrow> resetCamera e s
      | KeyG \<Rightarrow> s\<lparr>autoRotate := \<not> autoRotate s\<rparr>
      | Digit0 \<Rightarrow> lockOntoSunWithTransition e (Fin 1500) s
      | Digit1 \<Rightarrow> lockOntoEarthWithTransition e (Fin 1500) s
      | Digit2 \<Rightarrow> lockOntoMeteorIfExists e s
      | KeyA \<Rightarrow>
          (if 0 < length (meteorsList s)
           then let firstMeteor = meteorsList s ! 0;
                    s1 = setCurrentMeteor (Some firstMeteor) s;
                    s2 = lockOntoMeteor e (Some firstMeteor) (Fin 1500) s1
                in console_log ''Camera locked onto first asteroid'' s2
           else console_log ''No asteroids available to lock onto'' s)
      | Escape \<Rightarrow> unlockTarget s
      | ArrowUp \<Rightarrow>
          (let s1 = s\<lparr>currentDistance := Math_max (minDistance s) (currentDistance s - Fin 5)\<rparr>;
               s2 = (if lockedTarget s1 = None
                     then let distanceToSun = vlength (target s1);
                              sunRadius = Fin 15;
                              s1a = (if distanceToSun < sunRadius * Fin 3
                                     then s1\<lparr>currentDistance :=
                                               Math_max (currentDistance s1) (sunRadius * Fin 2.5)\<rparr>
                                     else s1)
                          in s1a\<lparr>currentDistance := Math_max (currentDistance s1a) (Fin 20)\<rparr>
                     else s1);
               s3 = s2\<lparr>spherical := (spherical s2)\<lparr>radius := currentDistance s2\<rparr>\<rparr>
           in update e s3)
      | ArrowDown \<Rightarrow>
          (let s1 = s\<lparr>currentDistance := Math_min (maxDistance s) (currentDistance s + Fin 5)\<rparr>;
               s2 = s1\<lparr>spherical := (spherical s1)\<lparr>radius := currentDistance s1\<rparr>\<rparr>
           in update e s2)
      | ArrowRight \<Rightarrow>
          (if 0 < length (meteorsList s) \<and> currentMeteorIndex s < int (length (meteorsList s)) - 1
           then lockOntoMeteorByIndex e (currentMeteorIndex s + 1) (Fin 1500) s
           else s)
      | ArrowLeft \<Rightarrow>
          (if 0 < length (meteorsList s) \<and> 0 < currentMeteorIndex s
           then lockOntoMeteorByIndex e (currentMeteorIndex s - 1) (Fin 1500) s
           else s)
      | OtherKey \<Rightarrow> s)"

section \<open>Runs of the controller\<close>

text \<open>
  The calls a host and the browser make on a controller: the per-frame \<^verbatim>\<open>update\<close>, the
  input handlers, the animation frame that runs the pending transition steps, and the
  public commands. \<^verbatim>\<open>setTargetObjects\<close> is part of the set-up and not among them.
\<close>

datatype event =
  Update
  | MouseDown num num
  | MouseMove num num
  | MouseUp
  | Wheel num
  | KeyDown key
  | AnimationFrame
  | LockOntoSun num
  | LockOntoEarth num
  | LockOntoMeteor "objref option" num
  | LockOntoMeteorByIndex int num
  | LockOntoMeteorIfExists
  | Unlock
  | ResetCamera
  | SetTarget "num vector3"
  | SetCurrentMeteor "objref option"
  | SetMeteorsList "objref list"
  | SetZoomLimits num num
  | SetAutoRotate bool

fun step :: "env \<Rightarrow> event \<Rightarrow> controller \<Rightarrow> controller" where
  "step e Update s = update e s"
| "step e (MouseDown cx cy) s = onMouseDown cx cy s"
| "step e (MouseMove cx cy) s = onMouseMove e cx cy s"
| "step e MouseUp s = onMouseUp s"
| "step e (Wheel dy) s = onWheel e dy s"
| "step e (KeyDown k) s = onKeyDown e k s"
| "step e AnimationFrame s = animationFrame e s"
| "step e (LockOntoSun d) s = lockOntoSunWithTransition e d s"
| "step e (LockOntoEarth d) s = lockOntoEarthWithTransition e d s"
| "step e (LockOntoMeteor m d) s = lockOntoMeteor e m d s"
| "step e (LockOntoMeteorByIndex i d) s = lockOntoMeteorByIndex e i d s"
| "step e LockOntoMeteorIfExists s = lockOntoMeteorIfExists e s"
| "step e Unlock s = unlockTarget s"
| "step e ResetCamera s = resetCamera e s"
| "step e (SetTarget v) s = setTarget e v s"
| "step e (SetCurrentMeteor m) s = setCurrentMeteor m s"
| "step e (SetMeteorsList ms) s = setMeteorsList ms s"
| "step e (SetZoomLimits mn mx) s = setZoomLimits e mn mx s"
| "step e (SetAutoRotate b) s = setAutoRotate b s"

text \<open>A run: the calls in order, each in the environment it finds.\<close>

fun run :: "(env \<times> event) list \<Rightarrow> controller \<Rightarrow> controller" where
  "run [] s = s"
| "run ((e, ev) # evs) s = run evs (step e ev s)"

text \<open>
  A scene for the scenarios: the sun (reference 0) at the origin with radius 15, the earth
  (reference 1) at \<open>(150, 0, 0)\<close> with radius 1, as \<^verbatim>\<open>IntroSlide.js\<close> places them, and meteors
  of radius 0.1 elsewhere. \<open>scene_at t\<close> is that scene when the clock reads \<open>t\<close>.
\<close>

definition origin :: "num vector3" where
  "origin = Vector3 (Fin 0) (Fin 0) (Fin 0)"

definition scene_bodies :: "objref \<Rightarrow> body" where
  "scene_bodies ob =
     (if ob = 0 then \<lparr>getPosition = origin, bodyRadius = Some (Fin 15)\<rparr>
      else if ob = 1 then \<lparr>getPosition = Vector3 (Fin 150) (Fin 0) (Fin 0), bodyRadius = Some (Fin 1)\<rparr>
      else \<lparr>getPosition = Vector3 (Fin 200) (Fin 0) (Fin 0), bodyRadius = Some (Fin 0.1)\<rparr>)"

definition scene_at :: "real \<Rightarrow> env" where
  "scene_at t = \<lparr>now = Fin t, bodies = scene_bodies\<rparr>"

text \<open>A camera on the \<open>z\<close> axis, ten units from the origin, and one straight above it.\<close>

definition camera_front :: camera_obj where
  "camera_front = \<lparr>position = Vector3 (Fin 0) (Fin 0) (Fin 10), lookedAt = origin\<rparr>"

definition camera_above :: camera_obj where
  "camera_above = \<lparr>position = Vector3 (Fin 0) (Fin 10) (Fin 0), lookedAt = origin\<rparr>"

section \<open>The lock invariant\<close>

text \<open>
  The lock is consistent when the locked target is null exactly when the mode is
  \<^verbatim>\<open>'none'\<close>, and null while a transition is flagged. A pending transition step is in
  order when the instance its callback will lock is set.
\<close>

definition lock_consistent :: "controller \<Rightarrow> bool" where
  "lock_consistent s \<longleftrightarrow>
     (lockedTarget s = None \<longleftrightarrow> lockMode s = LockNone) \<and>
     (isTransitioning s \<longrightarrow> lockedTarget s = None)"

definition pending_ok :: "controller \<Rightarrow> transition \<Rightarrow> bool" where
  "pending_ok s tr \<longleftrightarrow>
     (onComplete tr = LockSun \<longrightarrow> sunInstance s \<noteq> None) \<and>
     (onComplete tr = LockEarth \<longrightarrow> earthInstance s \<noteq> None)"

definition lock_inv :: "controller \<Rightarrow> bool" where
  "lock_inv s \<longleftrightarrow> lock_consistent s \<and> (\<forall>tr \<in> set (frames s). pending_ok s tr)"

text \<open>
  Two controllers on that scene, built as the pages build theirs, with the sun and the
  earth registered: one with the default minimum distance 2 and the maximum 500 of
  \<^verbatim>\<open>ThreeDemo.js\<close>, one with the bounds 2 and 20 of \<^verbatim>\<open>IntroSlide.js\<close>.
\<close>

definition demo_controller :: controller where
  "demo_controller =
     setTargetObjects (Some 0) (Some 1)
       (new_CameraController (scene_at 0) camera_front origin (Fin 2) (Fin 500))"

definition intro_controller :: controller where
  "intro_controller =
     setTargetObjects (Some 0) (Some 1)
       (new_CameraController (scene_at 0) camera_front origin (Fin 2) (Fin 20))"

text \<open>A transition onto the meteor \<open>m\<close> has been started and its next step is pending.\<close>

definition transition_onto :: "controller \<Rightarrow> objref \<Rightarrow> bool" where
  "transition_onto s m \<longleftrightarrow>
     isTransitioning s \<and> lockedTarget s = None \<and> frames s \<noteq> [] \<and>
     targetObject (last (frames s)) = m \<and> onComplete (last (frames s)) = LockMeteor"

text \<open>The transitions of the scenarios: onto the sun and onto the earth, as the keys 0 and 1 start them.\<close>

definition sun_transition :: "real \<Rightarrow> real \<Rightarrow> transition" where
  "sun_transition r0 t0 =
     \<lparr>targetObject = 0, targetDistance = Fin 45, onComplete = LockSun, duration = Fin 1500,
      startTarget = origin, startTheta = Fin 0, startPhi = Fin (pi / 2),
      startRadius = Fin r0, startTime = Fin t0\<rparr>"

definition earth_transition :: "real \<Rightarrow> real \<Rightarrow> transition" where
  "earth_transition r0 t0 =
     \<lparr>targetObject = 1, targetDistance = Fin 5, onComplete = LockEarth, duration = Fin 1500,
      startTarget = origin, startTheta = Fin 0, startPhi = Fin (pi / 2),
      startRadius = Fin r0, startTime = Fin t0\<rparr>"

text \<open>
  The controller is locked onto the meteor \<open>m\<close>, or a transition onto it is under way.
\<close>

definition locked_or_heading :: "controller \<Rightarrow> objref \<Rightarrow> bool" where
  "locked_or_heading s m \<longleftrightarrow>
     (lockMode s = LockMeteor \<and> lockedTarget s = Some m) \<or> transition_onto s m"

text \<open>The controller of \<^verbatim>\<open>ThreeDemo.js\<close> after \<^verbatim>\<open>setMeteorsList\<close>.\<close>

definition meteors_controller :: "objref list \<Rightarrow> controller" where
  "meteors_controller ms = setMeteorsList ms demo_controller"

section \<open>The camera bounds over runs\<close>

text \<open>A vector of finite numbers.\<close>

definition fin_vec :: "num vector3 \<Rightarrow> bool" where
  "fin_vec v \<longleftrightarrow> isFinite (vx v) \<and> isFinite (vy v) \<and> isFinite (vz v)"

text \<open>
  The bounds of the camera: the radius between the minimum and the maximum distance, the
  polar angle between 0.01 and \<open>pi - 0.01\<close>, the ends included.
\<close>

definition camera_bounds :: "controller \<Rightarrow> bool" where
  "camera_bounds s \<longleftrightarrow>
     minDistance s \<le> radius (spherical s) \<and> radius (spherical s) \<le> maxDistance s \<and>
     Fin 0.01 \<le> phi (spherical s) \<and> phi (spherical s) \<le> Fin (pi - 0.01)"

text \<open>
  An environment fits the maximum distance \<open>M\<close> when the clock reads a finite number and
  every body has a finite position and a finite radius with \<open>radius * 2.5 \<le> M\<close>: the
  minimum distance that a lock sets is then at most the maximum.
\<close>

definition env_fits :: "real \<Rightarrow> env \<Rightarrow> bool" where
  "env_fits M e \<longleftrightarrow>
     isFinite (now e) \<and>
     (\<forall>ob. fin_vec (getPosition (bodies e ob)) \<and>
           (case bodyRadius (bodies e ob) of
              None \<Rightarrow> False
            | Some r \<Rightarrow> isFinite r \<and> r * Fin 2.5 \<le> Fin M))"

text \<open>
  The calls the invariant covers: every call with finite arguments and positive durations,
  except \<^verbatim>\<open>setZoomLimits\<close>, which replaces the bounds.
\<close>

fun positive :: "num \<Rightarrow> bool" where
  "positive (Fin x) = (0 < x)"
| "positive _ = False"

fun event_fits :: "event \<Rightarrow> bool" where
  "event_fits Update = True"
| "event_fits (MouseDown cx cy) = (isFinite cx \<and> isFinite cy)"
| "event_fits (MouseMove cx cy) = (isFinite cx \<and> isFinite cy)"
| "event_fits MouseUp = True"
| "event_fits (Wheel dy) = isFinite dy"
| "event_fits (KeyDown k) = True"
| "event_fits AnimationFrame = True"
| "event_fits (LockOntoSun d) = positive d"
| "event_fits (LockOntoEarth d) = positive d"
| "event_fits (LockOntoMeteor m d) = positive d"
| "event_fits (LockOntoMeteorByIndex i d) = positive d"
| "event_fits LockOntoMeteorIfExists = True"
| "event_fits Unlock = True"
| "event_fits ResetCamera = True"
| "event_fits (SetTarget v) = fin_vec v"
| "event_fits (SetCurrentMeteor m) = True"
| "event_fits (SetMeteorsList ms) = True"
| "event_fits (SetZoomLimits mn mx) = False"
| "event_fits (SetAutoRotate b) = True"

text \<open>
  What the proof carries along a run: a pending transition with a positive duration and
  finite start values; a state whose numbers are finite, with the maximum \<open>M\<close> and a
  minimum that is at most \<open>M\<close>; and, once a target is locked, a radius that is at least the
  current distance or the maximum (\<^verbatim>\<open>updateMinDistanceForTarget\<close> compares the current
  distance, not the radius, with the new minimum).
\<close>

definition transition_fits :: "transition \<Rightarrow> bool" where
  "transition_fits tr \<longleftrightarrow>
     positive (duration tr) \<and> isFinite (targetDistance tr) \<and>
     fin_vec (startTarget tr) \<and> isFinite (startTheta tr) \<and> isFinite (startPhi tr) \<and>
     isFinite (startRadius tr) \<and> isFinite (startTime tr)"

definition fin_state :: "real \<Rightarrow> controller \<Rightarrow> bool" where
  "fin_state M s \<longleftrightarrow>
     maxDistance s = Fin M \<and> isFinite (minDistance s) \<and> minDistance s \<le> Fin M \<and>
     isFinite (radius (spherical s)) \<and> isFinite (phi (spherical s)) \<and>
     isFinite (theta (spherical s)) \<and> isFinite (currentDistance s) \<and>
     fin_vec (target s) \<and> fin_vec (position (camera s)) \<and>
     isFinite (rotationSpeed s) \<and> isFinite (zoomSpeed s) \<and> isFinite (autoRotateSpeed s) \<and>
     isFinite (lastMouseX s) \<and> isFinite (lastMouseY s) \<and>
     (\<forall>tr \<in> set (frames s). transition_fits tr)"

definition wide :: "controller \<Rightarrow> bool" where
  "wide s \<longleftrightarrow>
     currentDistance s \<le> radius (spherical s) \<or> maxDistance s \<le> radius (spherical s)"

definition steady :: "real \<Rightarrow> controller \<Rightarrow> bool" where
  "steady M s \<longleftrightarrow> fin_state M s \<and> camera_bounds s \<and> (lockedTarget s \<noteq> None \<longrightarrow> wide s)"

text \<open>The three parts of an \<^verbatim>\<open>update\<close> that is not skipped.\<close>

definition clamp_spherical :: "controller \<Rightarrow> controller" where
  "clamp_spherical s =
     s\<lparr>spherical := (spherical s)
          \<lparr>phi := Math_max (Fin 0.01) (Math_min (Fin (pi - 0.01)) (phi (spherical s))),
           radius := Math_max (minDistance s) (Math_min (maxDistance s) (radius (spherical s)))\<rparr>\<rparr>"

definition follow_target :: "env \<Rightarrow> controller \<Rightarrow> controller" where
  "follow_target e s =
     (case lockedTarget s of
        Some ob \<Rightarrow>
          if \<not> isTransitioning s
          then updateMinDistanceForTarget e (s\<lparr>target := getPosition (bodies e ob)\<rparr>)
          else s
      | None \<Rightarrow> s)"

definition place_camera :: "controller \<Rightarrow> controller" where
  "place_camera s =
     (let s4 = (if autoRotate s
                then s\<lparr>spherical := (spherical s)\<lparr>theta := theta (spherical s) + autoRotateSpeed s\<rparr>\<rparr>
                else s)
      in s4\<lparr>camera := \<lparr>position = vadd (setFromSpherical (spherical s4)) (target s4),
                        lookedAt = target s4\<rparr>\<rparr>)"

section \<open>Transitions under way\<close>

text \<open>
  The calls that reach the lock commands through the input handlers only: all but the
  direct calls of the lock commands and of \<^verbatim>\<open>unlockTarget()\<close>. The key handler looks at the
  flag \<^verbatim>\<open>isTransitioning\<close> before it calls them; the commands themselves do not.
\<close>

fun through_handlers :: "event \<Rightarrow> bool" where
  "through_handlers (LockOntoSun d) = False"
| "through_handlers (LockOntoEarth d) = False"
| "through_handlers (LockOntoMeteor m d) = False"
| "through_handlers (LockOntoMeteorByIndex i d) = False"
| "through_handlers LockOntoMeteorIfExists = False"
| "through_handlers Unlock = False"
| "through_handlers _ = True"

text \<open>
  A transition is under way when a step of it is pending. The flag tracks the transitions
  when it is set exactly while one is under way, and no two are.
\<close>

definition in_flight :: "controller \<Rightarrow> bool" where
  "in_flight s \<longleftrightarrow> frames s \<noteq> []"

definition flag_tracks :: "controller \<Rightarrow> bool" where
  "flag_tracks s \<longleftrightarrow> (isTransitioning s \<longleftrightarrow> frames s \<noteq> []) \<and> length (frames s) \<le> 1"


section \<open>Properties of progressive meteor creation\<close>

lemma created_upto_0: "created_upto mk orbits 0 = []"
  by (simp add: created_upto_def List.map_filter_def)

lemma created_upto_Suc:
  "created_upto mk orbits (Suc n) =
     created_upto mk orbits n @ (case try_create mk orbits n of Some m \<Rightarrow> [m] | None \<Rightarrow> [])"
  by (simp add: created_upto_def List.map_filter_def split: option.splits)


lemma batch_loop_spec:
  "index st \<le> endIdx \<Longrightarrow> meteors st = created_upto mk orbits (index st) \<Longrightarrow>
   batch_loop mk orbits endIdx st =
     st\<lparr>index := endIdx, meteors := created_upto mk orbits endIdx\<rparr>"
proof (induction mk orbits endIdx st rule: batch_loop.induct)
  case (1 mk orbits endIdx st)
  show ?case
  proof (cases "index st < endIdx")
    case False
    with "1.prems" have "index st = endIdx" by simp
    with "1.prems" show ?thesis by (subst batch_loop.simps) simp
  next
    case True
    define st' where "st' = (case try_create mk orbits (index st) of
                  Some m \<Rightarrow> st\<lparr>meteors := meteors st @ [m], index := Suc (index st)\<rparr>
                | None \<Rightarrow> st\<lparr>index := Suc (index st)\<rparr>)"
    have i: "index st' = Suc (index st)" by (simp add: st'_def split: option.splits)
    have m: "meteors st' = created_upto mk orbits (index st')"
      using "1.prems"(2) by (simp add: st'_def created_upto_Suc split: option.splits)
    have r: "reported st' = reported st" by (simp add: st'_def split: option.splits)
    have le: "index st' \<le> endIdx" using True i by simp
    have "batch_loop mk orbits endIdx st = batch_loop mk orbits endIdx st'"
      using True unfolding st'_def by (subst batch_loop.simps) simp
    also have "\<dots> = st'\<lparr>index := endIdx, meteors := created_upto mk orbits endIdx\<rparr>"
      using "1.IH"[OF True le[unfolded st'_def] m[unfolded st'_def]] unfolding st'_def .
    also have "\<dots> = st\<lparr>index := endIdx, meteors := created_upto mk orbits endIdx\<rparr>"
      by (simp add: st'_def split: option.splits)
    finally show ?thesis .
  qed
qed



lemma createBatch_spec:
  assumes "index st \<le> totalCount" "meteors st = created_upto mk orbits (index st)"
  shows "createBatch mk orbits batchSize totalCount st =
           st\<lparr>index := min (index st + batchSize) totalCount,
              meteors := created_upto mk orbits (min (index st + batchSize) totalCount),
              reported := reported st @
                [length (created_upto mk orbits (min (index st + batchSize) totalCount))]\<rparr>"
proof -
  have "index st \<le> min (index st + batchSize) totalCount" using assms(1) by simp
  from batch_loop_spec[OF this assms(2)] show ?thesis
    by (simp add: createBatch_def Let_def)
qed





text \<open>
  An array entry that is \<^verbatim>\<open>null\<close> is not a record: the read of \<^verbatim>\<open>orbits[0].semiMajorAxis\<close>
  throws, the entry is logged and skipped, and the next one is created.
\<close>

lemma null_entry_skipped:
  "createMeteorsFromOrbitsProgressive [None, Some \<lparr>semiMajorAxis = 2, eccentricity = 0, period = 365, inclination = 0, omega = 0, raan = 0\<rparr>] True True Some
     METEOR_BATCH_SIZE
   = Some \<lparr>index = 2, meteors = [(2, 0, 0)], reported = [1]\<rparr>"
  by (simp add: createMeteorsFromOrbitsProgressive_def MAX_METEORS_def METEOR_BATCH_SIZE_def
      run_batches.simps createBatch_def batch_loop.simps try_create_def Let_def)


text \<open>The scenario of 37 records in batches of 10: the boundaries are at 10, 20, 30 and 37.\<close>

lemma batches_of_37:
  "createMeteorsFromOrbitsProgressive (replicate 37 (Some \<lparr>semiMajorAxis = 2, eccentricity = 0, period = 365, inclination = 0, omega = 0, raan = 0\<rparr>))
     True True Some METEOR_BATCH_SIZE
   = Some \<lparr>index = 37, meteors = replicate 37 (2, 0, 0), reported = [10, 20, 30, 37]\<rparr>"
proof -
  let ?O = "replicate 37 (Some \<lparr>semiMajorAxis = 2, eccentricity = 0, period = 365, inclination = 0, omega = 0, raan = 0\<rparr>)"
  have all: "\<forall>i<n. try_create Some ?O i = Some (2, 0, 0)" if "n \<le> 37" for n
    using that by (simp add: try_create_def)
  have cr: "created_upto Some ?O n = replicate n (2, 0, 0)" if "n \<le> 37" for n
    using that by (induction n) (simp_all add: created_upto_0 created_upto_Suc try_create_def
        replicate_append_same)
  define s0 :: "(real \<times> real \<times> real) batch_state" where
    "s0 = \<lparr>index = 0, meteors = [], reported = []\<rparr>"
  define s1 where "s1 = createBatch Some ?O 10 37 s0"
  define s2 where "s2 = createBatch Some ?O 10 37 s1"
  define s3 where "s3 = createBatch Some ?O 10 37 s2"
  define s4 where "s4 = createBatch Some ?O 10 37 s3"
  have e1: "s1 = \<lparr>index = 10, meteors = replicate 10 (2, 0, 0), reported = [10]\<rparr>"
    unfolding s1_def by (subst createBatch_spec) (simp_all add: s0_def created_upto_0 cr)
  have e2: "s2 = \<lparr>index = 20, meteors = replicate 20 (2, 0, 0), reported = [10, 20]\<rparr>"
    unfolding s2_def by (subst createBatch_spec) (simp_all add: e1 cr)
  have e3: "s3 = \<lparr>index = 30, meteors = replicate 30 (2, 0, 0), reported = [10, 20, 30]\<rparr>"
    unfolding s3_def by (subst createBatch_spec) (simp_all add: e2 cr)
  have e4: "s4 = \<lparr>index = 37, meteors = replicate 37 (2, 0, 0), reported = [10, 20, 30, 37]\<rparr>"
    unfolding s4_def by (subst createBatch_spec) (simp_all add: e3 cr)
  have r3: "run_batches Some ?O 10 37 s3 = Some s4"
    by (subst run_batches.simps) (simp add: Let_def s4_def[symmetric] e4)
  have r2: "run_batches Some ?O 10 37 s2 = Some s4"
    by (subst run_batches.simps) (simp add: Let_def s3_def[symmetric] e3 r3[unfolded e3])
  have r1: "run_batches Some ?O 10 37 s1 = Some s4"
    by (subst run_batches.simps) (simp add: Let_def s2_def[symmetric] e2 r2[unfolded e2])
  have r0: "run_batches Some ?O 10 37 s0 = Some s4"
    by (subst run_batches.simps) (simp add: Let_def s1_def[symmetric] e1 r1[unfolded e1])
  show ?thesis
    using r0 by (simp add: createMeteorsFromOrbitsProgressive_def MAX_METEORS_def
        METEOR_BATCH_SIZE_def s0_def e4)
qed

section \<open>Properties of the meteor mesh\<close>

lemma weighted3: 
  fixes a b c :: real
  assumes "\<bar>a\<bar> \<le> 1" "\<bar>b\<bar> \<le> 1" "\<bar>c\<bar> \<le> 1"
  shows "\<bar>(a * 0.5 + b * 0.3 + c * 0.2) / 3\<bar> \<le> 1 / 3"
proof -
  have "(a * 0.5 + b * 0.3 + c * 0.2) / 3 = a / 6 + b / 10 + c / 15" by simp
  then show ?thesis using assms by arith
qed

lemma simpleNoise_bound: "\<bar>simpleNoise x y z\<bar> \<le> 1 / 3"
  unfolding simpleNoise_def by (rule weighted3) simp_all

lemma weighted_octaves:
  fixes a b c :: real
  assumes "\<bar>a\<bar> \<le> 1 / 3" "\<bar>b\<bar> \<le> 1 / 3" "\<bar>c\<bar> \<le> 1 / 3"
  shows "\<bar>a * 0.3 + b * 0.15 + c * 0.08\<bar> \<le> 53 / 300"
proof -
  have "a * 0.3 + b * 0.15 + c * 0.08 = 3 * a / 10 + 3 * b / 20 + 2 * c / 25" by simp
  then show ?thesis using assms by arith
qed

lemma deformation_bound: "\<bar>deformation seed d\<bar> \<le> 53 / 300"
  unfolding deformation_def Let_def by (rule weighted_octaves) (rule simpleNoise_bound)+

lemma newRadius_bounds:
  assumes "0 \<le> r"
  shows "0.55 * r \<le> newRadius r seed v" "newRadius r seed v \<le> 1.15 * r"
proof -
  have d: "\<bar>deformation seed (normalize_v v)\<bar> \<le> 53 / 300" by (rule deformation_bound)
  have lo: "0.55 \<le> 0.85 + deformation seed (normalize_v v) * 0.3" using d by (simp add: abs_le_iff)
  have hi: "0.85 + deformation seed (normalize_v v) * 0.3 \<le> 1.15" using d by (simp add: abs_le_iff)
  show "0.55 * r \<le> newRadius r seed v"
    unfolding newRadius_def using mult_left_mono[OF lo assms] by (simp add: mult.commute)
  show "newRadius r seed v \<le> 1.15 * r"
    unfolding newRadius_def using mult_left_mono[OF hi assms] by (simp add: mult.commute)
qed

lemma length_v_multiplyScalar: "length_v (multiplyScalar v c) = \<bar>c\<bar> * length_v v"
proof -
  have "vx v * c * (vx v * c) + vy v * c * (vy v * c) + vz v * c * (vz v * c)
        = c\<^sup>2 * (vx v * vx v + vy v * vy v + vz v * vz v)"
    by (simp add: power2_eq_square algebra_simps)
  then show ?thesis
    by (simp add: length_v_def multiplyScalar_def real_sqrt_mult)
qed

lemma length_v_sphere_vertex: "length_v (sphere_vertex r w h iy ix) = \<bar>r\<bar>"
proof -
  define ca where "ca = cos (real ix / real w * (pi * 2))"
  define sa where "sa = sin (real ix / real w * (pi * 2))"
  define cb where "cb = cos (real iy / real h * pi)"
  define sb where "sb = sin (real iy / real h * pi)"
  have a1: "ca * ca + sa * sa = 1" and b1: "sb * sb + cb * cb = 1"
    unfolding ca_def sa_def cb_def sb_def
    using sin_cos_squared_add2[of "real ix / real w * (pi * 2)"]
      sin_cos_squared_add[of "real iy / real h * pi"]
    by (simp_all add: power2_eq_square)
  have "(- r * ca * sb) * (- r * ca * sb) + r * cb * (r * cb) + r * sa * sb * (r * sa * sb)
        = r * r * (sb * sb * (ca * ca + sa * sa) + cb * cb)"
    by (simp add: algebra_simps)
  also have "\<dots> = r * r * (sb * sb + cb * cb)" by (simp only: a1 mult_1_right)
  also have "\<dots> = r * r" by (simp only: b1 mult_1_right)
  finally have "sqrt ((- r * ca * sb) * (- r * ca * sb) + r * cb * (r * cb)
        + r * sa * sb * (r * sa * sb)) = \<bar>r\<bar>" by simp
  then show ?thesis
    unfolding length_v_def sphere_vertex_def Let_def ca_def sa_def cb_def sb_def by simp
qed

lemma SphereGeometry_vertices:
  "v \<in> set (SphereGeometry r w h) \<Longrightarrow> length_v v = \<bar>r\<bar>"
  by (auto simp: SphereGeometry_def Let_def length_v_sphere_vertex)

lemma displace_length:
  assumes "0 < r" "length_v v = r"
  shows "\<exists>p. displace r seed v = Some p \<and> length_v p = newRadius r seed v"
proof -
  have nz: "length_v v \<noteq> 0" using assms by simp
  have "0 \<le> newRadius r seed v" using newRadius_bounds(1)[of r seed v] assms(1) by simp
  then have "\<bar>newRadius r seed v / length_v v\<bar> * length_v v = newRadius r seed v"
    using assms by simp
  then show ?thesis using nz by (simp add: displace_def length_v_multiplyScalar)
qed

text \<open>
  The call draws five numbers; the vertices depend on the fifth alone.
\<close>

lemma createGeoidGeometry_positions:
  "positions (fst (createGeoidGeometry r n rng))
     = map (displace r (rng !! 4 * 1000)) (SphereGeometry r n n)"
  by (simp add: createGeoidGeometry_def new_SphereGeometry_def generateUUID_def Math_random_def
      Let_def numeral_nat)


text \<open>
  Claim C7, for a positive radius: every vertex of the generated geometry is displaced to
  a distance from the centre that lies within \<open>[0.55 * radius, 1.15 * radius]\<close>. The
  distance is \<open>radius * (0.85 + deformation * 0.3)\<close> and the deformation is at most
  \<open>53 / 300\<close> in absolute value.
\<close>

theorem displaced_radius_bounds:
  assumes "0 < r"
  shows "\<forall>q \<in> set (positions (fst (createGeoidGeometry r n rng))).
           \<exists>p. q = Some p \<and> 0.55 * r \<le> length_v p \<and> length_v p \<le> 1.15 * r"
proof
  fix q assume "q \<in> set (positions (fst (createGeoidGeometry r n rng)))"
  then obtain v where v: "v \<in> set (SphereGeometry r n n)" and q: "q = displace r (rng !! 4 * 1000) v"
    by (auto simp: createGeoidGeometry_positions)
  have len: "length_v v = r" using SphereGeometry_vertices[OF v] assms by simp
  from displace_length[OF assms len, of "rng !! 4 * 1000"]
  obtain p where p: "displace r (rng !! 4 * 1000) v = Some p"
      "length_v p = newRadius r (rng !! 4 * 1000) v" by blast
  have "0.55 * r \<le> length_v p" "length_v p \<le> 1.15 * r"
    using newRadius_bounds[of r "rng !! 4 * 1000" v] assms p(2) by simp_all
  with p(1) q show "\<exists>p. q = Some p \<and> 0.55 * r \<le> length_v p \<and> length_v p \<le> 1.15 * r" by simp
qed


lemma SphereGeometry_first: "\<exists>rest. SphereGeometry r w h = Vector3 0 r 0 # rest"
proof -
  define w' where "w' = max 3 w"
  define h' where "h' = max 2 h"
  have v0: "sphere_vertex r w' h' 0 0 = Vector3 0 r 0"
    by (simp add: sphere_vertex_def)
  have row: "map (\<lambda>ix. sphere_vertex r w' h' 0 ix) [0..<Suc w']
             = Vector3 0 r 0 # map (\<lambda>ix. sphere_vertex r w' h' 0 ix) [Suc 0..<Suc w']"
    by (simp add: upt_conv_Cons v0 del: upt_Suc)
  have "SphereGeometry r w h =
          concat (map (\<lambda>iy. map (\<lambda>ix. sphere_vertex r w' h' iy ix) [0..<Suc w']) [0..<Suc h'])"
    by (simp add: SphereGeometry_def w'_def h'_def Let_def del: upt_Suc)
  also have "[0..<Suc h'] = 0 # [Suc 0..<Suc h']" by (simp add: upt_conv_Cons del: upt_Suc)
  finally show ?thesis using row by (simp del: upt_Suc)
qed

lemma normalize_v_pole: "normalize_v (Vector3 0 1 0) = Vector3 0 1 0"
  by (simp add: normalize_v_def length_v_def multiplyScalar_def)

lemma displace_pole:
  "displace 1 s (Vector3 0 1 0) = Some (Vector3 0 (0.85 + deformation s (Vector3 0 1 0) * 0.3) 0)"
  by (simp add: displace_def newRadius_def normalize_v_pole length_v_def multiplyScalar_def)

lemma geometry_first:
  "\<exists>rest. positions (fst (createGeoidGeometry 1 n rng))
     = Some (Vector3 0 (0.85 + deformation (rng !! 4 * 1000) (Vector3 0 1 0) * 0.3) 0) # rest"
proof -
  obtain rest where "SphereGeometry 1 n n = Vector3 0 1 0 # rest"
    using SphereGeometry_first[of 1 n n] by blast
  then show ?thesis by (simp add: createGeoidGeometry_positions displace_pole)
qed












text \<open>The theorem of claim C7 at radius 1, 8 segments and the fifth draw 0, for the north pole.\<close>

theorem displaced_radius_bounds_witness:
  "(0::real) < 1 \<and>
   Some (Vector3 0 (0.85 + deformation 0 (Vector3 0 1 0) * 0.3) 0)
     \<in> set (positions (fst (createGeoidGeometry 1 8 (sconst 0)))) \<and>
   0.55 * 1 \<le> length_v (Vector3 0 (0.85 + deformation 0 (Vector3 0 1 0) * 0.3) 0) \<and>
   length_v (Vector3 0 (0.85 + deformation 0 (Vector3 0 1 0) * 0.3) 0) \<le> 1.15 * 1"
proof -
  let ?p = "Vector3 0 (0.85 + deformation 0 (Vector3 0 1 0) * 0.3) 0"
  obtain rest where "positions (fst (createGeoidGeometry 1 8 (sconst 0))) = Some ?p # rest"
    using geometry_first[of 8 "sconst 0"] by auto
  then have mem: "Some ?p \<in> set (positions (fst (createGeoidGeometry 1 8 (sconst 0))))" by simp
  have pos: "(0::real) < 1" by simp
  from displaced_radius_bounds[OF pos, of 8 "sconst 0"] mem
  have "\<exists>p. Some ?p = Some p \<and> 0.55 * 1 \<le> length_v p \<and> length_v p \<le> 1.15 * 1"
    by (rule bspec)
  then have "0.55 * 1 \<le> length_v ?p \<and> length_v ?p \<le> 1.15 * 1" by simp
  with mem pos show ?thesis by blast
qed

text \<open>
  Claim C7 does not hold at the radius 0: the vertices of the sphere are then at the centre,
  \<^verbatim>\<open>newRadius / vertex.length()\<close> is \<open>0 / 0\<close>, and no vertex of the result has a distance
  from the centre. Here for 8 segments.
\<close>

theorem displaced_radius_counterexample:
  "set (positions (fst (createGeoidGeometry 0 8 (sconst 0)))) = {None} \<and>
   \<not> (\<forall>q \<in> set (positions (fst (createGeoidGeometry 0 8 (sconst 0)))).
         \<exists>p. q = Some p \<and> 0.55 * 0 \<le> length_v p \<and> length_v p \<le> 1.15 * 0)"
proof -
  let ?ps = "positions (fst (createGeoidGeometry 0 8 (sconst 0)))"
  obtain rest where r: "SphereGeometry 0 8 8 = Vector3 0 0 0 # rest"
    using SphereGeometry_first[of 0 8 8] by blast
  have ne: "?ps \<noteq> []" by (simp add: createGeoidGeometry_positions r)
  have none: "\<forall>q \<in> set ?ps. q = None"
  proof
    fix q assume "q \<in> set ?ps"
    then obtain v where v: "v \<in> set (SphereGeometry 0 8 8)" and q: "q = displace 0 (sconst 0 !! 4 * 1000) v"
      by (auto simp: createGeoidGeometry_positions)
    have "length_v v = 0" using SphereGeometry_vertices[OF v] by simp
    then show "q = None" by (simp add: q displace_def)
  qed
  from ne obtain q where "q \<in> set ?ps" by (cases ?ps) auto
  with none have "\<exists>q \<in> set ?ps. q = None" by blast
  then have "\<not> (\<forall>q \<in> set ?ps. \<exists>p. q = Some p \<and> 0.55 * 0 \<le> length_v p \<and> length_v p \<le> 1.15 * 0)"
    by auto
  moreover have "set ?ps = {None}" using ne none by (cases ?ps) auto
  ultimately show ?thesis by blast
qed






section \<open>Properties of the propagator\<close>

lemma rmod_add_period: "p \<noteq> 0 \<Longrightarrow> rmod (t + p) p = rmod t p"
proof -
  assume p: "p \<noteq> 0"
  have "(t + p) / p = t / p + 1" using p by (simp add: add_divide_distrib)
  then have "\<lfloor>(t + p) / p\<rfloor> = \<lfloor>t / p\<rfloor> + 1" by simp
  then show ?thesis by (simp add: rmod_def algebra_simps)
qed

lemma close_rel_refl: "0 \<le> tol \<Longrightarrow> close_rel tol a a"
  by (simp add: close_rel_def)

text \<open>
  Claim C9. For valid elements and every real \<open>t\<close>, the positions at \<open>t\<close> and at
  \<open>t + period\<close> are equal, hence equal within the relative tolerance \<open>1e-4\<close>: the mean
  anomaly of step 1 is the same at both times.
\<close>

theorem propagate_periodic:
  assumes "valid_elements el"
  shows "propagate el (t + period el) = propagate el t \<and>
         close_rel_v (1 / 10000) (propagate el t) (propagate el (t + period el))"
proof -
  have "period el \<noteq> 0" using assms by (simp add: valid_elements_def)
  then have "meanAnomaly el (t + period el) = meanAnomaly el t"
    by (simp add: meanAnomaly_def rmod_add_period)
  then have eq: "propagate el (t + period el) = propagate el t"
    by (simp add: propagate_def)
  then show ?thesis by (simp add: close_rel_v_def close_rel_refl)
qed

text \<open>The theorem at the elements of the first scenario, \<open>t = 0\<close>.\<close>

theorem propagate_periodic_witness:
  "valid_elements \<lparr>semiMajorAxis = 150, eccentricity = 0, period = 365, inclination = 0,
                   omega = 0, raan = 0\<rparr> \<and>
   propagate \<lparr>semiMajorAxis = 150, eccentricity = 0, period = 365, inclination = 0,
              omega = 0, raan = 0\<rparr> (0 + 365)
   = propagate \<lparr>semiMajorAxis = 150, eccentricity = 0, period = 365, inclination = 0,
                omega = 0, raan = 0\<rparr> 0"
proof -
  let ?el = "\<lparr>semiMajorAxis = 150, eccentricity = 0, period = 365, inclination = 0,
              omega = 0, raan = 0\<rparr>"
  have v: "valid_elements ?el" by (simp add: valid_elements_def)
  from propagate_periodic[OF v, of 0] v show ?thesis by simp
qed

text \<open>The first scenario of the specification: a circular orbit of radius 150.\<close>

lemma newton_at_rest: "newton (Suc n) 0 M M = M"
  by simp

lemma eccentricAnomaly_circular: "eccentricAnomaly 0 M = M"
proof -
  have "newton (Suc 29) 0 M M = M" by (rule newton_at_rest)
  then show ?thesis by (simp add: eccentricAnomaly_def)
qed

lemma propagate_scenario_0:
  "propagate \<lparr>semiMajorAxis = 150, eccentricity = 0, period = 365, inclination = 0,
              omega = 0, raan = 0\<rparr> 0 = Vector3 150 0 0"
  by (simp add: propagate_def meanAnomaly_def rmod_def eccentricAnomaly_circular atan2_def
      rotateY_def rotateX_def Let_def)

lemma propagate_scenario_half:
  "propagate \<lparr>semiMajorAxis = 150, eccentricity = 0, period = 365, inclination = 0,
              omega = 0, raan = 0\<rparr> 182.5 = Vector3 (- 150) 0 0"
proof -
  have fl: "\<lfloor>(182.5::real) / 365\<rfloor> = 0" by simp
  have "rmod 182.5 365 = 182.5" unfolding rmod_def fl by simp
  then have M: "meanAnomaly \<lparr>semiMajorAxis = 150, eccentricity = 0, period = 365,
      inclination = 0, omega = 0, raan = 0\<rparr> (365 / 2) = pi"
    by (simp add: meanAnomaly_def)
  show ?thesis
    by (simp add: propagate_def M eccentricAnomaly_circular atan2_def
      rotateY_def rotateX_def Let_def)
qed


section \<open>Properties of the camera controller\<close>

lemma num_ops [simp]:
  "Fin a + Fin b = Fin (a + b)"
  "Fin a - Fin b = Fin (a - b)"
  "Fin a * Fin b = Fin (a * b)"
  "- Fin a = Fin (- a)"
  "(Fin a < Fin b) = (a < b)"
  "(Fin a \<le> Fin b) = (a \<le> b)"
  by (auto simp: plus_num_def minus_num_def times_num_def uminus_num_def less_num_def
      less_eq_num_def)

lemma num_div_Fin [simp]: "b \<noteq> 0 \<Longrightarrow> Fin a / Fin b = Fin (a / b)"
  by (simp add: divide_num_def)

lemma Math_max_Fin [simp]: "Math_max (Fin a) (Fin b) = Fin (max a b)"
  by (simp add: Math_max_def max_def)

lemma Math_min_Fin [simp]: "Math_min (Fin a) (Fin b) = Fin (min a b)"
  by (simp add: Math_min_def min_def)

lemma pi_bounds: "2 \<le> pi" "pi < 4"
  by (rule pi_ge_two, rule pi_less_4)

text \<open>The controllers of the scenarios, field by field.\<close>

lemma demo_controller_explicit:
  "demo_controller =
     \<lparr>camera = \<lparr>position = Vector3 (Fin 0) (Fin 0) (Fin 10), lookedAt = origin\<rparr>,
      target = origin, minDistance = Fin 2, maxDistance = Fin 500,
      currentDistance = Fin 50,
      rotationSpeed = Fin 0.01, zoomSpeed = Fin 0.5,
      isMouseDown = False, mouseX = Fin 0, mouseY = Fin 0, lastMouseX = Fin 0,
      lastMouseY = Fin 0,
      spherical = \<lparr>radius = Fin 10, phi = Fin (pi / 2), theta = Fin 0\<rparr>,
      autoRotate = False, autoRotateSpeed = Fin 0.01,
      lockedTarget = None, lockMode = LockNone, isTransitioning = False,
      meteorsList = [], currentMeteorIndex = - 1,
      sunInstance = Some 0, earthInstance = Some 1, currentMeteor = None,
      frames = [], console = []\<rparr>"
  using pi_bounds
  by (simp add: demo_controller_def setTargetObjects_def new_CameraController_def update_def
      Let_def camera_front_def origin_def setFromVector3_def setFromSpherical_def vsub_def
      vadd_def clamp_def atan2_def)



lemma isFinite_iff: "isFinite x \<longleftrightarrow> (\<exists>a. x = Fin a)"
  by (cases x) simp_all

text \<open>\<^verbatim>\<open>update\<close> without the intermediate names, when no locked target is followed.\<close>

lemma update_unlocked:
  assumes "isFinite (radius (spherical s))" "isFinite (phi (spherical s))"
    "isFinite (theta (spherical s))"
    "\<not> isNaN (vx (target s))" "\<not> isNaN (vy (target s))" "\<not> isNaN (vz (target s))"
    "lockedTarget s = None \<or> isTransitioning s" "\<not> autoRotate s"
  shows "update e s =
     s\<lparr>spherical := (spherical s)
          \<lparr>phi := Math_max (Fin 0.01) (Math_min (Fin (pi - 0.01)) (phi (spherical s))),
           radius := Math_max (minDistance s) (Math_min (maxDistance s) (radius (spherical s)))\<rparr>,
       camera :=
          \<lparr>position = vadd (setFromSpherical ((spherical s)
              \<lparr>phi := Math_max (Fin 0.01) (Math_min (Fin (pi - 0.01)) (phi (spherical s))),
               radius := Math_max (minDistance s) (Math_min (maxDistance s) (radius (spherical s)))\<rparr>))
              (target s),
           lookedAt = target s\<rparr>\<rparr>"
proof -
  obtain r p t where sp: "radius (spherical s) = Fin r" "phi (spherical s) = Fin p"
      "theta (spherical s) = Fin t"
    using assms(1-3) by (auto simp: isFinite_iff)
  show ?thesis
    using assms(4-8) sp
    by (cases "lockedTarget s") (auto simp: update_def Let_def)
qed

lemma animate_pending:
  assumes "progress_of e tr < Fin 1"
  shows "animate e tr s =
     (update e
        (s\<lparr>target := lerpVectors (startTarget tr) (getPosition (bodies e (targetObject tr)))
                       (ease (progress_of e tr)),
           spherical :=
             \<lparr>radius = startRadius tr + (targetDistance tr - startRadius tr) * ease (progress_of e tr),
              phi = startPhi tr +
                (phi (setFromVector3 (vsub (position (camera s))
                        (getPosition (bodies e (targetObject tr))))) - startPhi tr)
                * ease (progress_of e tr),
              theta = startTheta tr +
                (theta (setFromVector3 (vsub (position (camera s))
                          (getPosition (bodies e (targetObject tr))))) - startTheta tr)
                * ease (progress_of e tr)\<rparr>,
           currentDistance :=
             startRadius tr + (targetDistance tr - startRadius tr) * ease (progress_of e tr)\<rparr>))
      \<lparr>frames := frames s @ [tr]\<rparr>"
  using assms by (simp add: animate_def Let_def update_def updateMinDistanceForTarget_def
      console_log_def split: option.splits)

lemma animate_done:
  assumes "\<not> progress_of e tr < Fin 1"
  shows "animate e tr s =
     complete e tr
       ((update e
        (s\<lparr>target := lerpVectors (startTarget tr) (getPosition (bodies e (targetObject tr)))
                       (ease (progress_of e tr)),
           spherical :=
             \<lparr>radius = startRadius tr + (targetDistance tr - startRadius tr) * ease (progress_of e tr),
              phi = startPhi tr +
                (phi (setFromVector3 (vsub (position (camera s))
                        (getPosition (bodies e (targetObject tr))))) - startPhi tr)
                * ease (progress_of e tr),
              theta = startTheta tr +
                (theta (setFromVector3 (vsub (position (camera s))
                          (getPosition (bodies e (targetObject tr))))) - startTheta tr)
                * ease (progress_of e tr)\<rparr>,
           currentDistance :=
             startRadius tr + (targetDistance tr - startRadius tr) * ease (progress_of e tr)\<rparr>))
        \<lparr>isTransitioning := False\<rparr>)"
  using assms by (simp add: animate_def Let_def)

text \<open>The progress and the easing at the start and at the end of a transition.\<close>

lemma progress_of_Fin:
  assumes "now e = Fin t" "startTime tr = Fin t0" "duration tr = Fin d" "d \<noteq> 0"
  shows "progress_of e tr = Fin (min ((t - t0) / d) 1)"
  using assms by (simp add: progress_of_def)

lemma ease_0: "ease (Fin 0) = Fin 0"
  by (simp add: ease_def)

lemma ease_1: "ease (Fin 1) = Fin 1"
  by (simp add: ease_def Math_pow2_def)

text \<open>\<^verbatim>\<open>updateMinDistanceForTarget\<close> for a locked body whose radius is a finite number.\<close>

lemma updateMinDistanceForTarget_radius:
  assumes "lockedTarget s = Some ob" "bodyRadius (bodies e ob) = Some (Fin r)"
    "minDistance s = Fin a" "currentDistance s = Fin c"
  shows "updateMinDistanceForTarget e s =
     (if 0.1 < \<bar>a - r * 2.5\<bar>
      then (if c < r * 2.5
            then s\<lparr>minDistance := Fin (r * 2.5), currentDistance := Fin (r * 2.5),
                   spherical := (spherical s)\<lparr>radius := Fin (r * 2.5)\<rparr>\<rparr>
            else s\<lparr>minDistance := Fin (r * 2.5)\<rparr>)
      else s)"
  using assms by (simp add: updateMinDistanceForTarget_def Let_def)



lemma console_log_fields [simp]:
  "lockedTarget (console_log m s) = lockedTarget s"
  "lockMode (console_log m s) = lockMode s"
  "isTransitioning (console_log m s) = isTransitioning s"
  "frames (console_log m s) = frames s"
  "sunInstance (console_log m s) = sunInstance s"
  "earthInstance (console_log m s) = earthInstance s"
  "meteorsList (console_log m s) = meteorsList s"
  "currentMeteorIndex (console_log m s) = currentMeteorIndex s"
  "currentMeteor (console_log m s) = currentMeteor s"
  by (simp_all add: console_log_def)

lemma updateMinDistanceForTarget_fields [simp]:
  "lockedTarget (updateMinDistanceForTarget e s) = lockedTarget s"
  "lockMode (updateMinDistanceForTarget e s) = lockMode s"
  "isTransitioning (updateMinDistanceForTarget e s) = isTransitioning s"
  "frames (updateMinDistanceForTarget e s) = frames s"
  "sunInstance (updateMinDistanceForTarget e s) = sunInstance s"
  "earthInstance (updateMinDistanceForTarget e s) = earthInstance s"
  "meteorsList (updateMinDistanceForTarget e s) = meteorsList s"
  "currentMeteorIndex (updateMinDistanceForTarget e s) = currentMeteorIndex s"
  "currentMeteor (updateMinDistanceForTarget e s) = currentMeteor s"
  by (simp_all add: updateMinDistanceForTarget_def Let_def split: option.splits)

lemma update_fields [simp]:
  "lockedTarget (update e s) = lockedTarget s"
  "lockMode (update e s) = lockMode s"
  "isTransitioning (update e s) = isTransitioning s"
  "frames (update e s) = frames s"
  "sunInstance (update e s) = sunInstance s"
  "earthInstance (update e s) = earthInstance s"
  "meteorsList (update e s) = meteorsList s"
  "currentMeteorIndex (update e s) = currentMeteorIndex s"
  "currentMeteor (update e s) = currentMeteor s"
  by (simp_all add: update_def Let_def split: option.splits)


lemma pending_ok_cong:
  "sunInstance s' = sunInstance s \<Longrightarrow> earthInstance s' = earthInstance s \<Longrightarrow>
   pending_ok s' tr = pending_ok s tr"
  by (simp add: pending_ok_def)

lemma complete_fields [simp]:
  "isTransitioning (complete e tr s) = isTransitioning s"
  "frames (complete e tr s) = frames s"
  "sunInstance (complete e tr s) = sunInstance s"
  "earthInstance (complete e tr s) = earthInstance s"
  "meteorsList (complete e tr s) = meteorsList s"
  "currentMeteorIndex (complete e tr s) = currentMeteorIndex s"
  "currentMeteor (complete e tr s) = currentMeteor s"
  by (simp_all add: complete_def split: lock_mode.splits)

lemma complete_lock:
  "lockedTarget (complete e tr s) =
     (case onComplete tr of LockNone \<Rightarrow> lockedTarget s | LockSun \<Rightarrow> sunInstance s
      | LockEarth \<Rightarrow> earthInstance s | LockMeteor \<Rightarrow> Some (targetObject tr))"
  "lockMode (complete e tr s) =
     (case onComplete tr of LockNone \<Rightarrow> lockMode s | k \<Rightarrow> k)"
  by (simp_all add: complete_def split: lock_mode.splits)

lemma complete_consistent:
  assumes "lockedTarget s = None \<longleftrightarrow> lockMode s = LockNone" "pending_ok s tr"
    "\<not> isTransitioning s"
  shows "lock_consistent (complete e tr s)"
  using assms by (auto simp: lock_consistent_def complete_lock pending_ok_def split: lock_mode.splits)

lemma animate_fields [simp]:
  "sunInstance (animate e tr s) = sunInstance s"
  "earthInstance (animate e tr s) = earthInstance s"
  "meteorsList (animate e tr s) = meteorsList s"
  "currentMeteorIndex (animate e tr s) = currentMeteorIndex s"
  "currentMeteor (animate e tr s) = currentMeteor s"
  by (simp_all add: animate_def Let_def)

lemma animate_frames:
  "frames (animate e tr s) = (if progress_of e tr < Fin 1 then frames s @ [tr] else frames s)"
  by (simp add: animate_def Let_def)

lemma animate_consistent:
  assumes "lock_consistent s" "pending_ok s tr"
  shows "lock_consistent (animate e tr s)"
proof (cases "progress_of e tr < Fin 1")
  case True
  then show ?thesis using assms(1) by (simp add: animate_def Let_def lock_consistent_def)
next
  case False
  let ?s4 = "(update e (s\<lparr>target := lerpVectors (startTarget tr) (getPosition (bodies e (targetObject tr))) (ease (progress_of e tr)),
      spherical := \<lparr>radius = startRadius tr + (targetDistance tr - startRadius tr) * ease (progress_of e tr),
         phi = startPhi tr + (phi (setFromVector3 (vsub (position (camera s)) (getPosition (bodies e (targetObject tr))))) - startPhi tr) * ease (progress_of e tr),
         theta = startTheta tr + (theta (setFromVector3 (vsub (position (camera s)) (getPosition (bodies e (targetObject tr))))) - startTheta tr) * ease (progress_of e tr)\<rparr>,
      currentDistance := startRadius tr + (targetDistance tr - startRadius tr) * ease (progress_of e tr)\<rparr>))\<lparr>isTransitioning := False\<rparr>"
  have eq: "animate e tr s = complete e tr ?s4"
    using False by (simp add: animate_def Let_def)
  have "lock_consistent (complete e tr ?s4)"
    using assms by (intro complete_consistent) (simp_all add: lock_consistent_def pending_ok_def)
  then show ?thesis by (simp only: eq)
qed

lemma animate_inv:
  assumes "lock_inv s" "pending_ok s tr"
  shows "lock_inv (animate e tr s)"
  using assms animate_consistent[of s tr e]
  by (auto simp: lock_inv_def animate_frames pending_ok_cong[of "animate e tr s" s])

lemma foldl_animate_inv:
  "lock_inv s \<Longrightarrow> \<forall>tr \<in> set trs. pending_ok s tr \<Longrightarrow>
   lock_inv (foldl (\<lambda>s' tr. animate e tr s') s trs)"
proof (induction trs arbitrary: s)
  case Nil
  then show ?case by simp
next
  case (Cons tr trs)
  have 1: "lock_inv (animate e tr s)" using Cons.prems by (intro animate_inv) simp_all
  have 2: "\<forall>tr' \<in> set trs. pending_ok (animate e tr s) tr'"
    using Cons.prems(2) by (simp add: pending_ok_cong[of "animate e tr s" s])
  from Cons.IH[OF 1 2] show ?case by simp
qed

lemma animationFrame_inv: "lock_inv s \<Longrightarrow> lock_inv (animationFrame e s)"
  unfolding animationFrame_def
  by (rule foldl_animate_inv) (simp_all add: lock_inv_def lock_consistent_def pending_ok_def)


lemma update_inv: "lock_inv s \<Longrightarrow> lock_inv (update e s)"
  by (simp add: lock_inv_def lock_consistent_def pending_ok_def)

lemma transitionToTarget_inv:
  assumes "lock_inv s" "lockedTarget s = None" "lockMode s = LockNone"
    "kind = LockSun \<longrightarrow> sunInstance s \<noteq> None" "kind = LockEarth \<longrightarrow> earthInstance s \<noteq> None"
  shows "lock_inv (transitionToTarget e ob d kind dur s)"
  unfolding transitionToTarget_def Let_def
  using assms by (intro animate_inv) (simp_all add: lock_inv_def lock_consistent_def pending_ok_def)

lemma cleared_inv:
  "lock_inv s \<Longrightarrow> lock_inv (s\<lparr>lockedTarget := None, lockMode := LockNone\<rparr>)"
  by (simp add: lock_inv_def lock_consistent_def pending_ok_def)

lemma lockOntoSun_inv: "lock_inv s \<Longrightarrow> lock_inv (lockOntoSunWithTransition e d s)"
  unfolding lockOntoSunWithTransition_def Let_def
  by (auto split: option.splits intro!: transitionToTarget_inv cleared_inv)

lemma lockOntoEarth_inv: "lock_inv s \<Longrightarrow> lock_inv (lockOntoEarthWithTransition e d s)"
  unfolding lockOntoEarthWithTransition_def Let_def
  by (auto split: option.splits intro!: transitionToTarget_inv cleared_inv)

lemma lockOntoMeteor_inv: "lock_inv s \<Longrightarrow> lock_inv (lockOntoMeteor e m d s)"
  unfolding lockOntoMeteor_def Let_def
  by (auto split: option.splits intro!: transitionToTarget_inv cleared_inv)

lemma setCurrentMeteor_inv: "lock_inv s \<Longrightarrow> lock_inv (setCurrentMeteor m s)"
  by (simp add: setCurrentMeteor_def Let_def lock_inv_def lock_consistent_def pending_ok_def)

lemma lockOntoMeteorByIndex_inv: "lock_inv s \<Longrightarrow> lock_inv (lockOntoMeteorByIndex e i d s)"
proof -
  assume inv: "lock_inv s"
  have "lock_inv (s\<lparr>currentMeteorIndex := i\<rparr>)"
    using inv by (simp add: lock_inv_def lock_consistent_def pending_ok_def)
  then show ?thesis
    using inv unfolding lockOntoMeteorByIndex_def Let_def
    by (auto intro!: lockOntoMeteor_inv setCurrentMeteor_inv)
qed

lemma console_log_inv: "lock_inv s \<Longrightarrow> lock_inv (console_log m s)"
  by (simp add: lock_inv_def lock_consistent_def pending_ok_def)

lemma lockOntoMeteorIfExists_inv: "lock_inv s \<Longrightarrow> lock_inv (lockOntoMeteorIfExists e s)"
  by (cases "currentMeteor s")
     (simp_all add: lockOntoMeteorIfExists_def console_log_inv lockOntoMeteor_inv)

lemma unlockTarget_inv: "lock_inv s \<Longrightarrow> lock_inv (unlockTarget s)"
  by (simp add: unlockTarget_def lock_inv_def lock_consistent_def pending_ok_def)

lemma field_update_inv:
  assumes "lock_inv s" "lockedTarget s' = lockedTarget s" "lockMode s' = lockMode s"
    "isTransitioning s' = isTransitioning s" "frames s' = frames s"
    "sunInstance s' = sunInstance s" "earthInstance s' = earthInstance s"
  shows "lock_inv s'"
  using assms by (simp add: lock_inv_def lock_consistent_def pending_ok_def)

lemma onMouseMove_inv: "lock_inv s \<Longrightarrow> lock_inv (onMouseMove e cx cy s)"
  by (rule field_update_inv[of s]) (simp_all add: onMouseMove_def Let_def)

lemma onWheel_inv: "lock_inv s \<Longrightarrow> lock_inv (onWheel e dy s)"
  by (rule field_update_inv[of s]) (simp_all add: onWheel_def Let_def)

lemma resetCamera_inv: "lock_inv s \<Longrightarrow> lock_inv (resetCamera e s)"
  by (rule field_update_inv[of s]) (simp_all add: resetCamera_def)

lemma setTarget_inv: "lock_inv s \<Longrightarrow> lock_inv (setTarget e v s)"
  by (rule field_update_inv[of s]) (simp_all add: setTarget_def)

lemma setZoomLimits_inv: "lock_inv s \<Longrightarrow> lock_inv (setZoomLimits e mn mx s)"
  by (rule field_update_inv[of s]) (simp_all add: setZoomLimits_def Let_def)

lemma onKeyDown_inv: "lock_inv s \<Longrightarrow> lock_inv (onKeyDown e k s)"
proof (cases "isTransitioning s")
  case True
  then show "lock_inv s \<Longrightarrow> ?thesis" by (simp add: onKeyDown_def)
next
  case False
  assume inv: "lock_inv s"
  show ?thesis
  proof (cases k)
    case KeyR then show ?thesis using False inv by (simp add: onKeyDown_def resetCamera_inv)
  next
    case KeyG then show ?thesis using False inv
      by (simp add: onKeyDown_def lock_inv_def lock_consistent_def pending_ok_def)
  next
    case Digit0 then show ?thesis using False inv by (simp add: onKeyDown_def lockOntoSun_inv)
  next
    case Digit1 then show ?thesis using False inv by (simp add: onKeyDown_def lockOntoEarth_inv)
  next
    case Digit2 then show ?thesis using False inv
      by (simp add: onKeyDown_def lockOntoMeteorIfExists_inv)
  next
    case KeyA then show ?thesis using False inv
      by (simp add: onKeyDown_def Let_def console_log_inv lockOntoMeteor_inv setCurrentMeteor_inv)
  next
    case Escape then show ?thesis using False inv by (simp add: onKeyDown_def unlockTarget_inv)
  next
    case ArrowUp
    have "lock_inv (onKeyDown e ArrowUp s)"
      by (rule field_update_inv[OF inv]) (simp_all add: onKeyDown_def Let_def False)
    then show ?thesis using ArrowUp by simp
  next
    case ArrowDown
    have "lock_inv (onKeyDown e ArrowDown s)"
      by (rule field_update_inv[OF inv]) (simp_all add: onKeyDown_def Let_def False)
    then show ?thesis using ArrowDown by simp
  next
    case ArrowRight then show ?thesis using False inv
      by (simp add: onKeyDown_def lockOntoMeteorByIndex_inv)
  next
    case ArrowLeft then show ?thesis using False inv
      by (simp add: onKeyDown_def lockOntoMeteorByIndex_inv)
  next
    case OtherKey then show ?thesis using False inv by (simp add: onKeyDown_def)
  qed
qed

lemma step_inv: "lock_inv s \<Longrightarrow> lock_inv (step e ev s)"
proof (cases ev)
  case (MouseDown cx cy)
  then show "lock_inv s \<Longrightarrow> ?thesis"
    by (simp add: onMouseDown_def lock_inv_def lock_consistent_def pending_ok_def)
next
  case MouseUp
  then show "lock_inv s \<Longrightarrow> ?thesis"
    by (simp add: onMouseUp_def lock_inv_def lock_consistent_def pending_ok_def)
next
  case (SetMeteorsList ms)
  then show "lock_inv s \<Longrightarrow> ?thesis"
    by (simp add: setMeteorsList_def lock_inv_def lock_consistent_def pending_ok_def)
next
  case (SetAutoRotate b)
  then show "lock_inv s \<Longrightarrow> ?thesis"
    by (simp add: setAutoRotate_def lock_inv_def lock_consistent_def pending_ok_def)
qed (simp_all add: update_inv onMouseMove_inv onWheel_inv onKeyDown_inv animationFrame_inv
      lockOntoSun_inv lockOntoEarth_inv lockOntoMeteor_inv lockOntoMeteorByIndex_inv
      lockOntoMeteorIfExists_inv unlockTarget_inv resetCamera_inv setTarget_inv
      setCurrentMeteor_inv setZoomLimits_inv)

lemma run_inv: "lock_inv s \<Longrightarrow> lock_inv (run evs s)"
  by (induction evs arbitrary: s) (auto simp: step_inv)

lemma new_CameraController_inv:
  "lock_inv (setTargetObjects sun earth (new_CameraController e cam tgt mn mx))"
  by (simp add: setTargetObjects_def new_CameraController_def lock_inv_def lock_consistent_def
      pending_ok_def)

text \<open>What a step of a transition does to the lock, the flag and the pending steps.\<close>

lemma animate_pending_lock:
  assumes "progress_of e tr < Fin 1"
  shows "lockedTarget (animate e tr s) = lockedTarget s"
    "lockMode (animate e tr s) = lockMode s"
    "isTransitioning (animate e tr s) = isTransitioning s"
    "frames (animate e tr s) = frames s @ [tr]"
  using assms by (simp_all add: animate_def Let_def)

lemma animate_done_lock:
  assumes "\<not> progress_of e tr < Fin 1"
  shows "lockedTarget (animate e tr s) =
           (case onComplete tr of LockNone \<Rightarrow> lockedTarget s | LockSun \<Rightarrow> sunInstance s
            | LockEarth \<Rightarrow> earthInstance s | LockMeteor \<Rightarrow> Some (targetObject tr))"
    "lockMode (animate e tr s) = (case onComplete tr of LockNone \<Rightarrow> lockMode s | k \<Rightarrow> k)"
    "\<not> isTransitioning (animate e tr s)"
    "frames (animate e tr s) = frames s"
  using assms by (simp_all add: animate_def Let_def complete_lock split: lock_mode.splits)

text \<open>The flag under calls that come through the input handlers.\<close>

lemma animate_flag:
  assumes "frames s = []"
  shows "flag_tracks (animate e tr (s\<lparr>isTransitioning := True\<rparr>))"
proof (cases "progress_of e tr < Fin 1")
  case True
  then show ?thesis using assms by (simp add: flag_tracks_def animate_pending_lock)
next
  case False
  then show ?thesis using assms by (simp add: flag_tracks_def animate_done_lock)
qed

lemma transitionToTarget_flag:
  assumes "frames s = []"
  shows "flag_tracks (transitionToTarget e ob d kind dur s)"
  using animate_flag[of s e] assms by (simp add: transitionToTarget_def Let_def)

lemma flag_tracks_cong:
  "isTransitioning s' = isTransitioning s \<Longrightarrow> frames s' = frames s \<Longrightarrow>
   flag_tracks s' = flag_tracks s"
  by (simp add: flag_tracks_def)

lemma lockOntoMeteor_flag:
  assumes "flag_tracks s" "\<not> isTransitioning s"
  shows "flag_tracks (lockOntoMeteor e mi dur s)"
proof -
  have f: "frames s = []" using assms by (simp add: flag_tracks_def)
  have "flag_tracks (transitionToTarget e ob d kind dur (s\<lparr>lockedTarget := None, lockMode := LockNone\<rparr>))"
    for ob d kind
    by (rule transitionToTarget_flag) (simp add: f)
  then show ?thesis using assms(1) by (simp add: lockOntoMeteor_def Let_def split: option.splits)
qed

lemma onKeyDown_flag:
  assumes "flag_tracks s"
  shows "flag_tracks (onKeyDown e k s)"
proof (cases "isTransitioning s")
  case True
  then show ?thesis using assms by (simp add: onKeyDown_def)
next
  case False
  have f: "frames s = []" using assms False by (simp add: flag_tracks_def)
  have t: "flag_tracks (transitionToTarget e ob d kind dur (s\<lparr>lockedTarget := None, lockMode := LockNone\<rparr>))"
    for ob d kind dur
    by (rule transitionToTarget_flag) (simp add: f)
  have c: "flag_tracks (setCurrentMeteor mj (s\<lparr>currentMeteorIndex := i\<rparr>))"
      "\<not> isTransitioning (setCurrentMeteor mj (s\<lparr>currentMeteorIndex := i\<rparr>))"
      "flag_tracks (setCurrentMeteor mj s)" "\<not> isTransitioning (setCurrentMeteor mj s)" for mj i
    using assms False by (simp_all add: flag_tracks_def setCurrentMeteor_def Let_def)
  have m: "flag_tracks (lockOntoMeteor e mi dur (setCurrentMeteor mj (s\<lparr>currentMeteorIndex := i\<rparr>)))"
      "flag_tracks (lockOntoMeteor e mi dur (setCurrentMeteor mj s))"
      "flag_tracks (lockOntoMeteor e mi dur s)" for mi mj dur i
    by (intro lockOntoMeteor_flag c assms False)+
  show ?thesis
  proof (cases k)
    case KeyR
    then show ?thesis using False assms
      by (simp add: onKeyDown_def resetCamera_def flag_tracks_def)
  next
    case KeyG
    then show ?thesis using False assms by (simp add: onKeyDown_def flag_tracks_def)
  next
    case Digit0
    then show ?thesis using False assms t
      by (simp add: onKeyDown_def lockOntoSunWithTransition_def Let_def split: option.splits)
  next
    case Digit1
    then show ?thesis using False assms t
      by (simp add: onKeyDown_def lockOntoEarthWithTransition_def Let_def split: option.splits)
  next
    case Digit2
    then show ?thesis using False assms m(3)
      by (simp add: onKeyDown_def lockOntoMeteorIfExists_def flag_tracks_def split: option.splits)
  next
    case KeyA
    then show ?thesis using False assms m(2)
      by (simp add: onKeyDown_def Let_def flag_tracks_def)
  next
    case Escape
    then show ?thesis using False assms by (simp add: onKeyDown_def unlockTarget_def flag_tracks_def)
  next
    case ArrowUp
    then show ?thesis using False assms by (simp add: onKeyDown_def Let_def flag_tracks_def)
  next
    case ArrowDown
    then show ?thesis using False assms by (simp add: onKeyDown_def Let_def flag_tracks_def)
  next
    case ArrowRight
    then show ?thesis using False assms m(1)
      by (simp add: onKeyDown_def lockOntoMeteorByIndex_def Let_def)
  next
    case ArrowLeft
    then show ?thesis using False assms m(1)
      by (simp add: onKeyDown_def lockOntoMeteorByIndex_def Let_def)
  next
    case OtherKey
    then show ?thesis using False assms by (simp add: onKeyDown_def)
  qed
qed

lemma animationFrame_flag:
  assumes "flag_tracks s"
  shows "flag_tracks (animationFrame e s)"
proof (cases "frames s")
  case Nil
  then show ?thesis using assms by (simp add: animationFrame_def flag_tracks_def)
next
  case (Cons tr trs)
  with assms have one: "frames s = [tr]" and t: "isTransitioning s"
    by (simp_all add: flag_tracks_def)
  have "s\<lparr>frames := []\<rparr> = (s\<lparr>frames := []\<rparr>)\<lparr>isTransitioning := True\<rparr>" using t by simp
  then have "animationFrame e s = animate e tr ((s\<lparr>frames := []\<rparr>)\<lparr>isTransitioning := True\<rparr>)"
    using one by (simp add: animationFrame_def)
  then show ?thesis using animate_flag[of "s\<lparr>frames := []\<rparr>" e tr] by simp
qed

lemma step_flag:
  assumes "flag_tracks s" "through_handlers ev"
  shows "flag_tracks (step e ev s)"
proof (cases ev)
  case (KeyDown k)
  then show ?thesis using assms(1) by (simp add: onKeyDown_flag)
next
  case AnimationFrame
  then show ?thesis using assms(1) by (simp add: animationFrame_flag)
qed (insert assms, simp_all add: flag_tracks_def onMouseDown_def
        onMouseMove_def onMouseUp_def onWheel_def resetCamera_def setTarget_def
        setCurrentMeteor_def setMeteorsList_def setZoomLimits_def setAutoRotate_def Let_def)

lemma run_flag:
  "flag_tracks s \<Longrightarrow> \<forall>(e, ev) \<in> set evs. through_handlers ev \<Longrightarrow> flag_tracks (run evs s)"
proof (induction evs arbitrary: s)
  case Nil
  then show ?case by simp
next
  case (Cons a evs)
  obtain e ev where a: "a = (e, ev)" by (cases a)
  have "flag_tracks (step e ev s)" using Cons.prems a by (intro step_flag) auto
  then show ?case using Cons.IH Cons.prems(2) a by simp
qed

lemma new_CameraController_flag:
  "flag_tracks (setTargetObjects sun earth (new_CameraController e cam tgt mn mx))"
  by (simp add: flag_tracks_def setTargetObjects_def new_CameraController_def)

text \<open>
  Claim C10, as the code has it. In every state reached from a newly built controller, with
  the sun and the earth registered, by any calls of the per-frame update, the input
  handlers, the animation frame and the public commands, the locked target is null exactly
  when the mode is \<^verbatim>\<open>'none'\<close>; and while the flag \<^verbatim>\<open>isTransitioning\<close> is set
  \<^verbatim>\<open>getLockStatus()\<close> reports the mode \<^verbatim>\<open>'none'\<close>, not locked, no target. When the lock
  commands are reached through the input handlers only, that is so for as long as a
  transition is under way. (A direct call of a lock command or of \<^verbatim>\<open>unlockTarget()\<close> during
  a transition leaves a transition under way whose flag an earlier completion, or the
  unlock, clears.)
\<close>

theorem lock_status_consistent:
  "(lockedTarget (run evs (setTargetObjects sun earth (new_CameraController e cam tgt mn mx))) = None
      \<longleftrightarrow> lockMode (run evs (setTargetObjects sun earth (new_CameraController e cam tgt mn mx))) = LockNone) \<and>
   (isTransitioning (run evs (setTargetObjects sun earth (new_CameraController e cam tgt mn mx))) \<longrightarrow>
      getLockStatus (run evs (setTargetObjects sun earth (new_CameraController e cam tgt mn mx)))
        = (LockNone, False, None)) \<and>
   ((\<forall>(e', ev) \<in> set evs. through_handlers ev) \<and>
    in_flight (run evs (setTargetObjects sun earth (new_CameraController e cam tgt mn mx))) \<longrightarrow>
      getLockStatus (run evs (setTargetObjects sun earth (new_CameraController e cam tgt mn mx)))
        = (LockNone, False, None))"
proof -
  let ?s = "run evs (setTargetObjects sun earth (new_CameraController e cam tgt mn mx))"
  have inv: "lock_inv ?s"
    by (rule run_inv) (rule new_CameraController_inv)
  have "isTransitioning ?s" if "\<forall>(e', ev) \<in> set evs. through_handlers ev" "in_flight ?s"
  proof -
    have "flag_tracks ?s" using that(1) by (intro run_flag new_CameraController_flag)
    then show ?thesis using that(2) by (simp add: flag_tracks_def in_flight_def)
  qed
  with inv show ?thesis by (auto simp: lock_inv_def lock_consistent_def getLockStatus_def)
qed


lemmas eval_simps =
  animate_pending animate_done update_unlocked animationFrame_def
  progress_of_def ease_def Math_pow2_def scene_at_def scene_bodies_def
  origin_def setFromVector3_def setFromSpherical_def vsub_def
  vadd_def clamp_def atan2_def lerpVectors_def console_log_def

lemma intro_controller_explicit:
  "intro_controller =
     \<lparr>camera = \<lparr>position = Vector3 (Fin 0) (Fin 0) (Fin 10), lookedAt = origin\<rparr>,
      target = origin, minDistance = Fin 2, maxDistance = Fin 20,
      currentDistance = Fin 50,
      rotationSpeed = Fin 0.01, zoomSpeed = Fin 0.5,
      isMouseDown = False, mouseX = Fin 0, mouseY = Fin 0, lastMouseX = Fin 0,
      lastMouseY = Fin 0,
      spherical = \<lparr>radius = Fin 10, phi = Fin (pi / 2), theta = Fin 0\<rparr>,
      autoRotate = False, autoRotateSpeed = Fin 0.01,
      lockedTarget = None, lockMode = LockNone, isTransitioning = False,
      meteorsList = [], currentMeteorIndex = - 1,
      sunInstance = Some 0, earthInstance = Some 1, currentMeteor = None,
      frames = [], console = []\<rparr>"
  using pi_bounds
  by (simp add: intro_controller_def setTargetObjects_def new_CameraController_def update_def
      Let_def camera_front_def origin_def setFromVector3_def setFromSpherical_def vsub_def
      vadd_def clamp_def atan2_def)

text \<open>
  The scenario of \<^verbatim>\<open>ThreeDemo.js\<close>: the key 0 starts the transition onto the sun, whose first
  step leaves the camera where it is; the step at 1500 ms completes it.
\<close>

lemma demo_press_0:
  "onKeyDown (scene_at 0) Digit0 demo_controller =
     demo_controller\<lparr>isTransitioning := True, currentDistance := Fin 10,
                      frames := [sun_transition 10 0]\<rparr>"
  using pi_bounds
  unfolding demo_controller_explicit
  by (simp add: onKeyDown_def lockOntoSunWithTransition_def transitionToTarget_def Let_def
      eval_simps sun_transition_def)

lemma demo_sun_completes:
  "animationFrame (scene_at 1500)
     (demo_controller\<lparr>isTransitioning := True, currentDistance := Fin 10,
                      frames := [sun_transition 10 0]\<rparr>)
   = demo_controller
       \<lparr>camera := \<lparr>position = Vector3 (Fin 0) (Fin 0) (Fin 45), lookedAt = origin\<rparr>,
        minDistance := Fin 37.5, currentDistance := Fin 45,
        spherical := \<lparr>radius = Fin 45, phi = Fin (pi / 2), theta = Fin 0\<rparr>,
        lockedTarget := Some 0, lockMode := LockSun,
        console := [''Camera locked onto Sun'']\<rparr>"
  using pi_bounds
  unfolding demo_controller_explicit
  by (simp add: eval_simps sun_transition_def complete_def
      updateMinDistanceForTarget_radius[where r = 15 and a = 2 and c = 45])

lemma demo_press_1:
  "onKeyDown (scene_at 2000) Digit1
     (demo_controller
       \<lparr>camera := \<lparr>position = Vector3 (Fin 0) (Fin 0) (Fin 45), lookedAt = origin\<rparr>,
        minDistance := Fin 37.5, currentDistance := Fin 45,
        spherical := \<lparr>radius = Fin 45, phi = Fin (pi / 2), theta = Fin 0\<rparr>,
        lockedTarget := Some 0, lockMode := LockSun,
        console := [''Camera locked onto Sun'']\<rparr>)
   = demo_controller
       \<lparr>camera := \<lparr>position = Vector3 (Fin 0) (Fin 0) (Fin 45), lookedAt = origin\<rparr>,
        minDistance := Fin 37.5, currentDistance := Fin 45,
        spherical := \<lparr>radius = Fin 45, phi = Fin (pi / 2), theta = Fin 0\<rparr>,
        isTransitioning := True, frames := [earth_transition 45 2000],
        console := [''Camera locked onto Sun'']\<rparr>"
  using pi_bounds
  unfolding demo_controller_explicit
  by (simp add: onKeyDown_def lockOntoEarthWithTransition_def transitionToTarget_def Let_def
      eval_simps earth_transition_def)

lemma demo_earth_completes:
  "animationFrame (scene_at 3500)
     (demo_controller
       \<lparr>camera := \<lparr>position = Vector3 (Fin 0) (Fin 0) (Fin 45), lookedAt = origin\<rparr>,
        minDistance := Fin 37.5, currentDistance := Fin 45,
        spherical := \<lparr>radius = Fin 45, phi = Fin (pi / 2), theta = Fin 0\<rparr>,
        isTransitioning := True, frames := [earth_transition 45 2000],
        console := [''Camera locked onto Sun'']\<rparr>)
   = demo_controller
       \<lparr>camera := \<lparr>position =
            Vector3 (Fin (75 * sin (arctan (- (10 / 3))) / 2 + 150)) (Fin 0)
                    (Fin (75 * cos (arctan (- (10 / 3))) / 2)),
          lookedAt = Vector3 (Fin 150) (Fin 0) (Fin 0)\<rparr>,
        target := Vector3 (Fin 150) (Fin 0) (Fin 0),
        minDistance := Fin 2.5, currentDistance := Fin 5,
        spherical := \<lparr>radius = Fin 37.5, phi = Fin (pi / 2), theta = Fin (arctan (- (10 / 3)))\<rparr>,
        lockedTarget := Some 1, lockMode := LockEarth,
        console := [''Camera locked onto Sun'', ''Camera locked onto Earth'']\<rparr>"
  using pi_bounds
  unfolding demo_controller_explicit
  by (simp add: eval_simps earth_transition_def complete_def
      updateMinDistanceForTarget_radius[where r = 1 and a = "75 / 2" and c = 5])

text \<open>
  Claim C4 at the scenario: the camera locks onto the sun, then onto the earth with the
  goal radius 5. When that transition completes the flag is cleared, the mode is the earth
  and the distance kept by the controller is 5, but the radius is 37.5: the last step
  clamped it to the minimum distance left by the lock onto the sun.
\<close>

lemma demo_run:
  "run [(scene_at 0, KeyDown Digit0), (scene_at 1500, AnimationFrame),
        (scene_at 2000, KeyDown Digit1), (scene_at 3500, AnimationFrame)] demo_controller
   = demo_controller
       \<lparr>camera := \<lparr>position =
            Vector3 (Fin (75 * sin (arctan (- (10 / 3))) / 2 + 150)) (Fin 0)
                    (Fin (75 * cos (arctan (- (10 / 3))) / 2)),
          lookedAt = Vector3 (Fin 150) (Fin 0) (Fin 0)\<rparr>,
        target := Vector3 (Fin 150) (Fin 0) (Fin 0),
        minDistance := Fin 2.5, currentDistance := Fin 5,
        spherical := \<lparr>radius = Fin 37.5, phi = Fin (pi / 2), theta = Fin (arctan (- (10 / 3)))\<rparr>,
        lockedTarget := Some 1, lockMode := LockEarth,
        console := [''Camera locked onto Sun'', ''Camera locked onto Earth'']\<rparr>"
  by (simp only: run.simps step.simps demo_press_0 demo_sun_completes demo_press_1
      demo_earth_completes)

theorem earth_after_sun_radius:
  "let s = run [(scene_at 0, KeyDown Digit0), (scene_at 1500, AnimationFrame),
                (scene_at 2000, KeyDown Digit1), (scene_at 3500, AnimationFrame)] demo_controller
   in isTransitioning s = False \<and> lockMode s = LockEarth \<and> lockedTarget s = Some 1 \<and>
      currentDistance s = Fin 5 \<and> radius (spherical s) = Fin 37.5"
  unfolding demo_run by (simp add: demo_controller_explicit)


text \<open>
  The theorem of claim C10 at the controller of the scenario, once the key 0 has started a
  transition.
\<close>

theorem lock_status_consistent_witness:
  "through_handlers (KeyDown Digit0) \<and>
   in_flight
     (run [(scene_at 0, KeyDown Digit0)]
        (setTargetObjects (Some 0) (Some 1)
           (new_CameraController (scene_at 0) camera_front origin (Fin 2) (Fin 500)))) \<and>
   isTransitioning
     (run [(scene_at 0, KeyDown Digit0)]
        (setTargetObjects (Some 0) (Some 1)
           (new_CameraController (scene_at 0) camera_front origin (Fin 2) (Fin 500)))) \<and>
   getLockStatus
     (run [(scene_at 0, KeyDown Digit0)]
        (setTargetObjects (Some 0) (Some 1)
           (new_CameraController (scene_at 0) camera_front origin (Fin 2) (Fin 500))))
     = (LockNone, False, None)"
proof -
  have t: "isTransitioning
     (run [(scene_at 0, KeyDown Digit0)]
        (setTargetObjects (Some 0) (Some 1)
           (new_CameraController (scene_at 0) camera_front origin (Fin 2) (Fin 500))))"
      "in_flight
     (run [(scene_at 0, KeyDown Digit0)]
        (setTargetObjects (Some 0) (Some 1)
           (new_CameraController (scene_at 0) camera_front origin (Fin 2) (Fin 500))))"
    unfolding demo_controller_def[symmetric] by (simp_all add: demo_press_0 in_flight_def)
  have h: "\<forall>(e', ev) \<in> set [(scene_at 0, KeyDown Digit0)]. through_handlers ev" by simp
  have k: "through_handlers (KeyDown Digit0)" by simp
  from lock_status_consistent[of "[(scene_at 0, KeyDown Digit0)]" "Some 0" "Some 1"
      "scene_at 0" camera_front origin "Fin 2" "Fin 500"] t h k
  show ?thesis by blast
qed

text \<open>
  Two lock commands, 100 ms apart: \<^verbatim>\<open>lockOntoSunWithTransition()\<close> and then
  \<^verbatim>\<open>lockOntoEarthWithTransition()\<close>, which does not look at the flag. Both transitions are
  pending.
\<close>

lemma demo_two_locks:
  "run [(scene_at 0, LockOntoSun (Fin 1500)), (scene_at 100, LockOntoEarth (Fin 1500))]
     demo_controller
   = demo_controller\<lparr>isTransitioning := True, currentDistance := Fin 10,
                      frames := [sun_transition 10 0, earth_transition 10 100]\<rparr>"
  using pi_bounds
  unfolding demo_controller_explicit
  by (simp add: lockOntoSunWithTransition_def lockOntoEarthWithTransition_def
      transitionToTarget_def Let_def eval_simps sun_transition_def earth_transition_def)

lemma demo_two_progress:
  "\<not> progress_of (scene_at 1500) (sun_transition 10 0) < Fin 1"
  "progress_of (scene_at 1500) (earth_transition 10 100) < Fin 1"
  by (simp_all add: progress_of_def scene_at_def sun_transition_def earth_transition_def)

text \<open>
  Claim C10 does not hold for the whole duration of a transition. After
  \<^verbatim>\<open>lockOntoSunWithTransition()\<close> at 0 ms and \<^verbatim>\<open>lockOntoEarthWithTransition()\<close> at 100 ms, the
  animation frame at 1500 ms completes the first transition: the flag is cleared and the
  sun is locked, while the transition onto the earth is still under way, its next step
  pending.
\<close>

theorem lock_status_counterexample:
  "let s = run [(scene_at 0, LockOntoSun (Fin 1500)), (scene_at 100, LockOntoEarth (Fin 1500)),
                (scene_at 1500, AnimationFrame)] demo_controller
   in in_flight s \<and> frames s = [earth_transition 10 100] \<and>
      progress_of (scene_at 1500) (earth_transition 10 100) < Fin 1 \<and>
      \<not> isTransitioning s \<and>
      lockedTarget s = Some 0 \<and> lockMode s = LockSun \<and>
      getLockStatus s = (LockSun, True, Some 0)"
proof -
  let ?s2 = "demo_controller\<lparr>isTransitioning := True, currentDistance := Fin 10,
                      frames := [sun_transition 10 0, earth_transition 10 100]\<rparr>"
  let ?e = "scene_at 1500"
  have r: "run [(scene_at 0, LockOntoSun (Fin 1500)), (scene_at 100, LockOntoEarth (Fin 1500)),
                (scene_at 1500, AnimationFrame)] demo_controller
           = animate ?e (earth_transition 10 100)
               (animate ?e (sun_transition 10 0) (?s2\<lparr>frames := []\<rparr>))"
    using demo_two_locks by (simp add: animationFrame_def)
  have sun: "sunInstance demo_controller = Some 0" "onComplete (sun_transition 10 0) = LockSun"
    by (simp_all add: demo_controller_explicit sun_transition_def)
  show ?thesis
    unfolding r Let_def
    by (simp add: animate_pending_lock[OF demo_two_progress(2)]
        animate_done_lock[OF demo_two_progress(1)] sun getLockStatus_def demo_two_progress(2)
        in_flight_def)
qed

text \<open>What \<^verbatim>\<open>update\<close> does with invalid numbers.\<close>

lemma update_invalid_spherical:
  assumes "\<not> (isFinite (radius (spherical s)) \<and> isFinite (phi (spherical s)) \<and>
              isFinite (theta (spherical s)))"
  shows "update e s =
     console_log ''CameraController: Invalid spherical coordinates detected, skipping camera update.'' s"
  using assms by (auto simp: update_def)

lemma update_NaN_target:
  assumes "isNaN (vx (target s)) \<or> isNaN (vy (target s)) \<or> isNaN (vz (target s))"
  shows "camera (update e s) = camera s \<and> target (update e s) = target s \<and>
         console (update e s) \<noteq> console s"
  using assms by (auto simp: update_def Let_def console_log_def)

text \<open>
  Claim C5 at an infinite target: \<^verbatim>\<open>setTarget(new THREE.Vector3(Infinity, 0, 0))\<close> on the
  controller of the scenario. The frame is not skipped and nothing is logged; the camera,
  which was at \<open>(0, 0, 10)\<close>, is moved to \<open>(Infinity, 0, 10)\<close>.
\<close>

theorem infinite_target_propagates:
  "position (camera demo_controller) = Vector3 (Fin 0) (Fin 0) (Fin 10) \<and>
   position (camera (setTarget (scene_at 0) (Vector3 PInf (Fin 0) (Fin 0)) demo_controller))
     = Vector3 PInf (Fin 0) (Fin 10) \<and>
   console (setTarget (scene_at 0) (Vector3 PInf (Fin 0) (Fin 0)) demo_controller) = []"
  using pi_bounds
  unfolding demo_controller_explicit
  by (simp add: setTarget_def update_unlocked setFromSpherical_def vadd_def plus_num_def)

text \<open>The mouse button goes down and the key 0 starts a transition onto the sun.\<close>

lemma demo_drag_press_0:
  "run [(scene_at 0, MouseDown (Fin 0) (Fin 0)), (scene_at 0, KeyDown Digit0)] demo_controller
   = demo_controller\<lparr>isMouseDown := True, isTransitioning := True, currentDistance := Fin 10,
                      frames := [sun_transition 10 0]\<rparr>"
  using pi_bounds
  unfolding demo_controller_explicit
  by (simp add: onMouseDown_def onKeyDown_def lockOntoSunWithTransition_def
      transitionToTarget_def Let_def eval_simps sun_transition_def)

text \<open>
  Claim C2 at the scenario: the mouse button is down and the key 0 has started a
  transition. While it is in progress a mouse move turns the camera and a wheel event
  changes the radius and the distance.
\<close>

theorem input_during_transition:
  "let s = run [(scene_at 0, MouseDown (Fin 0) (Fin 0)), (scene_at 0, KeyDown Digit0)]
             demo_controller
   in isTransitioning s \<and>
      theta (spherical s) = Fin 0 \<and>
      theta (spherical (onMouseMove (scene_at 100) (Fin 10) (Fin 0) s)) = Fin (- 0.1) \<and>
      radius (spherical s) = Fin 10 \<and> currentDistance s = Fin 10 \<and>
      radius (spherical (onWheel (scene_at 100) (Fin 100) s)) = Fin 37.5 \<and>
      currentDistance (onWheel (scene_at 100) (Fin 100) s) = Fin 37.5"
  unfolding demo_drag_press_0 using pi_bounds
  by (simp add: demo_controller_explicit onMouseMove_def onWheel_def Let_def update_unlocked
      vlength_def origin_def)

lemma onKeyDown_during_transition: "isTransitioning s \<Longrightarrow> onKeyDown e k s = s"
  by (simp add: onKeyDown_def)

text \<open>\<^verbatim>\<open>update\<close> without the intermediate names, when a locked target is followed.\<close>

lemma update_locked:
  assumes "isFinite (radius (spherical s))" "isFinite (phi (spherical s))"
    "isFinite (theta (spherical s))"
    "\<not> isNaN (vx (target s))" "\<not> isNaN (vy (target s))" "\<not> isNaN (vz (target s))"
    "lockedTarget s = Some ob" "\<not> isTransitioning s" "\<not> autoRotate s"
  shows "update e s =
     (\<lambda>s3. s3\<lparr>camera := \<lparr>position = vadd (setFromSpherical (spherical s3)) (target s3),
                            lookedAt = target s3\<rparr>\<rparr>)
       (updateMinDistanceForTarget e
          (s\<lparr>spherical := (spherical s)
               \<lparr>phi := Math_max (Fin 0.01) (Math_min (Fin (pi - 0.01)) (phi (spherical s))),
                radius := Math_max (minDistance s) (Math_min (maxDistance s) (radius (spherical s)))\<rparr>,
             target := getPosition (bodies e ob)\<rparr>))"
proof -
  obtain r p t where sp: "radius (spherical s) = Fin r" "phi (spherical s) = Fin p"
      "theta (spherical s) = Fin t"
    using assms(1-3) by (auto simp: isFinite_iff)
  have "autoRotate (updateMinDistanceForTarget e x) = autoRotate x" for x
    by (simp add: updateMinDistanceForTarget_def Let_def split: option.splits)
  then show ?thesis
    using assms(4-9) sp by (simp add: update_def Let_def)
qed

text \<open>
  The scenario of \<^verbatim>\<open>IntroSlide.js\<close>, whose maximum distance is 20: the key 0 locks the
  camera onto the sun, and the next \<^verbatim>\<open>update\<close> puts it at the radius 37.5.
\<close>

lemma intro_press_0:
  "onKeyDown (scene_at 0) Digit0 intro_controller =
     intro_controller\<lparr>isTransitioning := True, currentDistance := Fin 10,
                       frames := [sun_transition 10 0]\<rparr>"
  using pi_bounds
  unfolding intro_controller_explicit
  by (simp add: onKeyDown_def lockOntoSunWithTransition_def transitionToTarget_def Let_def
      eval_simps sun_transition_def)

lemma intro_sun_completes:
  "animationFrame (scene_at 1500)
     (intro_controller\<lparr>isTransitioning := True, currentDistance := Fin 10,
                       frames := [sun_transition 10 0]\<rparr>)
   = intro_controller
       \<lparr>camera := \<lparr>position = Vector3 (Fin 0) (Fin 0) (Fin 20), lookedAt = origin\<rparr>,
        minDistance := Fin 37.5, currentDistance := Fin 45,
        spherical := \<lparr>radius = Fin 20, phi = Fin (pi / 2), theta = Fin 0\<rparr>,
        lockedTarget := Some 0, lockMode := LockSun,
        console := [''Camera locked onto Sun'']\<rparr>"
  using pi_bounds
  unfolding intro_controller_explicit
  by (simp add: eval_simps sun_transition_def complete_def
      updateMinDistanceForTarget_radius[where r = 15 and a = 2 and c = 45])

lemma intro_update:
  "update (scene_at 1500)
     (intro_controller
       \<lparr>camera := \<lparr>position = Vector3 (Fin 0) (Fin 0) (Fin 20), lookedAt = origin\<rparr>,
        minDistance := Fin 37.5, currentDistance := Fin 45,
        spherical := \<lparr>radius = Fin 20, phi = Fin (pi / 2), theta = Fin 0\<rparr>,
        lockedTarget := Some 0, lockMode := LockSun,
        console := [''Camera locked onto Sun'']\<rparr>)
   = intro_controller
       \<lparr>camera := \<lparr>position = Vector3 (Fin 0) (Fin 0) (Fin 37.5), lookedAt = origin\<rparr>,
        minDistance := Fin 37.5, currentDistance := Fin 45,
        spherical := \<lparr>radius = Fin 37.5, phi = Fin (pi / 2), theta = Fin 0\<rparr>,
        lockedTarget := Some 0, lockMode := LockSun,
        console := [''Camera locked onto Sun'']\<rparr>"
  using pi_bounds
  unfolding intro_controller_explicit
  by (simp add: update_locked[where ob = 0] scene_at_def scene_bodies_def origin_def
      setFromSpherical_def vadd_def
      updateMinDistanceForTarget_radius[where r = 15 and a = "75 / 2" and c = 45])

lemma intro_run:
  "run [(scene_at 0, KeyDown Digit0), (scene_at 1500, AnimationFrame), (scene_at 1500, Update)]
     intro_controller
   = intro_controller
       \<lparr>camera := \<lparr>position = Vector3 (Fin 0) (Fin 0) (Fin 37.5), lookedAt = origin\<rparr>,
        minDistance := Fin 37.5, currentDistance := Fin 45,
        spherical := \<lparr>radius = Fin 37.5, phi = Fin (pi / 2), theta = Fin 0\<rparr>,
        lockedTarget := Some 0, lockMode := LockSun,
        console := [''Camera locked onto Sun'']\<rparr>"
  by (simp only: run.simps step.simps intro_press_0 intro_sun_completes intro_update)

text \<open>A camera straight above its target has the polar angle 0, which \<^verbatim>\<open>update\<close> clamps to 0.01.\<close>

lemma above_controller_explicit:
  "new_CameraController (scene_at 0) camera_above origin (Fin 2) (Fin 500) =
     \<lparr>camera = \<lparr>position = Vector3 (Fin 0) (Fin (cos (1 / 100) * 10)) (Fin (sin (1 / 100) * 10)),
                 lookedAt = origin\<rparr>,
      target = origin, minDistance = Fin 2, maxDistance = Fin 500,
      currentDistance = Fin 50,
      rotationSpeed = Fin 0.01, zoomSpeed = Fin 0.5,
      isMouseDown = False, mouseX = Fin 0, mouseY = Fin 0, lastMouseX = Fin 0,
      lastMouseY = Fin 0,
      spherical = \<lparr>radius = Fin 10, phi = Fin 0.01, theta = Fin 0\<rparr>,
      autoRotate = False, autoRotateSpeed = Fin 0.01,
      lockedTarget = None, lockMode = LockNone, isTransitioning = False,
      meteorsList = [], currentMeteorIndex = - 1,
      sunInstance = None, earthInstance = None, currentMeteor = None,
      frames = [], console = []\<rparr>"
  using pi_bounds
  by (simp add: new_CameraController_def update_def
      Let_def camera_above_def origin_def setFromVector3_def setFromSpherical_def vsub_def
      vadd_def clamp_def atan2_def)

text \<open>
  The invariant of claim C3 does not hold as stated. After a zoom on a camera built straight
  above its target the polar angle is 0.01, not above it; and after the lock onto the sun
  under the bounds of \<^verbatim>\<open>IntroSlide.js\<close> the radius 37.5 exceeds the maximum distance 20.
\<close>

theorem camera_bounds_counterexample:
  "\<not> (Fin 0.01 < phi (spherical
         (run [(scene_at 0, Wheel (Fin 100))]
            (new_CameraController (scene_at 0) camera_above origin (Fin 2) (Fin 500))))) \<and>
   \<not> (radius (spherical
         (run [(scene_at 0, KeyDown Digit0), (scene_at 1500, AnimationFrame),
               (scene_at 1500, Update)] intro_controller))
       \<le> maxDistance
         (run [(scene_at 0, KeyDown Digit0), (scene_at 1500, AnimationFrame),
               (scene_at 1500, Update)] intro_controller))"
proof -
  have a: "phi (spherical
         (run [(scene_at 0, Wheel (Fin 100))]
            (new_CameraController (scene_at 0) camera_above origin (Fin 2) (Fin 500)))) = Fin 0.01"
    using pi_bounds unfolding above_controller_explicit
    by (simp add: onWheel_def Let_def update_unlocked vlength_def origin_def)
  show ?thesis unfolding a intro_run by (simp add: intro_controller_explicit)
qed

section \<open>The camera bounds are kept along runs\<close>

lemma positive_iff: "positive d \<longleftrightarrow> (\<exists>x. d = Fin x \<and> 0 < x)"
  by (cases d) auto

lemma env_fits_radius:
  assumes "env_fits M e"
  obtains R where "bodyRadius (bodies e ob) = Some (Fin R)" "R * 2.5 \<le> M"
proof -
  from assms have "case bodyRadius (bodies e ob) of None \<Rightarrow> False
                   | Some r \<Rightarrow> isFinite r \<and> r * Fin 2.5 \<le> Fin M"
    by (simp add: env_fits_def)
  then obtain r where r: "bodyRadius (bodies e ob) = Some r" "isFinite r" "r * Fin 2.5 \<le> Fin M"
    by (cases "bodyRadius (bodies e ob)") auto
  then obtain R where "r = Fin R" by (auto simp: isFinite_iff)
  with r show thesis by (intro that[of R]) simp_all
qed

lemma fin_vec_iff: "fin_vec v \<longleftrightarrow> (\<exists>x y z. v = Vector3 (Fin x) (Fin y) (Fin z))"
  by (cases v) (auto simp: fin_vec_def isFinite_iff)

lemma update_parts:
  assumes "isFinite (radius (spherical s))" "isFinite (phi (spherical s))"
    "isFinite (theta (spherical s))" "fin_vec (target s)"
  shows "update e s = place_camera (follow_target e (clamp_spherical s))"
proof -
  obtain r p t where sp: "radius (spherical s) = Fin r" "phi (spherical s) = Fin p"
      "theta (spherical s) = Fin t"
    using assms(1-3) by (auto simp: isFinite_iff)
  obtain x y z where tg: "target s = Vector3 (Fin x) (Fin y) (Fin z)"
    using assms(4) by (auto simp: fin_vec_iff)
  show ?thesis
    using sp tg
    by (simp add: update_def Let_def place_camera_def follow_target_def clamp_spherical_def
        split: option.splits)
qed


lemma clamp_spherical_steady:
  assumes "fin_state M s"
  shows "fin_state M (clamp_spherical s)" "camera_bounds (clamp_spherical s)"
    "wide s \<Longrightarrow> wide (clamp_spherical s)"
proof -
  obtain m r p c where v: "maxDistance s = Fin M" "minDistance s = Fin m" "m \<le> M"
      "radius (spherical s) = Fin r" "phi (spherical s) = Fin p" "currentDistance s = Fin c"
    using assms by (auto simp: fin_state_def isFinite_iff)
  have pb: "(0.01::real) \<le> pi - 0.01" using pi_bounds by simp
  show "fin_state M (clamp_spherical s)"
    using assms v by (simp add: fin_state_def clamp_spherical_def)
  show "camera_bounds (clamp_spherical s)"
    using v pb by (simp add: camera_bounds_def clamp_spherical_def)
  show "wide (clamp_spherical s)" if "wide s"
    using that v by (auto simp: wide_def clamp_spherical_def)
qed

lemma policy_steady:
  assumes "fin_state M x" "camera_bounds x" "wide x" "env_fits M e"
  shows "fin_state M (updateMinDistanceForTarget e x)"
    "camera_bounds (updateMinDistanceForTarget e x)"
    "wide (updateMinDistanceForTarget e x)"
proof -
  have "fin_state M (updateMinDistanceForTarget e x) \<and>
        camera_bounds (updateMinDistanceForTarget e x) \<and> wide (updateMinDistanceForTarget e x)"
  proof (cases "lockedTarget x")
    case None
    then show ?thesis using assms by (simp add: updateMinDistanceForTarget_def)
  next
    case (Some ob)
    obtain R where R: "bodyRadius (bodies e ob) = Some (Fin R)" "R * 2.5 \<le> M"
      by (rule env_fits_radius[OF assms(4)])
    obtain m r c where v: "maxDistance x = Fin M" "minDistance x = Fin m" "m \<le> M"
        "radius (spherical x) = Fin r" "currentDistance x = Fin c"
      using assms(1) by (auto simp: fin_state_def isFinite_iff)
    have b: "m \<le> r" "r \<le> M" and w: "c \<le> r \<or> M \<le> r"
      using assms(2,3) v by (simp_all add: camera_bounds_def wide_def)
    note eq = updateMinDistanceForTarget_radius[OF Some R(1) v(2) v(5)]
    show ?thesis
    proof (cases "0.1 < \<bar>m - R * 2.5\<bar>")
      case False
      then show ?thesis using assms eq by simp
    next
      case True
      show ?thesis
      proof (cases "c < R * 2.5")
        case True
        with \<open>0.1 < \<bar>m - R * 2.5\<bar>\<close> have e2: "updateMinDistanceForTarget e x =
            x\<lparr>minDistance := Fin (R * 2.5), currentDistance := Fin (R * 2.5),
              spherical := (spherical x)\<lparr>radius := Fin (R * 2.5)\<rparr>\<rparr>"
          using eq by simp
        show ?thesis
          unfolding e2 using assms(1,2) v R(2)
          by (simp add: fin_state_def camera_bounds_def wide_def)
      next
        case False
        with \<open>0.1 < \<bar>m - R * 2.5\<bar>\<close> have e2: "updateMinDistanceForTarget e x =
            x\<lparr>minDistance := Fin (R * 2.5)\<rparr>"
          using eq by simp
        have "R * 2.5 \<le> r" using False w R(2) by auto
        then show ?thesis
          unfolding e2 using assms(1,2,3) v R(2)
          by (simp add: fin_state_def camera_bounds_def wide_def)
      qed
    qed
  qed
  then show "fin_state M (updateMinDistanceForTarget e x)"
    "camera_bounds (updateMinDistanceForTarget e x)"
    "wide (updateMinDistanceForTarget e x)" by simp_all
qed

lemma follow_target_steady:
  assumes "fin_state M s" "camera_bounds s" "env_fits M e" "lockedTarget s \<noteq> None \<longrightarrow> wide s"
  shows "fin_state M (follow_target e s)" "camera_bounds (follow_target e s)"
    "lockedTarget (follow_target e s) \<noteq> None \<longrightarrow> wide (follow_target e s)"
    "wide s \<Longrightarrow> wide (follow_target e s)"
proof -
  have "fin_state M (follow_target e s) \<and> camera_bounds (follow_target e s) \<and>
        (lockedTarget (follow_target e s) \<noteq> None \<longrightarrow> wide (follow_target e s)) \<and>
        (wide s \<longrightarrow> wide (follow_target e s))"
  proof (cases "lockedTarget s")
    case None
    then show ?thesis using assms by (simp add: follow_target_def)
  next
    case (Some ob)
    show ?thesis
    proof (cases "isTransitioning s")
      case True
      then show ?thesis using assms Some by (simp add: follow_target_def)
    next
      case False
      let ?x = "s\<lparr>target := getPosition (bodies e ob)\<rparr>"
      have f: "fin_vec (getPosition (bodies e ob))" using assms(3) by (simp add: env_fits_def)
      have x: "fin_state M ?x" "camera_bounds ?x" "wide ?x"
        using assms(1,2,4) Some f by (simp_all add: fin_state_def camera_bounds_def wide_def)
      have eq: "follow_target e s = updateMinDistanceForTarget e ?x"
        using Some False by (simp add: follow_target_def)
      show ?thesis unfolding eq using policy_steady[OF x assms(3)] by simp
    qed
  qed
  then show "fin_state M (follow_target e s)" "camera_bounds (follow_target e s)"
    "lockedTarget (follow_target e s) \<noteq> None \<longrightarrow> wide (follow_target e s)"
    "wide s \<Longrightarrow> wide (follow_target e s)" by simp_all
qed

lemma setFromSpherical_fin:
  assumes "isFinite (radius sp)" "isFinite (phi sp)" "isFinite (theta sp)"
  shows "fin_vec (setFromSpherical sp)"
proof -
  obtain r p t where "radius sp = Fin r" "phi sp = Fin p" "theta sp = Fin t"
    using assms by (auto simp: isFinite_iff)
  then show ?thesis by (simp add: setFromSpherical_def fin_vec_def Let_def)
qed

lemma vadd_fin: "fin_vec a \<Longrightarrow> fin_vec b \<Longrightarrow> fin_vec (vadd a b)"
  by (auto simp: fin_vec_iff vadd_def)

lemma place_camera_steady:
  assumes "fin_state M s"
  shows "fin_state M (place_camera s)" "camera_bounds (place_camera s) = camera_bounds s"
    "wide (place_camera s) = wide s" "lockedTarget (place_camera s) = lockedTarget s"
proof -
  obtain t a where v: "theta (spherical s) = Fin t" "autoRotateSpeed s = Fin a"
    using assms by (auto simp: fin_state_def isFinite_iff)
  let ?s4 = "(if autoRotate s
                then s\<lparr>spherical := (spherical s)\<lparr>theta := theta (spherical s) + autoRotateSpeed s\<rparr>\<rparr>
                else s)"
  have sp: "isFinite (radius (spherical ?s4))" "isFinite (phi (spherical ?s4))"
      "isFinite (theta (spherical ?s4))" "fin_vec (target ?s4)"
    using assms v by (simp_all add: fin_state_def)
  have pos: "fin_vec (vadd (setFromSpherical (spherical ?s4)) (target ?s4))"
    by (intro vadd_fin setFromSpherical_fin sp)
  show "fin_state M (place_camera s)"
    using assms v pos by (simp add: fin_state_def place_camera_def Let_def)
  show "camera_bounds (place_camera s) = camera_bounds s"
    by (simp add: camera_bounds_def place_camera_def Let_def)
  show "wide (place_camera s) = wide s"
    by (simp add: wide_def place_camera_def Let_def)
  show "lockedTarget (place_camera s) = lockedTarget s"
    by (simp add: place_camera_def Let_def)
qed

text \<open>\<^verbatim>\<open>update\<close> on a finite state.\<close>

lemma update_steady:
  assumes "fin_state M s" "env_fits M e" "lockedTarget s \<noteq> None \<longrightarrow> wide s"
  shows "steady M (update e s)"
proof -
  have eq: "update e s = place_camera (follow_target e (clamp_spherical s))"
    using assms(1) by (intro update_parts) (simp_all add: fin_state_def)
  let ?c = "clamp_spherical s"
  have c: "fin_state M ?c" "camera_bounds ?c" "lockedTarget ?c \<noteq> None \<longrightarrow> wide ?c"
    using clamp_spherical_steady[OF assms(1)] assms(3) by (simp_all add: clamp_spherical_def)
  note f = follow_target_steady[OF c(1,2) assms(2) c(3)]
  note p = place_camera_steady[OF f(1)]
  show ?thesis unfolding eq steady_def using p f by simp
qed

lemma update_wide:
  assumes "fin_state M s" "env_fits M e" "wide s"
  shows "steady M (update e s)" "wide (update e s)"
proof -
  show "steady M (update e s)" using assms by (intro update_steady) simp_all
  have eq: "update e s = place_camera (follow_target e (clamp_spherical s))"
    using assms(1) by (intro update_parts) (simp_all add: fin_state_def)
  let ?c = "clamp_spherical s"
  have c: "fin_state M ?c" "camera_bounds ?c" "wide ?c"
    using clamp_spherical_steady[OF assms(1)] assms(3) by simp_all
  have c3: "lockedTarget ?c \<noteq> None \<longrightarrow> wide ?c" using c(3) by simp
  note f = follow_target_steady[OF c(1,2) assms(2) c3]
  note p = place_camera_steady[OF f(1)]
  show "wide (update e s)" unfolding eq using p f(4)[OF c(3)] by simp
qed


text \<open>The finite numbers are closed under what the handlers compute.\<close>

lemma sum_squares_nonneg: "(x * x + y * y + z * z < (0::real)) = False"
proof -
  have "0 \<le> x * x + y * y + z * z" by (intro add_nonneg_nonneg) simp_all
  then show ?thesis by (simp add: not_less)
qed

lemma vlength_fin: "fin_vec v \<Longrightarrow> isFinite (vlength v)"
  by (auto simp: fin_vec_iff vlength_def sum_squares_nonneg)

lemma setFromVector3_fin:
  assumes "fin_vec v"
  shows "isFinite (radius (setFromVector3 v))" "isFinite (phi (setFromVector3 v))"
    "isFinite (theta (setFromVector3 v))"
proof -
  obtain x y z where v: "v = Vector3 (Fin x) (Fin y) (Fin z)"
    using assms by (auto simp: fin_vec_iff)
  have "isFinite (radius (setFromVector3 v)) \<and> isFinite (phi (setFromVector3 v)) \<and>
        isFinite (theta (setFromVector3 v))"
    by (simp add: v setFromVector3_def Let_def clamp_def sum_squares_nonneg)
  then show "isFinite (radius (setFromVector3 v))" "isFinite (phi (setFromVector3 v))"
    "isFinite (theta (setFromVector3 v))" by simp_all
qed

lemma vsub_fin: "fin_vec a \<Longrightarrow> fin_vec b \<Longrightarrow> fin_vec (vsub a b)"
  by (auto simp: fin_vec_iff vsub_def)

lemma lerpVectors_fin: "fin_vec a \<Longrightarrow> fin_vec b \<Longrightarrow> isFinite t \<Longrightarrow> fin_vec (lerpVectors a b t)"
  by (auto simp: fin_vec_iff lerpVectors_def isFinite_iff)

lemma ease_fin: "isFinite p \<Longrightarrow> isFinite (ease p)"
  by (auto simp: isFinite_iff ease_def Math_pow2_def)

lemma progress_of_fin:
  assumes "isFinite (now e)" "transition_fits tr"
  shows "isFinite (progress_of e tr)"
proof -
  obtain t t0 d where "now e = Fin t" "startTime tr = Fin t0" "duration tr = Fin d" "0 < d"
    using assms by (auto simp: transition_fits_def isFinite_iff positive_iff)
  then show ?thesis by (simp add: progress_of_def)
qed

text \<open>States that differ in fields the invariant does not read.\<close>

lemma fin_state_cong:
  assumes "maxDistance s' = maxDistance s" "minDistance s' = minDistance s"
    "spherical s' = spherical s" "currentDistance s' = currentDistance s"
    "target s' = target s" "camera s' = camera s" "rotationSpeed s' = rotationSpeed s"
    "zoomSpeed s' = zoomSpeed s" "autoRotateSpeed s' = autoRotateSpeed s"
    "lastMouseX s' = lastMouseX s" "lastMouseY s' = lastMouseY s" "frames s' = frames s"
  shows "fin_state M s' = fin_state M s"
  using assms by (simp add: fin_state_def)

lemma steady_cong:
  assumes "maxDistance s' = maxDistance s" "minDistance s' = minDistance s"
    "spherical s' = spherical s" "currentDistance s' = currentDistance s"
    "target s' = target s" "camera s' = camera s" "rotationSpeed s' = rotationSpeed s"
    "zoomSpeed s' = zoomSpeed s" "autoRotateSpeed s' = autoRotateSpeed s"
    "lastMouseX s' = lastMouseX s" "lastMouseY s' = lastMouseY s" "frames s' = frames s"
    "lockedTarget s' = None \<or> lockedTarget s \<noteq> None"
  shows "steady M s \<Longrightarrow> steady M s'"
  using assms by (auto simp: steady_def fin_state_def camera_bounds_def wide_def)

text \<open>The zoom handlers set the radius from the current distance and call \<^verbatim>\<open>update\<close>.\<close>

lemma zoom_steady:
  assumes "fin_state M s" "env_fits M e"
  shows "steady M (update e (s\<lparr>currentDistance := Fin c,
                               spherical := (spherical s)\<lparr>radius := Fin c\<rparr>\<rparr>))"
proof -
  let ?s = "s\<lparr>currentDistance := Fin c, spherical := (spherical s)\<lparr>radius := Fin c\<rparr>\<rparr>"
  have "fin_state M ?s" using assms(1) by (simp add: fin_state_def)
  moreover have "wide ?s" by (simp add: wide_def)
  ultimately show ?thesis using assms(2) by (intro update_wide)
qed

lemma onWheel_steady:
  assumes "fin_state M s" "env_fits M e" "isFinite dy"
  shows "steady M (onWheel e dy s)"
proof -
  obtain d c z m where v: "dy = Fin d" "currentDistance s = Fin c" "zoomSpeed s = Fin z"
      "minDistance s = Fin m" "maxDistance s = Fin M"
    using assms(1,3) by (auto simp: fin_state_def isFinite_iff)
  obtain l where l: "vlength (target s) = Fin l"
    using assms(1) vlength_fin[of "target s"] by (auto simp: fin_state_def isFinite_iff)
  show ?thesis
    using v l zoom_steady[OF assms(1,2)] by (simp add: onWheel_def Let_def)
qed

lemma arrow_up_steady:
  assumes "fin_state M s" "env_fits M e" "\<not> isTransitioning s"
  shows "steady M (onKeyDown e ArrowUp s)"
proof -
  obtain c m where v: "currentDistance s = Fin c" "minDistance s = Fin m" "maxDistance s = Fin M"
    using assms(1) by (auto simp: fin_state_def isFinite_iff)
  obtain l where l: "vlength (target s) = Fin l"
    using assms(1) vlength_fin[of "target s"] by (auto simp: fin_state_def isFinite_iff)
  show ?thesis
    using v l assms(3) zoom_steady[OF assms(1,2)] by (simp add: onKeyDown_def Let_def)
qed

lemma arrow_down_steady:
  assumes "fin_state M s" "env_fits M e" "\<not> isTransitioning s"
  shows "steady M (onKeyDown e ArrowDown s)"
proof -
  obtain c m where v: "currentDistance s = Fin c" "minDistance s = Fin m" "maxDistance s = Fin M"
    using assms(1) by (auto simp: fin_state_def isFinite_iff)
  show ?thesis
    using v assms(3) zoom_steady[OF assms(1,2)] by (simp add: onKeyDown_def Let_def)
qed

lemma resetCamera_steady:
  assumes "fin_state M s" "env_fits M e"
  shows "steady M (resetCamera e s)"
proof -
  let ?s = "s\<lparr>currentDistance := Fin 75,
             spherical := \<lparr>radius = Fin 75, phi = Fin (pi / 2), theta = Fin 0\<rparr>\<rparr>"
  have "fin_state M ?s" using assms(1) by (simp add: fin_state_def)
  moreover have "wide ?s" by (simp add: wide_def)
  ultimately show ?thesis unfolding resetCamera_def using assms(2) by (intro update_wide)
qed

lemma setTarget_steady:
  assumes "steady M s" "env_fits M e" "fin_vec v"
  shows "steady M (setTarget e v s)"
  unfolding setTarget_def
  using assms by (intro update_steady) (auto simp: steady_def fin_state_def wide_def)

lemma onMouseMove_steady:
  assumes "steady M s" "env_fits M e" "isFinite cx" "isFinite cy"
  shows "steady M (onMouseMove e cx cy s)"
proof (cases "isMouseDown s")
  case False
  then show ?thesis using assms(1) by (simp add: onMouseMove_def)
next
  case True
  obtain x y lx ly rs p t where v: "cx = Fin x" "cy = Fin y" "lastMouseX s = Fin lx"
      "lastMouseY s = Fin ly" "rotationSpeed s = Fin rs" "phi (spherical s) = Fin p"
      "theta (spherical s) = Fin t"
    using assms(1,3,4) by (auto simp: steady_def fin_state_def isFinite_iff)
  have g: "steady M (update e (s\<lparr>spherical := (spherical s)\<lparr>theta := Fin t', phi := Fin p'\<rparr>,
                      lastMouseX := Fin x, lastMouseY := Fin y\<rparr>))" for p' t'
    using assms
    by (intro update_steady) (auto simp: steady_def fin_state_def wide_def)
  show ?thesis
    using True v g by (simp add: onMouseMove_def Let_def)
qed


text \<open>The steps of a transition.\<close>

lemma complete_steady:
  assumes "steady M x" "wide x" "env_fits M e"
  shows "steady M (complete e tr x)"
proof -
  have lock: "steady M (console_log msg (updateMinDistanceForTarget e
                 (x\<lparr>lockedTarget := ob, lockMode := k\<rparr>)))" for msg ob k
  proof -
    let ?y = "x\<lparr>lockedTarget := ob, lockMode := k\<rparr>"
    have y: "fin_state M ?y" "camera_bounds ?y" "wide ?y"
      using assms(1,2) by (auto simp: steady_def fin_state_def camera_bounds_def wide_def)
    note p = policy_steady[OF y assms(3)]
    have "steady M (updateMinDistanceForTarget e ?y)"
      using p by (simp add: steady_def)
    then show ?thesis
      by (rule steady_cong[rotated -1]) (auto simp: console_log_def)
  qed
  show ?thesis
    using assms(1) lock by (simp add: complete_def split: lock_mode.splits)
qed

lemma animate_steady:
  assumes "fin_state M s" "env_fits M e" "transition_fits tr"
  shows "steady M (animate e tr s)"
proof -
  obtain q where q: "ease (progress_of e tr) = Fin q"
    using ease_fin[OF progress_of_fin[of e tr]] assms(2,3)
    by (auto simp: env_fits_def isFinite_iff)
  have body: "fin_vec (getPosition (bodies e (targetObject tr)))"
    using assms(2) by (simp add: env_fits_def)
  have cam: "fin_vec (position (camera s))" using assms(1) by (simp add: fin_state_def)
  note sv = setFromVector3_fin[OF vsub_fin[OF cam body]]
  obtain tp tt where t: "phi (setFromVector3 (vsub (position (camera s))
                        (getPosition (bodies e (targetObject tr))))) = Fin tp"
      "theta (setFromVector3 (vsub (position (camera s))
                        (getPosition (bodies e (targetObject tr))))) = Fin tt"
    using sv by (auto simp: isFinite_iff)
  obtain sr sp st td where v: "startRadius tr = Fin sr" "startPhi tr = Fin sp"
      "startTheta tr = Fin st" "targetDistance tr = Fin td"
    using assms(3) by (auto simp: transition_fits_def isFinite_iff)
  have lerp: "fin_vec (lerpVectors (startTarget tr) (getPosition (bodies e (targetObject tr)))
                 (ease (progress_of e tr)))"
    using assms(3) body q by (intro lerpVectors_fin) (simp_all add: transition_fits_def)
  let ?s3 = "s\<lparr>target := lerpVectors (startTarget tr) (getPosition (bodies e (targetObject tr)))
                       (ease (progress_of e tr)),
           spherical :=
             \<lparr>radius = startRadius tr + (targetDistance tr - startRadius tr) * ease (progress_of e tr),
              phi = startPhi tr +
                (phi (setFromVector3 (vsub (position (camera s))
                        (getPosition (bodies e (targetObject tr))))) - startPhi tr)
                * ease (progress_of e tr),
              theta = startTheta tr +
                (theta (setFromVector3 (vsub (position (camera s))
                          (getPosition (bodies e (targetObject tr))))) - startTheta tr)
                * ease (progress_of e tr)\<rparr>,
           currentDistance :=
             startRadius tr + (targetDistance tr - startRadius tr) * ease (progress_of e tr)\<rparr>"
  have f3: "fin_state M ?s3"
    using assms(1) lerp by (simp add: fin_state_def q t v)
  have w3: "wide ?s3" by (simp add: wide_def q v)
  note u = update_wide[OF f3 assms(2) w3]
  show ?thesis
  proof (cases "progress_of e tr < Fin 1")
    case True
    have "steady M ((update e ?s3)\<lparr>frames := frames s @ [tr]\<rparr>)"
      using u(1) assms(1,3) by (auto simp: steady_def fin_state_def camera_bounds_def wide_def)
    then show ?thesis by (simp only: animate_pending[OF True])
  next
    case False
    have "steady M ((update e ?s3)\<lparr>isTransitioning := False\<rparr>)"
      using u(1) by (rule steady_cong[rotated -1]) auto
    moreover have "wide ((update e ?s3)\<lparr>isTransitioning := False\<rparr>)"
      using u(2) by (simp add: wide_def)
    ultimately have "steady M (complete e tr ((update e ?s3)\<lparr>isTransitioning := False\<rparr>))"
      using assms(2) by (intro complete_steady)
    then show ?thesis by (simp only: animate_done[OF False])
  qed
qed

lemma steady_fin: "steady M s \<Longrightarrow> fin_state M s"
  by (simp add: steady_def)

lemma foldl_animate_steady:
  assumes "env_fits M e"
  shows "steady M s \<Longrightarrow> \<forall>tr \<in> set trs. transition_fits tr \<Longrightarrow>
         steady M (foldl (\<lambda>s' tr. animate e tr s') s trs)"
proof (induction trs arbitrary: s)
  case Nil
  then show ?case by simp
next
  case (Cons tr trs)
  have "steady M (animate e tr s)"
    using Cons.prems assms by (intro animate_steady steady_fin) simp_all
  then show ?case using Cons.IH Cons.prems(2) by simp
qed

lemma animationFrame_steady:
  assumes "steady M s" "env_fits M e"
  shows "steady M (animationFrame e s)"
proof -
  have "steady M (s\<lparr>frames := []\<rparr>)"
    using assms(1) by (auto simp: steady_def fin_state_def camera_bounds_def wide_def)
  moreover have "\<forall>tr \<in> set (frames s). transition_fits tr"
    using assms(1) by (simp add: steady_def fin_state_def)
  ultimately show ?thesis
    unfolding animationFrame_def using assms(2) by (intro foldl_animate_steady)
qed

lemma transitionToTarget_steady:
  assumes "fin_state M s" "env_fits M e" "isFinite tDistance" "0 < d"
  shows "steady M (transitionToTarget e ob tDistance kind (Fin d) s)"
proof -
  let ?s1 = "s\<lparr>isTransitioning := True\<rparr>"
  let ?tr = "\<lparr>targetObject = ob, targetDistance = tDistance, onComplete = kind, duration = Fin d,
                startTarget = target ?s1, startTheta = theta (spherical ?s1),
                startPhi = phi (spherical ?s1), startRadius = radius (spherical ?s1),
                startTime = now e\<rparr>"
  have "fin_state M ?s1" using assms(1) by (simp add: fin_state_def)
  moreover have "transition_fits ?tr"
    using assms by (simp add: transition_fits_def fin_state_def env_fits_def)
  ultimately have "steady M (animate e ?tr ?s1)" using assms(2) by (intro animate_steady)
  then show ?thesis by (simp add: transitionToTarget_def Let_def)
qed

lemma cleared_fin: "fin_state M s \<Longrightarrow> fin_state M (s\<lparr>lockedTarget := None, lockMode := LockNone\<rparr>)"
  by (simp add: fin_state_def)

lemma lockOntoSun_steady:
  assumes "steady M s" "env_fits M e" "0 < d"
  shows "steady M (lockOntoSunWithTransition e (Fin d) s)"
  using assms(1) transitionToTarget_steady[OF cleared_fin[OF steady_fin[OF assms(1)]] assms(2) _ assms(3)]
  by (simp add: lockOntoSunWithTransition_def Let_def split: option.splits)

lemma lockOntoEarth_steady:
  assumes "steady M s" "env_fits M e" "0 < d"
  shows "steady M (lockOntoEarthWithTransition e (Fin d) s)"
  using assms(1) transitionToTarget_steady[OF cleared_fin[OF steady_fin[OF assms(1)]] assms(2) _ assms(3)]
  by (simp add: lockOntoEarthWithTransition_def Let_def split: option.splits)

lemma or_default_fin: "env_fits M e \<Longrightarrow> isFinite (or_default (bodyRadius (bodies e m)) (Fin d) * Fin 4)"
proof -
  assume "env_fits M e"
  then obtain R where "bodyRadius (bodies e m) = Some (Fin R)" by (rule env_fits_radius)
  then show ?thesis by (simp add: or_default_def)
qed

lemma lockOntoMeteor_steady:
  assumes "steady M s" "env_fits M e" "0 < d"
  shows "steady M (lockOntoMeteor e mi (Fin d) s)"
  using assms(1)
    transitionToTarget_steady[OF cleared_fin[OF steady_fin[OF assms(1)]] assms(2)
      or_default_fin[OF assms(2)] assms(3)]
  by (simp add: lockOntoMeteor_def Let_def split: option.splits)


lemma field_update_steady:
  assumes "steady M s"
  shows "steady M (console_log msg s)" "steady M (setCurrentMeteor mi s)"
    "steady M (setMeteorsList ms s)" "steady M (setAutoRotate b s)"
    "steady M (s\<lparr>autoRotate := b\<rparr>)" "steady M (onMouseUp s)"
    "steady M (s\<lparr>currentMeteorIndex := i\<rparr>)" "steady M (unlockTarget s)"
  using assms
  by (rule steady_cong[rotated -1];
      auto simp: console_log_def setCurrentMeteor_def setMeteorsList_def setAutoRotate_def
        onMouseUp_def unlockTarget_def Let_def)+

lemma onMouseDown_steady:
  assumes "steady M s" "isFinite cx" "isFinite cy"
  shows "steady M (onMouseDown cx cy s)"
  using assms by (auto simp: steady_def fin_state_def camera_bounds_def wide_def onMouseDown_def)

lemma lockOntoMeteorIfExists_steady:
  assumes "steady M s" "env_fits M e"
  shows "steady M (lockOntoMeteorIfExists e s)"
proof -
  have "(0::real) < 1500" by simp
  from lockOntoMeteor_steady[OF assms this] field_update_steady(1)[OF assms(1)]
  show ?thesis by (simp add: lockOntoMeteorIfExists_def split: option.splits)
qed

lemma lockOntoMeteorByIndex_steady:
  assumes "steady M s" "env_fits M e" "0 < d"
  shows "steady M (lockOntoMeteorByIndex e i (Fin d) s)"
proof -
  have "steady M (lockOntoMeteor e mi (Fin d) (setCurrentMeteor mj (s\<lparr>currentMeteorIndex := i\<rparr>)))"
    for mi mj
    by (intro lockOntoMeteor_steady field_update_steady assms)
  then show ?thesis using assms(1) by (simp add: lockOntoMeteorByIndex_def Let_def)
qed

lemma onKeyDown_steady:
  assumes "steady M s" "env_fits M e"
  shows "steady M (onKeyDown e k s)"
proof (cases "isTransitioning s")
  case True
  then show ?thesis using assms(1) by (simp add: onKeyDown_def)
next
  case False
  have d: "(0::real) < 1500" by simp
  note f = steady_fin[OF assms(1)]
  show ?thesis
  proof (cases k)
    case KeyR
    then show ?thesis using False resetCamera_steady[OF f assms(2)] by (simp add: onKeyDown_def)
  next
    case KeyG
    then show ?thesis using False field_update_steady(5)[OF assms(1)] by (simp add: onKeyDown_def)
  next
    case Digit0
    then show ?thesis using False lockOntoSun_steady[OF assms d] by (simp add: onKeyDown_def)
  next
    case Digit1
    then show ?thesis using False lockOntoEarth_steady[OF assms d] by (simp add: onKeyDown_def)
  next
    case Digit2
    then show ?thesis using False lockOntoMeteorIfExists_steady[OF assms] by (simp add: onKeyDown_def)
  next
    case KeyA
    have "steady M (console_log msg (lockOntoMeteor e mi (Fin 1500) (setCurrentMeteor mj s)))"
      for msg mi mj
      by (intro field_update_steady lockOntoMeteor_steady assms d)
    then show ?thesis
      using KeyA False field_update_steady(1)[OF assms(1)] by (simp add: onKeyDown_def Let_def)
  next
    case Escape
    then show ?thesis using False field_update_steady(8)[OF assms(1)] by (simp add: onKeyDown_def)
  next
    case ArrowUp
    then show ?thesis using arrow_up_steady[OF f assms(2) False] by simp
  next
    case ArrowDown
    then show ?thesis using arrow_down_steady[OF f assms(2) False] by simp
  next
    case ArrowRight
    then show ?thesis
      using False assms(1) lockOntoMeteorByIndex_steady[OF assms d] by (simp add: onKeyDown_def)
  next
    case ArrowLeft
    then show ?thesis
      using False assms(1) lockOntoMeteorByIndex_steady[OF assms d] by (simp add: onKeyDown_def)
  next
    case OtherKey
    then show ?thesis using False assms(1) by (simp add: onKeyDown_def)
  qed
qed

lemma step_steady:
  assumes "steady M s" "env_fits M e" "event_fits ev"
  shows "steady M (step e ev s)"
proof (cases ev)
  case Update
  have "steady M (update e s)"
    using assms(1,2) by (intro update_steady) (simp_all add: steady_def)
  then show ?thesis using Update by simp
next
  case (MouseDown cx cy)
  then show ?thesis using assms by (simp add: onMouseDown_steady)
next
  case (MouseMove cx cy)
  then show ?thesis using assms by (simp add: onMouseMove_steady)
next
  case MouseUp
  then show ?thesis using assms by (simp add: field_update_steady)
next
  case (Wheel dy)
  then show ?thesis using assms by (simp add: onWheel_steady steady_fin)
next
  case (KeyDown k)
  then show ?thesis using assms by (simp add: onKeyDown_steady)
next
  case AnimationFrame
  then show ?thesis using assms by (simp add: animationFrame_steady)
next
  case (LockOntoSun d)
  then show ?thesis using assms by (auto simp: lockOntoSun_steady positive_iff)
next
  case (LockOntoEarth d)
  then show ?thesis using assms by (auto simp: lockOntoEarth_steady positive_iff)
next
  case (LockOntoMeteor m d)
  then show ?thesis using assms by (auto simp: lockOntoMeteor_steady positive_iff)
next
  case (LockOntoMeteorByIndex i d)
  then show ?thesis using assms by (auto simp: lockOntoMeteorByIndex_steady positive_iff)
next
  case LockOntoMeteorIfExists
  then show ?thesis using assms by (simp add: lockOntoMeteorIfExists_steady)
next
  case Unlock
  then show ?thesis using assms by (simp add: field_update_steady)
next
  case ResetCamera
  then show ?thesis using assms by (simp add: resetCamera_steady steady_fin)
next
  case (SetTarget v)
  then show ?thesis using assms by (simp add: setTarget_steady)
next
  case (SetCurrentMeteor m)
  then show ?thesis using assms by (simp add: field_update_steady)
next
  case (SetMeteorsList ms)
  then show ?thesis using assms by (simp add: field_update_steady)
next
  case (SetZoomLimits mn mx)
  then show ?thesis using assms by simp
next
  case (SetAutoRotate b)
  then show ?thesis using assms by (simp add: field_update_steady)
qed

lemma run_steady:
  "steady M s \<Longrightarrow> \<forall>(e, ev) \<in> set evs. env_fits M e \<and> event_fits ev \<Longrightarrow>
   steady M (run evs s)"
proof (induction evs arbitrary: s)
  case Nil
  then show ?case by simp
next
  case (Cons a evs)
  obtain e ev where a: "a = (e, ev)" by (cases a)
  have "steady M (step e ev s)" using Cons.prems a by (intro step_steady) auto
  then show ?case using Cons.IH Cons.prems(2) a by simp
qed

lemma update_unlocked_steady:
  assumes "fin_state M s" "lockedTarget s = None"
  shows "steady M (update e s)"
proof -
  have eq: "update e s = place_camera (follow_target e (clamp_spherical s))"
    using assms(1) by (intro update_parts) (simp_all add: fin_state_def)
  let ?c = "clamp_spherical s"
  have c: "fin_state M ?c" "camera_bounds ?c" using clamp_spherical_steady[OF assms(1)] by simp_all
  have f: "follow_target e ?c = ?c" using assms(2) by (simp add: follow_target_def clamp_spherical_def)
  have l: "lockedTarget ?c = None" using assms(2) by (simp add: clamp_spherical_def)
  note p = place_camera_steady[OF c(1)]
  show ?thesis unfolding eq f steady_def using p c l by simp
qed

lemma new_CameraController_steady:
  assumes "fin_vec (position cam)" "fin_vec tgt" "m0 \<le> M"
  shows "steady M (setTargetObjects sun earth (new_CameraController e cam tgt (Fin m0) (Fin M)))"
proof -
  note sv = setFromVector3_fin[OF vsub_fin[OF assms(1,2)]]
  let ?s = "\<lparr>camera = cam, target = tgt, minDistance = Fin m0, maxDistance = Fin M,
        currentDistance = Math_max (Fin m0) (Fin 50),
        rotationSpeed = Fin 0.01, zoomSpeed = Fin 0.5,
        isMouseDown = False, mouseX = Fin 0, mouseY = Fin 0, lastMouseX = Fin 0,
        lastMouseY = Fin 0,
        spherical = setFromVector3 (vsub (position cam) tgt),
        autoRotate = False, autoRotateSpeed = Fin 0.01,
        lockedTarget = None, lockMode = LockNone, isTransitioning = False,
        meteorsList = [], currentMeteorIndex = - 1,
        sunInstance = None, earthInstance = None, currentMeteor = None,
        frames = [], console = []\<rparr>"
  have "fin_state M ?s" using assms sv by (simp add: fin_state_def)
  then have "steady M (update e ?s)" by (intro update_unlocked_steady) simp_all
  then have "steady M (new_CameraController e cam tgt (Fin m0) (Fin M))"
    by (simp add: new_CameraController_def)
  then show ?thesis
    by (rule steady_cong[rotated -1]) (auto simp: setTargetObjects_def)
qed


text \<open>
  Claim C3, as the code has it. Take a controller built on a finite camera position and
  target with \<open>minDistance \<le> maxDistance\<close>, and any sequence of calls of the input handlers,
  the per-frame \<^verbatim>\<open>update\<close>, the animation frame and the public commands except
  \<^verbatim>\<open>setZoomLimits\<close>, with finite arguments and positive durations, in scenes whose bodies
  have finite positions and radii with \<open>2.5 * radius \<le> maxDistance\<close>. After every call
  \<open>minDistance \<le> spherical.radius \<le> maxDistance\<close> and
  \<open>0.01 \<le> spherical.phi \<le> pi - 0.01\<close>: the bounds on \<open>phi\<close> are closed.
\<close>

theorem camera_bounds_invariant:
  assumes "fin_vec (position cam)" "fin_vec tgt" "m0 \<le> M"
    and "\<forall>(e, ev) \<in> set evs. env_fits M e \<and> event_fits ev"
  shows "camera_bounds
           (run evs (setTargetObjects sun earth (new_CameraController e0 cam tgt (Fin m0) (Fin M))))"
proof -
  have "steady M (setTargetObjects sun earth (new_CameraController e0 cam tgt (Fin m0) (Fin M)))"
    using assms(1-3) by (rule new_CameraController_steady)
  from run_steady[OF this assms(4)] show ?thesis by (simp add: steady_def)
qed

text \<open>
  The theorem at the page's controller with the bounds 2 and 500: the key 0 and the frame
  that completes the transition onto the sun, then the key 1 and the frame that completes
  the transition onto the earth. The minimum distance has gone from 2 to 37.5 to 2.5, and
  the radius is 37.5.
\<close>

theorem camera_bounds_invariant_witness:
  "fin_vec (position camera_front) \<and> fin_vec origin \<and> (2::real) \<le> 500 \<and>
   env_fits 500 (scene_at 0) \<and> event_fits (KeyDown Digit0) \<and>
   env_fits 500 (scene_at 1500) \<and> event_fits AnimationFrame \<and>
   env_fits 500 (scene_at 2000) \<and> event_fits (KeyDown Digit1) \<and>
   env_fits 500 (scene_at 3500) \<and>
   camera_bounds
     (run [(scene_at 0, KeyDown Digit0), (scene_at 1500, AnimationFrame),
           (scene_at 2000, KeyDown Digit1), (scene_at 3500, AnimationFrame)]
        (setTargetObjects (Some 0) (Some 1)
           (new_CameraController (scene_at 0) camera_front origin (Fin 2) (Fin 500)))) \<and>
   minDistance
     (run [(scene_at 0, KeyDown Digit0), (scene_at 1500, AnimationFrame),
           (scene_at 2000, KeyDown Digit1), (scene_at 3500, AnimationFrame)]
        (setTargetObjects (Some 0) (Some 1)
           (new_CameraController (scene_at 0) camera_front origin (Fin 2) (Fin 500)))) = Fin 2.5 \<and>
   radius (spherical
     (run [(scene_at 0, KeyDown Digit0), (scene_at 1500, AnimationFrame),
           (scene_at 2000, KeyDown Digit1), (scene_at 3500, AnimationFrame)]
        (setTargetObjects (Some 0) (Some 1)
           (new_CameraController (scene_at 0) camera_front origin (Fin 2) (Fin 500))))) = Fin 37.5"
proof -
  let ?evs = "[(scene_at 0, KeyDown Digit0), (scene_at 1500, AnimationFrame),
           (scene_at 2000, KeyDown Digit1), (scene_at 3500, AnimationFrame)]"
  have fits: "env_fits 500 (scene_at t)" for t
    by (simp add: env_fits_def scene_at_def scene_bodies_def fin_vec_def origin_def)
  have h: "fin_vec (position camera_front)" "fin_vec origin" "(2::real) \<le> 500"
      "\<forall>(e, ev) \<in> set ?evs. env_fits 500 e \<and> event_fits ev"
    by (simp_all add: fin_vec_def camera_front_def origin_def fits)
  have v: "minDistance (run ?evs demo_controller) = Fin 2.5"
      "radius (spherical (run ?evs demo_controller)) = Fin 37.5"
    unfolding demo_run by (simp_all add: demo_controller_explicit)
  have ev: "event_fits (KeyDown Digit0)" "event_fits AnimationFrame" "event_fits (KeyDown Digit1)"
    by simp_all
  from camera_bounds_invariant[OF h, of "Some 0" "Some 1" "scene_at 0"] h(1-3) fits ev
    v[unfolded demo_controller_def]
  show ?thesis by blast
qed

section \<open>Navigation in the list of meteors\<close>

lemma indexOf_nth:
  "distinct xs \<Longrightarrow> i < length xs \<Longrightarrow> indexOf xs (xs ! i) = int i"
proof (induction xs arbitrary: i)
  case Nil
  then show ?case by simp
next
  case (Cons b bs)
  show ?case
  proof (cases i)
    case 0
    then show ?thesis by simp
  next
    case (Suc j)
    with Cons.prems have j: "j < length bs" and d: "distinct bs" and nb: "b \<notin> set bs"
      by simp_all
    from j nb have "b \<noteq> bs ! j" by (metis nth_mem)
    moreover have "indexOf bs (bs ! j) = int j" using Cons.IH[OF d j] .
    ultimately show ?thesis using Suc by (simp add: Let_def)
  qed
qed

lemma indexOf_first: "xs \<noteq> [] \<Longrightarrow> indexOf xs (xs ! 0) = 0"
  by (cases xs) simp_all

lemma setCurrentMeteor_fields [simp]:
  "meteorsList (setCurrentMeteor mi s) = meteorsList s"
  "isTransitioning (setCurrentMeteor mi s) = isTransitioning s"
  "lockMode (setCurrentMeteor mi s) = lockMode s"
  "lockedTarget (setCurrentMeteor mi s) = lockedTarget s"
  "frames (setCurrentMeteor mi s) = frames s"
  by (simp_all add: setCurrentMeteor_def Let_def)

lemma setCurrentMeteor_index:
  "currentMeteorIndex (setCurrentMeteor (Some m) s) =
     (if indexOf (meteorsList s) m \<noteq> - 1 then indexOf (meteorsList s) m else currentMeteorIndex s)"
  by (simp add: setCurrentMeteor_def Let_def)

lemma lockOntoMeteor_fields [simp]:
  "meteorsList (lockOntoMeteor e mi d s) = meteorsList s"
  "currentMeteorIndex (lockOntoMeteor e mi d s) = currentMeteorIndex s"
  by (simp_all add: lockOntoMeteor_def transitionToTarget_def Let_def split: option.splits)

text \<open>
  When the clock reads a finite number, the first step of a transition finds the progress 0
  and asks for another frame.
\<close>

lemma transitionToTarget_pending:
  assumes "isFinite (now e)" "lockedTarget s = None"
  shows "isTransitioning (transitionToTarget e ob d kind (Fin 1500) s) \<and>
         lockedTarget (transitionToTarget e ob d kind (Fin 1500) s) = None \<and>
         (\<exists>tr. frames (transitionToTarget e ob d kind (Fin 1500) s) = frames s @ [tr] \<and>
               targetObject tr = ob \<and> onComplete tr = kind)"
proof -
  obtain t where t: "now e = Fin t" using assms(1) by (auto simp: isFinite_iff)
  define tr where "tr = \<lparr>targetObject = ob, targetDistance = d, onComplete = kind,
      duration = Fin 1500, startTarget = target s, startTheta = theta (spherical s),
      startPhi = phi (spherical s), startRadius = radius (spherical s), startTime = now e\<rparr>"
  have eq: "transitionToTarget e ob d kind (Fin 1500) s = animate e tr (s\<lparr>isTransitioning := True\<rparr>)"
    by (simp add: transitionToTarget_def Let_def tr_def)
  have "progress_of e tr = Fin 0"
    using progress_of_Fin[of e t tr t 1500] t by (simp add: tr_def)
  then have p: "progress_of e tr < Fin 1" by simp
  have "isTransitioning (animate e tr (s\<lparr>isTransitioning := True\<rparr>))"
    "lockedTarget (animate e tr (s\<lparr>isTransitioning := True\<rparr>)) = None"
    "frames (animate e tr (s\<lparr>isTransitioning := True\<rparr>)) = frames s @ [tr]"
    using p assms(2) by (simp_all add: animate_pending)
  moreover have "targetObject tr = ob" "onComplete tr = kind" by (simp_all add: tr_def)
  ultimately show ?thesis unfolding eq by blast
qed

lemma lockOntoMeteor_starts:
  assumes "isFinite (now e)" "\<not> (lockMode s = LockMeteor \<and> lockedTarget s = Some m)"
  shows "transition_onto (lockOntoMeteor e (Some m) (Fin 1500) s) m"
proof -
  let ?s1 = "s\<lparr>lockedTarget := None, lockMode := LockNone\<rparr>"
  let ?d = "or_default (bodyRadius (bodies e m)) (Fin 0.2) * Fin 4"
  have eq: "lockOntoMeteor e (Some m) (Fin 1500) s
            = transitionToTarget e m ?d LockMeteor (Fin 1500) ?s1"
    using assms(2) by (auto simp: lockOntoMeteor_def Let_def)
  from transitionToTarget_pending[OF assms(1), of ?s1 m ?d LockMeteor]
  have "transition_onto (transitionToTarget e m ?d LockMeteor (Fin 1500) ?s1) m"
    by (auto simp: transition_onto_def)
  then show ?thesis unfolding eq .
qed

lemma lockOntoMeteor_heads:
  assumes "isFinite (now e)"
  shows "locked_or_heading (lockOntoMeteor e (Some m) (Fin 1500) s) m"
proof (cases "lockMode s = LockMeteor \<and> lockedTarget s = Some m")
  case True
  then show ?thesis by (simp add: lockOntoMeteor_def locked_or_heading_def)
next
  case False
  from lockOntoMeteor_starts[OF assms False] show ?thesis by (simp add: locked_or_heading_def)
qed

lemma lockOntoMeteorByIndex_eq:
  assumes "0 \<le> i" "i < int (length (meteorsList s))"
  shows "lockOntoMeteorByIndex e i d s =
          lockOntoMeteor e (Some (meteorsList s ! nat i)) d
            (setCurrentMeteor (Some (meteorsList s ! nat i)) (s\<lparr>currentMeteorIndex := i\<rparr>))"
  using assms by (auto simp: lockOntoMeteorByIndex_def Let_def)

lemma lockOntoMeteorByIndex_index:
  assumes "distinct (meteorsList s)" "0 \<le> i" "i < int (length (meteorsList s))"
  shows "currentMeteorIndex (lockOntoMeteorByIndex e i d s) = i"
proof -
  have "indexOf (meteorsList s) (meteorsList s ! nat i) = int (nat i)"
    using assms by (intro indexOf_nth) auto
  then show ?thesis
    using assms by (simp add: lockOntoMeteorByIndex_eq setCurrentMeteor_index)
qed

lemma lockOntoMeteorByIndex_heads:
  assumes "isFinite (now e)" "0 \<le> i" "i < int (length (meteorsList s))"
  shows "locked_or_heading (lockOntoMeteorByIndex e i (Fin 1500) s) (meteorsList s ! nat i)"
proof -
  show ?thesis
    using lockOntoMeteor_heads[OF assms(1)] by (simp add: lockOntoMeteorByIndex_eq[OF assms(2,3)])
qed

text \<open>The three commands, when no transition is under way.\<close>

lemma next_meteor:
  assumes "\<not> isTransitioning s"
  shows "onKeyDown e ArrowRight s =
     (if currentMeteorIndex s < int (length (meteorsList s)) - 1 \<and> meteorsList s \<noteq> []
      then lockOntoMeteorByIndex e (currentMeteorIndex s + 1) (Fin 1500) s else s)"
  using assms by (simp add: onKeyDown_def)

lemma previous_meteor:
  assumes "\<not> isTransitioning s"
  shows "onKeyDown e ArrowLeft s =
     (if 0 < currentMeteorIndex s \<and> meteorsList s \<noteq> []
      then lockOntoMeteorByIndex e (currentMeteorIndex s - 1) (Fin 1500) s else s)"
  using assms by (simp add: onKeyDown_def)

lemma first_meteor:
  assumes "\<not> isTransitioning s" "meteorsList s \<noteq> []"
  shows "onKeyDown e KeyA s =
     console_log ''Camera locked onto first asteroid''
       (lockOntoMeteor e (Some (meteorsList s ! 0)) (Fin 1500)
          (setCurrentMeteor (Some (meteorsList s ! 0)) s))"
  using assms by (simp add: onKeyDown_def Let_def)

lemma locked_or_heading_console_log [simp]:
  "locked_or_heading (console_log m s) ob = locked_or_heading s ob"
  by (simp add: locked_or_heading_def transition_onto_def)

text \<open>
  Claim C8, with the conditions it needs. When no transition is under way, the meteors of
  the list are distinct, the current index \<open>i\<close> is within the list of length \<open>n\<close> and the
  clock reads a finite number: the next command (the right arrow) leaves the index at
  \<open>min (i + 1) (n - 1)\<close> and the previous command (the left arrow) at \<open>max (i - 1) 0\<close>; at
  an end of the list the command changes nothing; where the index changes, the controller
  is then either already locked onto the meteor at the new index or in a transition onto
  it; and the lock-first command (the key A) leaves the index at 0 with the controller
  locked onto the first meteor or in a transition onto it.
\<close>

theorem meteor_navigation:
  assumes "\<not> isTransitioning s" "distinct (meteorsList s)"
    "0 \<le> currentMeteorIndex s" "currentMeteorIndex s < int (length (meteorsList s))"
    "isFinite (now e)"
  shows "currentMeteorIndex (onKeyDown e ArrowRight s)
           = min (currentMeteorIndex s + 1) (int (length (meteorsList s)) - 1) \<and>
         currentMeteorIndex (onKeyDown e ArrowLeft s) = max (currentMeteorIndex s - 1) 0 \<and>
         currentMeteorIndex (onKeyDown e KeyA s) = 0 \<and>
         (currentMeteorIndex s = int (length (meteorsList s)) - 1 \<longrightarrow> onKeyDown e ArrowRight s = s) \<and>
         (currentMeteorIndex s = 0 \<longrightarrow> onKeyDown e ArrowLeft s = s) \<and>
         (currentMeteorIndex s < int (length (meteorsList s)) - 1 \<longrightarrow>
            locked_or_heading (onKeyDown e ArrowRight s)
              (meteorsList s ! nat (currentMeteorIndex s + 1))) \<and>
         (0 < currentMeteorIndex s \<longrightarrow>
            locked_or_heading (onKeyDown e ArrowLeft s)
              (meteorsList s ! nat (currentMeteorIndex s - 1))) \<and>
         locked_or_heading (onKeyDown e KeyA s) (meteorsList s ! 0)"
proof -
  let ?i = "currentMeteorIndex s" and ?n = "int (length (meteorsList s))"
  have ne: "meteorsList s \<noteq> []" using assms(3,4) by auto
  have r: "currentMeteorIndex (onKeyDown e ArrowRight s) = min (?i + 1) (?n - 1)"
    using assms(2,3,4) ne
    by (simp add: next_meteor[OF assms(1)] lockOntoMeteorByIndex_index)
  have l: "currentMeteorIndex (onKeyDown e ArrowLeft s) = max (?i - 1) 0"
    using assms(2,3,4) ne
    by (simp add: previous_meteor[OF assms(1)] lockOntoMeteorByIndex_index)
  have a: "currentMeteorIndex (onKeyDown e KeyA s) = 0"
    using ne by (simp add: first_meteor[OF assms(1) ne] setCurrentMeteor_index indexOf_first)
  have re: "onKeyDown e ArrowRight s = s" if "?i = ?n - 1"
    using that by (simp add: next_meteor[OF assms(1)])
  have le: "onKeyDown e ArrowLeft s = s" if "?i = 0"
    using that by (simp add: previous_meteor[OF assms(1)])
  have rh: "locked_or_heading (onKeyDown e ArrowRight s) (meteorsList s ! nat (?i + 1))"
    if "?i < ?n - 1"
    using that assms(3) ne lockOntoMeteorByIndex_heads[OF assms(5), of "?i + 1" s]
    by (simp add: next_meteor[OF assms(1)])
  have lh: "locked_or_heading (onKeyDown e ArrowLeft s) (meteorsList s ! nat (?i - 1))"
    if "0 < ?i"
    using that assms(4) ne lockOntoMeteorByIndex_heads[OF assms(5), of "?i - 1" s]
    by (simp add: previous_meteor[OF assms(1)])
  have ah: "locked_or_heading (onKeyDown e KeyA s) (meteorsList s ! 0)"
    using lockOntoMeteor_heads[OF assms(5)] by (simp add: first_meteor[OF assms(1) ne])
  from r l a re le rh lh ah show ?thesis by blast
qed


text \<open>The theorem at a list of three meteors, the current index 0.\<close>

theorem meteor_navigation_witness:
  "\<not> isTransitioning (meteors_controller [5, 6, 7]) \<and>
   distinct (meteorsList (meteors_controller [5, 6, 7])) \<and>
   0 \<le> currentMeteorIndex (meteors_controller [5, 6, 7]) \<and>
   currentMeteorIndex (meteors_controller [5, 6, 7])
     < int (length (meteorsList (meteors_controller [5, 6, 7]))) \<and>
   isFinite (now (scene_at 0)) \<and>
   currentMeteorIndex (onKeyDown (scene_at 0) ArrowRight (meteors_controller [5, 6, 7])) = 1 \<and>
   locked_or_heading (onKeyDown (scene_at 0) ArrowRight (meteors_controller [5, 6, 7])) 6 \<and>
   onKeyDown (scene_at 0) ArrowLeft (meteors_controller [5, 6, 7]) = meteors_controller [5, 6, 7] \<and>
   currentMeteorIndex (onKeyDown (scene_at 0) KeyA (meteors_controller [5, 6, 7])) = 0 \<and>
   locked_or_heading (onKeyDown (scene_at 0) KeyA (meteors_controller [5, 6, 7])) 5"
proof -
  have f: "meteorsList (meteors_controller [5, 6, 7]) = [5, 6, 7]"
      "currentMeteorIndex (meteors_controller [5, 6, 7]) = 0"
      "\<not> isTransitioning (meteors_controller [5, 6, 7])"
    by (simp_all add: meteors_controller_def setMeteorsList_def demo_controller_explicit)
  have h: "distinct (meteorsList (meteors_controller [5, 6, 7]))"
      "0 \<le> currentMeteorIndex (meteors_controller [5, 6, 7])"
      "currentMeteorIndex (meteors_controller [5, 6, 7])
         < int (length (meteorsList (meteors_controller [5, 6, 7])))"
      "isFinite (now (scene_at 0))"
    by (simp_all add: f scene_at_def)
  from meteor_navigation[OF f(3) h] h f(3) show ?thesis by (simp add: f)
qed

text \<open>The next command from the index 0, in a list of three meteors and in a list that holds one meteor twice.\<close>

lemma meteors_next:
  "transition_onto (onKeyDown (scene_at 0) ArrowRight (meteors_controller [5, 6, 7])) 6 \<and>
   currentMeteorIndex (onKeyDown (scene_at 0) ArrowRight (meteors_controller [5, 6, 7])) = 1 \<and>
   meteorsList (onKeyDown (scene_at 0) ArrowRight (meteors_controller [5, 6, 7])) = [5, 6, 7]"
proof -
  let ?s = "meteors_controller [5, 6, 7]"
  have f: "meteorsList ?s = [5, 6, 7]" "currentMeteorIndex ?s = 0" "\<not> isTransitioning ?s"
      "lockMode ?s = LockNone" "lockedTarget ?s = None"
    by (simp_all add: meteors_controller_def setMeteorsList_def demo_controller_explicit)
  have eq: "onKeyDown (scene_at 0) ArrowRight ?s =
      lockOntoMeteor (scene_at 0) (Some 6) (Fin 1500)
        (setCurrentMeteor (Some 6) (?s\<lparr>currentMeteorIndex := 1\<rparr>))"
    by (simp add: next_meteor[OF f(3)] f lockOntoMeteorByIndex_eq)
  have "transition_onto (lockOntoMeteor (scene_at 0) (Some 6) (Fin 1500)
        (setCurrentMeteor (Some 6) (?s\<lparr>currentMeteorIndex := 1\<rparr>))) 6"
    by (rule lockOntoMeteor_starts) (simp_all add: f scene_at_def)
  then show ?thesis unfolding eq by (simp add: f setCurrentMeteor_index)
qed

lemma twice_next:
  "currentMeteorIndex (onKeyDown (scene_at 0) ArrowRight (meteors_controller [5, 5])) = 0 \<and>
   length (meteorsList (meteors_controller [5, 5])) = 2"
proof -
  let ?s = "meteors_controller [5, 5]"
  have f: "meteorsList ?s = [5, 5]" "currentMeteorIndex ?s = 0" "\<not> isTransitioning ?s"
    by (simp_all add: meteors_controller_def setMeteorsList_def demo_controller_explicit)
  show ?thesis
    by (simp add: next_meteor[OF f(3)] f lockOntoMeteorByIndex_eq setCurrentMeteor_index)
qed

text \<open>
  Claim C8 does not hold for every list and index. From the list of three meteors at the
  index 0 the next command moves to the index 1 and starts a transition; a second next
  command, or a previous command, 10 ms later finds the transition under way and leaves
  the index at 1. And in a list that holds the same meteor twice the next command leaves
  the index at 0, where \<^verbatim>\<open>indexOf\<close> finds the meteor.
\<close>

theorem meteor_navigation_counterexample:
  "(let s = run [(scene_at 0, SetMeteorsList [5, 6, 7]), (scene_at 0, KeyDown ArrowRight)]
              demo_controller
    in meteorsList s = [5, 6, 7] \<and> currentMeteorIndex s = 1 \<and>
       \<not> (currentMeteorIndex (run [(scene_at 10, KeyDown ArrowRight)] s) = 2) \<and>
       \<not> (currentMeteorIndex (run [(scene_at 10, KeyDown ArrowLeft)] s) = 0)) \<and>
   (let s = run [(scene_at 0, SetMeteorsList [5, 5])] demo_controller
    in length (meteorsList s) = 2 \<and> currentMeteorIndex s = 0 \<and>
       \<not> (currentMeteorIndex (run [(scene_at 0, KeyDown ArrowRight)] s) = 1))"
proof -
  let ?s = "onKeyDown (scene_at 0) ArrowRight (meteors_controller [5, 6, 7])"
  have t: "isTransitioning ?s" using meteors_next by (simp add: transition_onto_def)
  have "onKeyDown (scene_at 10) ArrowLeft ?s = ?s" "onKeyDown (scene_at 10) ArrowRight ?s = ?s"
    using t by (simp_all add: onKeyDown_during_transition)
  moreover have "currentMeteorIndex (meteors_controller [5, 5]) = 0"
    by (simp add: meteors_controller_def setMeteorsList_def)
  ultimately show ?thesis
    using meteors_next twice_next
    by (simp add: Let_def meteors_controller_def[symmetric])
qed

end
